theory Spec2Isabelle
  imports Main "HOL-Library.Word"
begin

section \<open>JavaScript strings, values and errors\<close>

text \<open>
  A JavaScript string is a sequence of UTF-16 code units. The escaping of
  \<^verbatim>\<open>escapeHtml\<close> speaks about U+2028 and U+2029, which are single code units,
  so strings are lists of 16-bit words; \<open>str\<close> embeds an ASCII literal.
\<close>

type_synonym code_unit = "16 word"
type_synonym jsstring = "code_unit list"

definition str :: "string \<Rightarrow> jsstring" where
  "str s = map of_char s"

text \<open>The decimal numeral a template literal prints for a non-negative integer.\<close>

fun dec :: "nat \<Rightarrow> jsstring" where
  "dec n = (if n < 10 then [of_nat (48 + n)] else dec (n div 10) @ [of_nat (48 + n mod 10)])"

declare dec.simps [simp del]

text \<open>\<^verbatim>\<open>Array.prototype.join\<close> on an array of strings.\<close>

fun join :: "jsstring \<Rightarrow> jsstring list \<Rightarrow> jsstring" where
  "join sep [] = []"
| "join sep [x] = x"
| "join sep (x # y # ys) = x @ sep @ join sep (y # ys)"

text \<open>
  What the code throws: \<^verbatim>\<open>new Error(message)\<close>, or the \<^verbatim>\<open>TypeError\<close> the
  engine raises when a property of \<^verbatim>\<open>undefined\<close> is read.
\<close>

datatype error = Error jsstring | TypeError

text \<open>
  The values \<^verbatim>\<open>invariant\<close> can be handed (its parameter is \<^verbatim>\<open>any\<close>).
  \<open>JObject\<close> stands for every value that is not listed: objects, arrays,
  functions, symbols and the numbers that are not integers.
\<close>

datatype 'o js_value =
    JUndefined
  | JNull
  | JBoolean bool
  | JNumber int
  | JNaN
  | JString jsstring
  | JObject 'o

section \<open>Scripts.tsx: the helpers\<close>

definition ESCAPE_LOOKUP :: "code_unit \<Rightarrow> jsstring option" where
  "ESCAPE_LOOKUP = map_of
     [(0x26, 0x5C # str ''u0026''),
      (0x3E, 0x5C # str ''u003e''),
      (0x3C, 0x5C # str ''u003c''),
      (0x2028, 0x5C # str ''u2028''),
      (0x2029, 0x5C # str ''u2029'')]"

text \<open>
  The character class of \<^verbatim>\<open>ESCAPE_REGEX\<close> (ampersand, greater-than, less-than,
  U+2028 and U+2029): without the unicode flag it matches one code unit at a time.
\<close>

definition ESCAPE_REGEX :: "code_unit \<Rightarrow> bool" where
  "ESCAPE_REGEX c = (c \<in> {0x26, 0x3E, 0x3C, 0x2028, 0x2029})"

text \<open>
  \<^verbatim>\<open>html.replace(ESCAPE_REGEX, (match) => ESCAPE_LOOKUP[match])\<close>: every match is
  replaced by what the callback returns, converted to a string (a missing table
  entry would print as \<^verbatim>\<open>undefined\<close>).
\<close>

definition escapeHtml :: "jsstring \<Rightarrow> jsstring" where
  "escapeHtml html =
     concat (map (\<lambda>c. if ESCAPE_REGEX c
                        then (case ESCAPE_LOOKUP c of Some r \<Rightarrow> r | None \<Rightarrow> str ''undefined'')
                        else [c]) html)"

text \<open>
  \<^verbatim>\<open>invariant(value, message?)\<close>: \<^verbatim>\<open>new Error(undefined)\<close> has the empty
  message.
\<close>

definition invariant :: "'o js_value \<Rightarrow> jsstring option \<Rightarrow> error + unit" where
  "invariant val message =
     (if val = JBoolean False \<or> val = JNull \<or> val = JUndefined
      then Inl (Error (case message of None \<Rightarrow> [] | Some m \<Rightarrow> m))
      else Inr ())"

text \<open>
  \<^verbatim>\<open>const addPrefix = (url, prefix?) => prefix ? prefix + url : url\<close>: the
  prefix is falsy when it is \<^verbatim>\<open>undefined\<close> or the empty string.
\<close>

definition addPrefix :: "jsstring \<Rightarrow> jsstring option \<Rightarrow> jsstring" where
  "addPrefix url prefix =
     (case prefix of
        None \<Rightarrow> url
      | Some p \<Rightarrow> if p \<noteq> [] then p @ url else url)"

text \<open>\<^verbatim>\<open>[...new Set(array)]\<close>: the first occurrence of every element, in order.\<close>

fun dedupe_from :: "'a list \<Rightarrow> 'a list \<Rightarrow> 'a list" where
  "dedupe_from seen [] = []"
| "dedupe_from seen (x # xs) =
     (if x \<in> set seen then dedupe_from seen xs else x # dedupe_from (x # seen) xs)"

definition dedupe :: "'a list \<Rightarrow> 'a list" where
  "dedupe array = dedupe_from [] array"

section \<open>The framework's data, as the components read it\<close>

text \<open>The asset manifest: \<^verbatim>\<open>manifest.routes[id]\<close> is \<open>None\<close> for an unknown id.\<close>

record route_entry =
  route_module :: jsstring
  route_imports :: "jsstring list option"

record manifest_entry =
  entry_module :: jsstring
  entry_imports :: "jsstring list"

record assets_manifest =
  manifest_url :: jsstring
  manifest_hmr_runtime :: "jsstring option"
  manifest_routes :: "jsstring \<Rightarrow> route_entry option"
  manifest_entry :: manifest_entry

text \<open>
  What a promise was rejected with, as \<^verbatim>\<open>_error\<close> holds it: \<^verbatim>\<open>null\<close>, of which no
  property can be read, or a value read by its \<^verbatim>\<open>message\<close> and its \<^verbatim>\<open>stack\<close>, each
  a string or \<^verbatim>\<open>undefined\<close> (an \<^verbatim>\<open>Error\<close> has both, a number or a string neither).
\<close>

record js_error =
  error_message :: "jsstring option"
  error_stack :: "jsstring option"

datatype rejection = NullRejection | Rejection js_error

text \<open>A tracked promise with the fields \<^verbatim>\<open>_error\<close> and \<^verbatim>\<open>_data\<close>.\<close>

record 'v tracked_promise =
  p_error :: "rejection option"
  p_data :: "'v option"

record 'v deferred_data =
  pendingKeys :: "jsstring list"
  deferredKeys :: "jsstring list"
  data :: "jsstring \<Rightarrow> 'v tracked_promise option"

text \<open>
  \<^verbatim>\<open>staticContext.activeDeferreds\<close> is an object from route ids to deferred
  data; the association list keeps the order of \<^verbatim>\<open>Object.entries\<close>.
\<close>

record 'v static_context =
  activeDeferreds :: "(jsstring \<times> 'v deferred_data) list option"

record route_match =
  route_id :: jsstring

record location =
  pathname :: jsstring

text \<open>
  A link descriptor as a route module's \<^verbatim>\<open>links()\<close> returns it; a page
  descriptor is one whose \<^verbatim>\<open>page\<close> is a string. \<open>link_rest\<close> holds the
  attributes the components copy without reading them.
\<close>

record 'a link_descriptor =
  page :: "jsstring option"
  rel :: "jsstring option"
  href :: "jsstring option"
  link_as :: "jsstring option"
  link_rest :: 'a

text \<open>
  The descriptors are objects, mutated in place: a heap of descriptors, an
  object being its index. A \<^verbatim>\<open>links\<close> function may allocate new objects or
  return old ones, so it maps a heap to the array it returns and the new heap;
  the objects it returns are objects of the new heap (indices below its length).
\<close>

type_synonym 'a heap = "'a link_descriptor list"

record 'a route_module =
  links :: "('a heap \<Rightarrow> nat list \<times> 'a heap) option"

text \<open>
  \<^verbatim>\<open>abortDelay\<close> is a number of the host, of a type \<open>'n\<close> of its own, or \<open>None\<close>
  when \<^verbatim>\<open>typeof abortDelay\<close> is not \<^verbatim>\<open>number\<close>.
\<close>

record ('a, 'n) remix_context =
  manifest :: assets_manifest
  routeModules :: "jsstring \<Rightarrow> 'a route_module option"
  serverHandoffString :: "jsstring option"
  abortDelay :: "'n option"

record ('v, 'r) data_router_context =
  router_routes :: 'r
  isStatic :: bool
  staticContext :: "'v static_context option"

record router_state =
  matches :: "route_match list"

record navigation =
  nav_location :: "location option"

text \<open>
  What the host supplies: \<^verbatim>\<open>JSON.stringify\<close> on a string and on a data value
  (where it can throw, or return \<^verbatim>\<open>undefined\<close> so that \<^verbatim>\<open>escapeHtml\<close> throws),
  the string a template literal prints for a number, the router's
  \<^verbatim>\<open>matchRoutes\<close>, whether \<^verbatim>\<open>process.env.NODE_ENV\<close> is \<^verbatim>\<open>development\<close>, and whether
  \<^verbatim>\<open>typeof document\<close> is \<^verbatim>\<open>undefined\<close>.
\<close>

record ('v, 'r, 'n) env =
  JSON_string :: "jsstring \<Rightarrow> jsstring"
  JSON_data :: "'v \<Rightarrow> error + jsstring"
  Number_string :: "'n \<Rightarrow> jsstring"
  matchRoutes :: "'r \<Rightarrow> location \<Rightarrow> route_match list option"
  development :: bool
  document_undefined :: bool

text \<open>The global \<^verbatim>\<open>__remixContext\<close> of the browser, with its counter \<^verbatim>\<open>a\<close>.\<close>

record remix_global =
  global_a :: "nat option"

section \<open>Scripts.tsx: the deferred hydration scripts\<close>

text \<open>
  An inline \<^verbatim>\<open><script>\<close> with \<^verbatim>\<open>dangerouslySetInnerHTML\<close>. React keys are not part
  of the markup and are left out of every element.
\<close>

record inline_script =
  inline_html :: jsstring
  inline_async :: bool

text \<open>
  \<^verbatim>\<open>JSON.stringify(toSerialize)\<close> for the object \<^verbatim>\<open>{message, stack}\<close> built from a
  rejection: reading \<^verbatim>\<open>.message\<close> of \<^verbatim>\<open>null\<close> is a \<^verbatim>\<open>TypeError\<close>; the stack is set
  in development only; a field that is \<^verbatim>\<open>undefined\<close> is not printed.
\<close>

definition toSerialize :: "('v, 'r, 'n) env \<Rightarrow> rejection \<Rightarrow> error + jsstring" where
  "toSerialize env r =
     (case r of
        NullRejection \<Rightarrow> Inl TypeError
      | Rejection e \<Rightarrow>
          Inr (str ''{'' @
               join (str '','')
                 ((case error_message e of
                     None \<Rightarrow> []
                   | Some m \<Rightarrow> [str ''\"message\":'' @ JSON_string env m]) @
                  (if development env
                   then (case error_stack e of
                           None \<Rightarrow> []
                         | Some s \<Rightarrow> [str ''\"stack\":'' @ JSON_string env s])
                   else [])) @
               str ''}''))"

definition ErrorDeferredHydrationScript ::
  "('v, 'r, 'n) env \<Rightarrow> jsstring \<Rightarrow> jsstring \<Rightarrow> rejection \<Rightarrow> error + inline_script" where
  "ErrorDeferredHydrationScript env dataKey routeId r =
     (case toSerialize env r of
        Inl x \<Rightarrow> Inl x
      | Inr s \<Rightarrow>
          Inr \<lparr>inline_html =
                 str ''__remixContext.r('' @ JSON_string env routeId @ str '', '' @
                 JSON_string env dataKey @ str '', !1, '' @ escapeHtml s @ str '');'',
               inline_async = False\<rparr>)"

text \<open>The props of \<^verbatim>\<open>DeferredHydrationScript\<close>, all optional.\<close>

record 'v dhs_props =
  dataKey :: "jsstring option"
  deferredData :: "'v deferred_data option"
  routeId :: "jsstring option"

text \<open>
  What it renders: a \<^verbatim>\<open>Suspense\<close> with its fallback, around either the blank
  script or an \<^verbatim>\<open>Await\<close> of \<^verbatim>\<open>deferredData.data[dataKey]\<close> for the route id and
  key. The script the \<^verbatim>\<open>Await\<close> renders once the data is there is
  \<open>DeferredHydrationScript_children\<close>; on an error it is
  \<open>ErrorDeferredHydrationScript\<close>.
\<close>

datatype 'v dhs_child =
    Blank inline_script
  | Await "'v tracked_promise option" jsstring jsstring

record 'v suspense =
  fallback :: "inline_script option"
  children :: "'v dhs_child"

definition blank_script :: inline_script where
  "blank_script = \<lparr>inline_html = str '' '', inline_async = True\<rparr>"

definition DeferredHydrationScript_children ::
  "('v, 'r, 'n) env \<Rightarrow> jsstring \<Rightarrow> jsstring \<Rightarrow> 'v \<Rightarrow> error + inline_script" where
  "DeferredHydrationScript_children env rid k d =
     (case JSON_data env d of
        Inl e \<Rightarrow> Inl e
      | Inr s \<Rightarrow>
          Inr \<lparr>inline_html =
                 str ''__remixContext.r('' @ JSON_string env rid @ str '', '' @
                 JSON_string env k @ str '', '' @ escapeHtml s @ str '');'',
               inline_async = True\<rparr>)"

text \<open>
  The guard \<^verbatim>\<open>typeof document === 'undefined' && deferredData && dataKey && routeId\<close>
  stands three times in the component; an empty string is falsy.
\<close>

definition on_server :: "('v, 'r, 'n) env \<Rightarrow> 'v dhs_props \<Rightarrow> bool" where
  "on_server env props =
     (document_undefined env \<and> deferredData props \<noteq> None \<and>
      (case dataKey props of None \<Rightarrow> False | Some k \<Rightarrow> k \<noteq> []) \<and>
      (case routeId props of None \<Rightarrow> False | Some r \<Rightarrow> r \<noteq> []))"

definition not_pending_message :: "jsstring \<Rightarrow> jsstring \<Rightarrow> jsstring" where
  "not_pending_message rid k =
     str ''Deferred data for route '' @ rid @ str '' with key '' @ k @
     str '' was not pending but tried to render a script for it.''"

definition DeferredHydrationScript ::
  "('v, 'r, 'n) env \<Rightarrow> 'v dhs_props \<Rightarrow> error + 'v suspense" where
  "DeferredHydrationScript env props =
     (case (deferredData props, dataKey props, routeId props) of
        (Some dd, Some k, Some rid) \<Rightarrow>
          if on_server env props
          then (case invariant (JBoolean (k \<in> set (pendingKeys dd)) :: unit js_value)
                       (Some (not_pending_message rid k)) of
                  Inl e \<Rightarrow> Inl e
                | Inr u \<Rightarrow> Inr \<lparr>fallback = None, children = Await (data dd k) rid k\<rparr>)
          else Inr \<lparr>fallback = Some blank_script, children = Blank blank_script\<rparr>
      | _ \<Rightarrow> Inr \<lparr>fallback = Some blank_script, children = Blank blank_script\<rparr>)"

section \<open>Scripts.tsx: the initial scripts\<close>

text \<open>
  The functions \<^verbatim>\<open>__remixContext.p\<close>, \<^verbatim>\<open>n\<close> and \<^verbatim>\<open>r\<close>, as the array of
  lines joined by a newline.
\<close>

definition remixContextHelpers :: "('v, 'r, 'n) env \<Rightarrow> 'n option \<Rightarrow> jsstring" where
  "remixContextHelpers env delay = join [0x0A]
     [str ''__remixContext.p = function(v,e,p,x) {'',
      str ''  if (typeof e !== 'undefined') {'',
      str ''    x=new Error(e.message);'',
      if development env then str ''x.stack=e.stack;'' else [],
      str ''    p=Promise.reject(x);'',
      str ''  } else {'',
      str ''    p=Promise.resolve(v);'',
      str ''  }'',
      str ''  return p;'',
      str ''};'',
      str ''__remixContext.n = function(i,k) {'',
      str ''  __remixContext.t = __remixContext.t || {};'',
      str ''  __remixContext.t[i] = __remixContext.t[i] || {};'',
      str ''  let p = new Promise((r, e) => {__remixContext.t[i][k] = {r:(v)=>{r(v);},e:(v)=>{e(v);}};});'',
      (case delay of
         Some ms \<Rightarrow>
           str ''setTimeout(() => {if(typeof p._error !== \"undefined\" || typeof p._data !== \"undefined\"){return;} __remixContext.t[i][k].e(new Error(\"Server timeout.\"))}, '' @
           Number_string env ms @ str '');''
       | None \<Rightarrow> []),
      str ''  return p;'',
      str ''};'',
      str ''__remixContext.r = function(i,k,v,e,p,x) {'',
      str ''  p = __remixContext.t[i][k];'',
      str ''  if (typeof e !== 'undefined') {'',
      str ''    x=new Error(e.message);'',
      if development env then str ''x.stack=e.stack;'' else [],
      str ''    p.e(x);'',
      str ''  } else {'',
      str ''    p.r(v);'',
      str ''  }'',
      str ''};'']"

definition not_resolved_message :: "jsstring \<Rightarrow> jsstring" where
  "not_resolved_message k =
     str ''The deferred data for '' @ k @
     str '' was not resolved, did you forget to return data from a deferred promise?''"

text \<open>
  The callback of \<^verbatim>\<open>deferredData.deferredKeys.map\<close>: the text of one key's
  assignment. It pushes onto \<^verbatim>\<open>deferredScripts\<close>, so the array is passed
  and returned.
\<close>

definition promiseKeyValue ::
  "('v, 'r, 'n) env \<Rightarrow> jsstring \<Rightarrow> 'v deferred_data \<Rightarrow> jsstring \<Rightarrow> 'v dhs_props list \<Rightarrow>
   error + (jsstring \<times> 'v dhs_props list)" where
  "promiseKeyValue env rid dd k deferredScripts =
     (if k \<in> set (pendingKeys dd)
      then Inr (JSON_string env k @ str '':__remixContext.n('' @ JSON_string env rid @
                str '', '' @ JSON_string env k @ str '')'',
                deferredScripts @
                [\<lparr>dataKey = Some k, deferredData = Some dd, routeId = Some rid\<rparr>])
      else
        (case data dd k of
           None \<Rightarrow> Inl TypeError
         | Some trackedPromise \<Rightarrow>
             (case p_error trackedPromise of
                Some r \<Rightarrow>
                  (case toSerialize env r of
                     Inl x \<Rightarrow> Inl x
                   | Inr s \<Rightarrow>
                       Inr (JSON_string env k @ str '':__remixContext.p(!1, '' @
                            escapeHtml s @ str '')'',
                            deferredScripts))
              | None \<Rightarrow>
                  (case p_data trackedPromise of
                     None \<Rightarrow> Inl (Error (not_resolved_message k))
                   | Some d \<Rightarrow>
                       (case JSON_data env d of
                          Inl e \<Rightarrow> Inl e
                        | Inr s \<Rightarrow>
                            Inr (JSON_string env k @ str '':__remixContext.p('' @
                                 escapeHtml s @ str '')'',
                                 deferredScripts))))))"

fun promiseKeyValues ::
  "('v, 'r, 'n) env \<Rightarrow> jsstring \<Rightarrow> 'v deferred_data \<Rightarrow> jsstring list \<Rightarrow> 'v dhs_props list \<Rightarrow>
   error + (jsstring list \<times> 'v dhs_props list)" where
  "promiseKeyValues env rid dd [] ds = Inr ([], ds)"
| "promiseKeyValues env rid dd (k # ks) ds =
     (case promiseKeyValue env rid dd k ds of
        Inl e \<Rightarrow> Inl e
      | Inr (s, ds') \<Rightarrow>
          (case promiseKeyValues env rid dd ks ds' of
             Inl e \<Rightarrow> Inl e
           | Inr (ss, ds'') \<Rightarrow> Inr (s # ss, ds'')))"

text \<open>The callback of \<^verbatim>\<open>Object.entries(activeDeferreds).map\<close>: one route's statement.\<close>

definition objectAssign ::
  "('v, 'r, 'n) env \<Rightarrow> jsstring \<Rightarrow> 'v deferred_data \<Rightarrow> 'v dhs_props list \<Rightarrow>
   error + (jsstring \<times> 'v dhs_props list)" where
  "objectAssign env rid dd ds =
     (case promiseKeyValues env rid dd (deferredKeys dd) ds of
        Inl e \<Rightarrow> Inl e
      | Inr (kvs, ds') \<Rightarrow>
          Inr (str ''Object.assign(__remixContext.state.loaderData['' @ JSON_string env rid @
               str ''], {'' @ join [0x2C, 0x0A] kvs @ str ''});'',
               ds'))"

fun objectAssigns ::
  "('v, 'r, 'n) env \<Rightarrow> (jsstring \<times> 'v deferred_data) list \<Rightarrow> 'v dhs_props list \<Rightarrow>
   error + (jsstring list \<times> 'v dhs_props list)" where
  "objectAssigns env [] ds = Inr ([], ds)"
| "objectAssigns env ((rid, dd) # rest) ds =
     (case objectAssign env rid dd ds of
        Inl e \<Rightarrow> Inl e
      | Inr (s, ds') \<Rightarrow>
          (case objectAssigns env rest ds' of
             Inl e \<Rightarrow> Inl e
           | Inr (ss, ds'') \<Rightarrow> Inr (s # ss, ds'')))"

text \<open>The assignment of \<^verbatim>\<open>__remixContext.a\<close>, appended when a script was pushed.\<close>

definition activeCount :: "'v dhs_props list \<Rightarrow> jsstring" where
  "activeCount deferredScripts =
     (if length deferredScripts > 0
      then str ''__remixContext.a='' @ dec (length deferredScripts) @ str '';''
      else [])"

definition handoff :: "('a, 'n) remix_context \<Rightarrow> ('v, 'r) data_router_context \<Rightarrow> jsstring" where
  "handoff remixContext dataRouter =
     (case staticContext dataRouter of
        Some sc \<Rightarrow>
          str ''window.__remixContext = '' @
          (case serverHandoffString remixContext of None \<Rightarrow> str ''undefined'' | Some h \<Rightarrow> h) @
          str '';''
      | None \<Rightarrow> str '' '')"

definition contextScript ::
  "('v, 'r, 'n) env \<Rightarrow> ('a, 'n) remix_context \<Rightarrow> ('v, 'r) data_router_context \<Rightarrow>
   error + (jsstring \<times> 'v dhs_props list)" where
  "contextScript env remixContext dataRouter =
     (case (case staticContext dataRouter of None \<Rightarrow> None | Some sc \<Rightarrow> activeDeferreds sc) of
        None \<Rightarrow> Inr (handoff remixContext dataRouter @ [], [])
      | Some entries \<Rightarrow>
          (case objectAssigns env entries [] of
             Inl e \<Rightarrow> Inl e
           | Inr (statements, deferredScripts) \<Rightarrow>
               Inr (handoff remixContext dataRouter @
                    (remixContextHelpers env (abortDelay remixContext) @
                     join [0x0A] statements @
                     activeCount deferredScripts),
                    deferredScripts)))"

text \<open>
  \<^verbatim>\<open>manifest.routes[match.route.id]\<close> for every match; reading \<^verbatim>\<open>.module\<close> or
  \<^verbatim>\<open>.imports\<close> of a route the manifest does not have is a \<^verbatim>\<open>TypeError\<close>.
\<close>

fun lookup_routes :: "assets_manifest \<Rightarrow> route_match list \<Rightarrow> error + route_entry list" where
  "lookup_routes m [] = Inr []"
| "lookup_routes m (x # xs) =
     (case manifest_routes m (route_id x) of
        None \<Rightarrow> Inl TypeError
      | Some route \<Rightarrow>
          (case lookup_routes m xs of
             Inl e \<Rightarrow> Inl e
           | Inr routes \<Rightarrow> Inr (route # routes)))"

text \<open>The template literal of the module script; \<open>enumerate 0\<close> gives \<^verbatim>\<open>index\<close>.\<close>

definition routeModulesScript ::
  "('v, 'r, 'n) env \<Rightarrow> assets_manifest \<Rightarrow> route_match list \<Rightarrow> bool \<Rightarrow> jsstring option \<Rightarrow>
   error + jsstring" where
  "routeModulesScript env m ms static prefix =
     (if \<not> static then Inr (str '' '')
      else
        (case lookup_routes m ms of
           Inl e \<Rightarrow> Inl e
         | Inr routes \<Rightarrow>
             Inr ((case manifest_hmr_runtime m of
                     None \<Rightarrow> []
                   | Some runtime \<Rightarrow>
                       if runtime \<noteq> []
                       then str ''import '' @ JSON_string env runtime @ str '';''
                       else []) @
                  str ''import '' @ JSON_string env (addPrefix (manifest_url m) prefix) @ str '';'' @
                  [0x0A] @
                  join [0x0A]
                    (map (\<lambda>(index, route).
                            str ''import * as route'' @ dec index @ str '' from '' @
                            JSON_string env (addPrefix (route_module route) prefix) @ str '';'')
                       (enumerate 0 routes)) @
                  [0x0A] @
                  str ''window.__remixRouteModules = {'' @
                  join (str '','')
                    (map (\<lambda>(index, x).
                            JSON_string env (route_id x) @ str '':route'' @ dec index)
                       (enumerate 0 ms)) @
                  str ''};'' @
                  [0x0A, 0x0A] @
                  str ''import('' @
                  JSON_string env (addPrefix (entry_module (manifest_entry m)) prefix) @
                  str '');'')))"

text \<open>
  The props of \<^verbatim>\<open>Scripts\<close>: the prefix, and the script properties, of which
  the component reads \<^verbatim>\<open>crossOrigin\<close>; \<open>attrs\<close> holds the others.
\<close>

record 'p script_props =
  prefix :: "jsstring option"
  crossOrigin :: "jsstring option"
  attrs :: 'p

record 'p script_el =
  el_crossOrigin :: "jsstring option"
  el_attrs :: 'p
  el_html :: jsstring
  el_type :: "jsstring option"
  el_async :: bool

record link_el =
  link_rel :: jsstring
  link_href :: jsstring
  link_crossOrigin :: "jsstring option"

text \<open>
  The callback of the first \<^verbatim>\<open>useMemo\<close>: the two initial scripts, and the
  deferred scripts it pushed.
\<close>

definition initialScripts ::
  "('v, 'r, 'n) env \<Rightarrow> 'p script_props \<Rightarrow> ('a, 'n) remix_context \<Rightarrow> ('v, 'r) data_router_context \<Rightarrow>
   router_state \<Rightarrow> error + (('p script_el \<times> 'p script_el) \<times> 'v dhs_props list)" where
  "initialScripts env p remixContext dataRouter routerContext =
     (case contextScript env remixContext dataRouter of
        Inl e \<Rightarrow> Inl e
      | Inr (cs, deferredScripts) \<Rightarrow>
          (case routeModulesScript env (manifest remixContext) (matches routerContext)
                  (isStatic dataRouter) (prefix p) of
             Inl e \<Rightarrow> Inl e
           | Inr rms \<Rightarrow>
               Inr ((\<lparr>el_crossOrigin = crossOrigin p, el_attrs = attrs p, el_html = cs,
                      el_type = None, el_async = False\<rparr>,
                     \<lparr>el_crossOrigin = crossOrigin p, el_attrs = attrs p, el_html = rms,
                      el_type = Some (str ''module''), el_async = True\<rparr>),
                    deferredScripts)))"

section \<open>Scripts.tsx: the component\<close>

text \<open>
  The second \<^verbatim>\<open>useMemo\<close>: the matches of the location being navigated to.
  \<^verbatim>\<open>matchRoutes\<close> returns an array or \<^verbatim>\<open>null\<close>, and \<^verbatim>\<open>invariant\<close> throws on
  \<^verbatim>\<open>null\<close>.
\<close>

definition no_match_message :: "location \<Rightarrow> jsstring" where
  "no_match_message loc = str ''No routes match path \"'' @ pathname loc @ str ''\"''"

definition nextMatches ::
  "('v, 'r, 'n) env \<Rightarrow> ('v, 'r) data_router_context \<Rightarrow> navigation \<Rightarrow> error + route_match list" where
  "nextMatches env dataRouter nav =
     (case nav_location nav of
        None \<Rightarrow> Inr []
      | Some loc \<Rightarrow>
          (case matchRoutes env (router_routes dataRouter) loc of
             None \<Rightarrow>
               (case invariant (JNull :: unit js_value) (Some (no_match_message loc)) of
                  Inl e \<Rightarrow> Inl e
                | Inr u \<Rightarrow> Inr [])
           | Some ms \<Rightarrow>
               (case invariant (JObject ms) (Some (no_match_message loc)) of
                  Inl e \<Rightarrow> Inl e
                | Inr u \<Rightarrow> Inr ms)))"

definition routePreloads :: "assets_manifest \<Rightarrow> route_match list \<Rightarrow> error + jsstring list" where
  "routePreloads m ms =
     (case lookup_routes m ms of
        Inl e \<Rightarrow> Inl e
      | Inr routes \<Rightarrow>
          Inr (concat (map (\<lambda>route.
                              (case route_imports route of None \<Rightarrow> [] | Some imps \<Rightarrow> imps) @
                              [route_module route]) routes)))"

definition modulepreload :: "jsstring \<Rightarrow> jsstring option \<Rightarrow> link_el" where
  "modulepreload h co = \<lparr>link_rel = str ''modulepreload'', link_href = h, link_crossOrigin = co\<rparr>"

text \<open>The element \<^verbatim>\<open><DeferredHydrationScript key={i} />\<close>: no props.\<close>

definition placeholder :: "'v dhs_props" where
  "placeholder = \<lparr>dataKey = None, deferredData = None, routeId = None\<rparr>"

record ('v, 'p) scripts_out =
  out_links :: "link_el list"
  out_initialScripts :: "('p script_el \<times> 'p script_el) option"
  out_deferredScripts :: "'v dhs_props list"

text \<open>
  One render of \<^verbatim>\<open>Scripts\<close> in which React runs the \<^verbatim>\<open>useMemo\<close> callbacks (the
  render that mounts the component). The contexts are \<open>None\<close> when React has
  none to give; \<open>isHydrated\<close> is the module's variable as the render finds it,
  and \<open>global\<close> is \<^verbatim>\<open>__remixContext\<close>, \<open>None\<close> where \<^verbatim>\<open>typeof __remixContext\<close>
  is not \<^verbatim>\<open>object\<close>. The result is the fragment returned: the
  \<^verbatim>\<open>modulepreload\<close> links, then \<^verbatim>\<open>!isHydrated && initialScripts\<close> and
  \<^verbatim>\<open>!isHydrated && deferredScripts\<close>.
\<close>

definition Scripts ::
  "('v, 'r, 'n) env \<Rightarrow> 'p script_props \<Rightarrow> ('a, 'n) remix_context option \<Rightarrow>
   ('v, 'r) data_router_context option \<Rightarrow> router_state option \<Rightarrow> navigation \<Rightarrow> bool \<Rightarrow>
   remix_global option \<Rightarrow> error + ('v, 'p) scripts_out" where
  "Scripts env p remixContext routeModulesCtx routerContext nav isHydrated global =
     (case (remixContext, routeModulesCtx, routerContext) of
        (Some rc, Some dr, Some rs) \<Rightarrow>
          (case initialScripts env p rc dr rs of
             Inl e \<Rightarrow> Inl e
           | Inr (initial, pushed) \<Rightarrow>
               (let deferredScripts =
                      pushed @
                      (if \<not> isStatic dr
                       then (case global of
                               None \<Rightarrow> []
                             | Some g \<Rightarrow>
                                 (case global_a g of
                                    None \<Rightarrow> []
                                  | Some a \<Rightarrow> replicate a placeholder))
                       else [])
                in case nextMatches env dr nav of
                     Inl e \<Rightarrow> Inl e
                   | Inr next \<Rightarrow>
                       (case routePreloads (manifest rc) (matches rs @ next) of
                          Inl e \<Rightarrow> Inl e
                        | Inr rp \<Rightarrow>
                            (let preloads =
                                   (if isHydrated then []
                                    else entry_imports (manifest_entry (manifest rc)) @ rp)
                             in Inr \<lparr>out_links =
                                       [modulepreload (addPrefix (manifest_url (manifest rc)) (prefix p))
                                          (crossOrigin p),
                                        modulepreload
                                          (addPrefix (entry_module (manifest_entry (manifest rc)))
                                             (prefix p))
                                          (crossOrigin p)] @
                                       map (\<lambda>path. modulepreload (addPrefix path (prefix p))
                                                      (crossOrigin p))
                                         (dedupe preloads),
                                     out_initialScripts =
                                       (if isHydrated then None else Some initial),
                                     out_deferredScripts =
                                       (if isHydrated then [] else deferredScripts)\<rparr>))))
      | _ \<Rightarrow> Inl (Error (str ''Context Must Provide'')))"

section \<open>Links.tsx\<close>

definition dedupeHrefs :: "jsstring list \<Rightarrow> jsstring list" where
  "dedupeHrefs hrefs = dedupe_from [] hrefs"

definition isPageLinkDescriptor :: "'a link_descriptor \<Rightarrow> bool" where
  "isPageLinkDescriptor object = (page object \<noteq> None)"

text \<open>
  \<^verbatim>\<open>getCurrentPageModulePreloadHrefs\<close>: the manifest is \<open>None\<close> when \<^verbatim>\<open>Links\<close> found
  no Remix context, and is read only when there is a match.
\<close>

definition getCurrentPageModulePreloadHrefs ::
  "route_match list \<Rightarrow> assets_manifest option \<Rightarrow> error + jsstring list" where
  "getCurrentPageModulePreloadHrefs ms m =
     (case ms of
        [] \<Rightarrow> Inr (dedupeHrefs [])
      | x # xs \<Rightarrow>
          (case m of
             None \<Rightarrow> Inl TypeError
           | Some mf \<Rightarrow>
               (case lookup_routes mf ms of
                  Inl e \<Rightarrow> Inl e
                | Inr routes \<Rightarrow>
                    Inr (dedupeHrefs
                           (concat (map (\<lambda>route.
                                           [route_module route] @
                                           (case route_imports route of
                                              None \<Rightarrow> []
                                            | Some imps \<Rightarrow> imps)) routes))))))"

text \<open>
  \<^verbatim>\<open>dedupe(descriptors, preloads)\<close> of Links.tsx, a \<^verbatim>\<open>reduce\<close> with the set of the
  strings seen. \<open>stringify\<close> is \<^verbatim>\<open>JSON.stringify\<close> on a descriptor.
\<close>

fun dedupe_links ::
  "('a link_descriptor \<Rightarrow> jsstring) \<Rightarrow> 'a heap \<Rightarrow> jsstring list \<Rightarrow> jsstring list \<Rightarrow> nat list \<Rightarrow>
   nat list" where
  "dedupe_links stringify h preloads seen [] = []"
| "dedupe_links stringify h preloads seen (r # rs) =
     (let descriptor = h ! r;
          alreadyModulePreload =
            (\<not> isPageLinkDescriptor descriptor \<and>
             link_as descriptor = Some (str ''script'') \<and>
             (case href descriptor of
                None \<Rightarrow> False
              | Some x \<Rightarrow> x \<noteq> [] \<and> x \<in> set preloads))
      in if alreadyModulePreload then dedupe_links stringify h preloads seen rs
         else if stringify descriptor \<in> set seen
         then dedupe_links stringify h preloads seen rs
         else r # dedupe_links stringify h preloads (stringify descriptor # seen) rs)"

text \<open>\<^verbatim>\<open>module.links?.() || []\<close>.\<close>

definition call_links :: "'a route_module \<Rightarrow> 'a heap \<Rightarrow> nat list \<times> 'a heap" where
  "call_links module h = (case links module of None \<Rightarrow> ([], h) | Some f \<Rightarrow> f h)"

text \<open>
  The body of the \<^verbatim>\<open>forEach\<close> in \<^verbatim>\<open>getLinksForMatches\<close>: it writes the href of a
  stylesheet descriptor in place.
\<close>

definition prefix_stylesheet :: "jsstring \<Rightarrow> 'a heap \<Rightarrow> nat \<Rightarrow> 'a heap" where
  "prefix_stylesheet pre h r =
     (let link = h ! r
      in if \<not> isPageLinkDescriptor link
         then (case href link of
                 None \<Rightarrow> h
               | Some x \<Rightarrow>
                   if rel link = Some (str ''stylesheet'') \<and> x \<noteq> []
                   then h[r := link\<lparr>href := Some (pre @ x)\<rparr>]
                   else h)
         else h)"

text \<open>
  The callback of \<^verbatim>\<open>matches.map\<close>: it calls \<^verbatim>\<open>links()\<close>, writes into what that
  call returned, and returns what a second call of \<^verbatim>\<open>links()\<close> gives.
\<close>

fun match_links ::
  "(jsstring \<Rightarrow> 'a route_module option) option \<Rightarrow> jsstring \<Rightarrow> route_match list \<Rightarrow> 'a heap \<Rightarrow>
   error + (nat list list \<times> 'a heap)" where
  "match_links rms pre [] h = Inr ([], h)"
| "match_links rms pre (x # xs) h =
     (case rms of
        None \<Rightarrow> Inl TypeError
      | Some f \<Rightarrow>
          (case f (route_id x) of
             None \<Rightarrow> Inl TypeError
           | Some module \<Rightarrow>
               (case call_links module h of
                  (ls, h1) \<Rightarrow>
                    (case call_links module (foldl (prefix_stylesheet pre) h1 ls) of
                       (result, h3) \<Rightarrow>
                         (case match_links rms pre xs h3 of
                            Inl e \<Rightarrow> Inl e
                          | Inr (others, h4) \<Rightarrow> Inr (result # others, h4))))))"

text \<open>
  \<^verbatim>\<open>getLinksForMatches\<close>: \<^verbatim>\<open>matches\<close> is \<open>None\<close> when \<^verbatim>\<open>Links\<close> found no router
  state; the prefix defaults to the empty string.
\<close>

definition getLinksForMatches ::
  "('a link_descriptor \<Rightarrow> jsstring) \<Rightarrow> route_match list option \<Rightarrow>
   (jsstring \<Rightarrow> 'a route_module option) option \<Rightarrow> assets_manifest option \<Rightarrow> jsstring option \<Rightarrow>
   'a heap \<Rightarrow> error + (nat list \<times> 'a heap)" where
  "getLinksForMatches stringify matches_opt rms m pre h =
     (case matches_opt of
        None \<Rightarrow> Inl TypeError
      | Some ms \<Rightarrow>
          (case match_links rms (case pre of None \<Rightarrow> [] | Some p \<Rightarrow> p) ms h of
             Inl e \<Rightarrow> Inl e
           | Inr (descriptors, h') \<Rightarrow>
               (case getCurrentPageModulePreloadHrefs ms m of
                  Inl e \<Rightarrow> Inl e
                | Inr preloads \<Rightarrow>
                    Inr (dedupe_links stringify h' preloads [] (concat descriptors), h'))))"

text \<open>
  The body of the \<^verbatim>\<open>forEach\<close> in \<^verbatim>\<open>Links\<close>. \<^verbatim>\<open>prefix + href\<close> prints an undefined
  href as \<^verbatim>\<open>undefined\<close>.
\<close>

definition parseLink :: "jsstring option \<Rightarrow> 'a heap \<Rightarrow> nat \<Rightarrow> 'a heap" where
  "parseLink pre h r =
     (let link = h ! r
      in if \<not> isPageLinkDescriptor link
         then (if rel link = Some (str ''stylesheet'')
               then h[r := link\<lparr>href :=
                      (case pre of
                         None \<Rightarrow> href link
                       | Some p \<Rightarrow>
                           if p \<noteq> []
                           then Some (p @ (case href link of
                                             None \<Rightarrow> str ''undefined''
                                           | Some x \<Rightarrow> x))
                           else href link)\<rparr>]
               else h)
         else (case page link of
                 None \<Rightarrow> h
               | Some pg \<Rightarrow>
                   if pg \<noteq> []
                   then h[r := link\<lparr>page := Some (addPrefix pg pre)\<rparr>]
                   else h))"

text \<open>
  What \<^verbatim>\<open>Links\<close> returns: a \<^verbatim>\<open>PrefetchPageLinks\<close> for a page descriptor, a
  \<^verbatim>\<open><link>\<close> for the others, each with the descriptor's fields as they are when
  the render ends. (The renaming of \<^verbatim>\<open>imagesrcset\<close> and \<^verbatim>\<open>imagesizes\<close> touches
  only attributes that \<open>link_rest\<close> stands for.)
\<close>

datatype 'a links_element =
    PrefetchPageLinks "'a link_descriptor"
  | LinkTag "'a link_descriptor"

text \<open>
  One render of \<^verbatim>\<open>Links\<close>. \<open>memo\<close> is what \<^verbatim>\<open>useMemo\<close> holds: \<open>None\<close> at the first
  render or after a dependency changed, so that \<^verbatim>\<open>getLinksForMatches\<close> runs, and
  \<open>Some\<close> of the array of the render before when \<^verbatim>\<open>matches\<close>,
  \<^verbatim>\<open>routeModules\<close>, \<^verbatim>\<open>manifest\<close> and \<^verbatim>\<open>prefix\<close> are the same. The result is the
  markup, the array \<^verbatim>\<open>useMemo\<close> now holds, and the heap.
\<close>

definition Links ::
  "('a link_descriptor \<Rightarrow> jsstring) \<Rightarrow> jsstring option \<Rightarrow> ('a, 'n) remix_context option \<Rightarrow>
   router_state option \<Rightarrow> nat list option \<Rightarrow> 'a heap \<Rightarrow>
   error + ('a links_element list \<times> nat list \<times> 'a heap)" where
  "Links stringify pre remixContext routerState memo h =
     (case (case memo of
              Some ls \<Rightarrow> Inr (ls, h)
            | None \<Rightarrow>
                getLinksForMatches stringify (map_option matches routerState)
                  (map_option routeModules remixContext) (map_option manifest remixContext)
                  pre h) of
        Inl e \<Rightarrow> Inl e
      | Inr (ls, h1) \<Rightarrow>
          (let h2 = foldl (parseLink pre) h1 ls
           in Inr (map (\<lambda>r. if isPageLinkDescriptor (h2 ! r)
                               then PrefetchPageLinks (h2 ! r)
                               else LinkTag (h2 ! r)) ls,
                   ls, h2)))"

section \<open>The context script as the browser runs it\<close>

text \<open>
  The functions \<^verbatim>\<open>__remixContext.n\<close>, \<^verbatim>\<open>p\<close> and \<^verbatim>\<open>r\<close> are written in the lines of
  \<open>remixContextHelpers\<close>; here they are functions on the state they read and
  write. A promise is its index in the list of the promises made so far: it is
  pending, resolved with the value of a JavaScript expression, or rejected with
  \<^verbatim>\<open>new Error(e.message)\<close> for the value \<^verbatim>\<open>e\<close> of an expression. An expression is kept
  as the script writes it.
\<close>

datatype settled = Pending | Resolved jsstring | Rejected jsstring

text \<open>
  \<^verbatim>\<open>__remixContext\<close> in the browser: the registry \<^verbatim>\<open>t\<close> (\<open>None\<close> while it is
  \<^verbatim>\<open>undefined\<close>; then an object from route ids to objects from data keys to the
  pair \<^verbatim>\<open>{r, e}\<close> that resolves and rejects one promise), the counter \<^verbatim>\<open>a\<close>, and
  the promises that \<^verbatim>\<open>state.loaderData[routeId]\<close> holds (\<open>None\<close> for a route id it
  has no object for).
\<close>

record browser =
  reg_t :: "(jsstring \<Rightarrow> (jsstring \<Rightarrow> nat option) option) option"
  reg_a :: "nat option"
  promises :: "settled list"
  loaderData :: "jsstring \<Rightarrow> (jsstring \<Rightarrow> nat option) option"

text \<open>
  \<^verbatim>\<open>__remixContext.n = function(i,k)\<close>: it makes \<^verbatim>\<open>t\<close> and \<^verbatim>\<open>t[i]\<close> where they are
  missing, makes a promise, stores the pair that settles it at \<^verbatim>\<open>t[i][k]\<close> and
  returns the promise. (The timer of \<^verbatim>\<open>abortDelay\<close> fires later and is no part of
  the call.)
\<close>

definition remixContext_n :: "jsstring \<Rightarrow> jsstring \<Rightarrow> browser \<Rightarrow> nat \<times> browser" where
  "remixContext_n i k b =
     (let t = (case reg_t b of None \<Rightarrow> (\<lambda>x. None) | Some t' \<Rightarrow> t');
          row = (case t i of None \<Rightarrow> (\<lambda>x. None) | Some row' \<Rightarrow> row');
          p = length (promises b)
      in (p, b\<lparr>reg_t := Some (t(i := Some (row(k := Some p)))),
                promises := promises b @ [Pending]\<rparr>))"

text \<open>
  \<^verbatim>\<open>__remixContext.p = function(v,e,p,x)\<close>: a promise rejected when \<^verbatim>\<open>e\<close> is given,
  resolved with \<^verbatim>\<open>v\<close> otherwise; the registry is not touched.
\<close>

definition remixContext_p :: "jsstring \<Rightarrow> jsstring option \<Rightarrow> browser \<Rightarrow> nat \<times> browser" where
  "remixContext_p v e b =
     (length (promises b),
      b\<lparr>promises := promises b @ [case e of None \<Rightarrow> Resolved v | Some x \<Rightarrow> Rejected x]\<rparr>)"

text \<open>
  \<^verbatim>\<open>__remixContext.r = function(i,k,v,e,p,x)\<close>: it reads \<^verbatim>\<open>t[i][k]\<close>, a
  \<^verbatim>\<open>TypeError\<close> where there is none, and rejects or resolves its promise; a
  promise that is settled stays as it is.
\<close>

definition remixContext_r ::
  "jsstring \<Rightarrow> jsstring \<Rightarrow> jsstring \<Rightarrow> jsstring option \<Rightarrow> browser \<Rightarrow> error + browser" where
  "remixContext_r i k v e b =
     (case reg_t b of
        None \<Rightarrow> Inl TypeError
      | Some t \<Rightarrow>
          (case t i of
             None \<Rightarrow> Inl TypeError
           | Some row \<Rightarrow>
               (case row k of
                  None \<Rightarrow> Inl TypeError
                | Some p \<Rightarrow>
                    Inr (if p < length (promises b) \<and> promises b ! p = Pending
                         then b\<lparr>promises :=
                                  (promises b)
                                    [p := (case e of None \<Rightarrow> Resolved v | Some x \<Rightarrow> Rejected x)]\<rparr>
                         else b))))"

text \<open>
  A call as an assignment of the context script writes it: of \<^verbatim>\<open>n\<close> with a route
  id and a key (in the text, as the string literals \<^verbatim>\<open>JSON.stringify\<close> gives), or
  of \<^verbatim>\<open>p\<close> with one expression or two.
\<close>

datatype call = CallN jsstring jsstring | CallP jsstring "jsstring option"

definition call_text :: "('v, 'r, 'n) env \<Rightarrow> call \<Rightarrow> jsstring" where
  "call_text env c =
     (case c of
        CallN i k \<Rightarrow>
          str ''__remixContext.n('' @ JSON_string env i @ str '', '' @ JSON_string env k @ str '')''
      | CallP v None \<Rightarrow> str ''__remixContext.p('' @ v @ str '')''
      | CallP v (Some e) \<Rightarrow> str ''__remixContext.p('' @ v @ str '', '' @ e @ str '')'')"

definition run_call :: "call \<Rightarrow> browser \<Rightarrow> nat \<times> browser" where
  "run_call c b = (case c of CallN i k \<Rightarrow> remixContext_n i k b | CallP v e \<Rightarrow> remixContext_p v e b)"

text \<open>
  A statement \<^verbatim>\<open>Object.assign(__remixContext.state.loaderData[routeId], {key: call, ...})\<close>:
  the calls run in the order of the object literal, then the promises they
  returned are assigned to the keys of \<^verbatim>\<open>loaderData[routeId]\<close>, a \<^verbatim>\<open>TypeError\<close>
  when that is \<^verbatim>\<open>undefined\<close>.
\<close>

definition statement_text :: "('v, 'r, 'n) env \<Rightarrow> jsstring \<times> (jsstring \<times> call) list \<Rightarrow> jsstring" where
  "statement_text env st =
     (case st of
        (rid, props) \<Rightarrow>
          str ''Object.assign(__remixContext.state.loaderData['' @ JSON_string env rid @
          str ''], {'' @
          join [0x2C, 0x0A]
            (map (\<lambda>(k, c). JSON_string env k @ str '':'' @ call_text env c) props) @
          str ''});'')"

fun run_props :: "(jsstring \<times> call) list \<Rightarrow> browser \<Rightarrow> (jsstring \<times> nat) list \<times> browser" where
  "run_props [] b = ([], b)"
| "run_props ((k, c) # rest) b =
     (case run_call c b of
        (p, b1) \<Rightarrow> (case run_props rest b1 of (vals, b2) \<Rightarrow> ((k, p) # vals, b2)))"

definition run_statement :: "jsstring \<times> (jsstring \<times> call) list \<Rightarrow> browser \<Rightarrow> error + browser" where
  "run_statement st b =
     (case st of
        (rid, props) \<Rightarrow>
          (case run_props props b of
             (vals, b1) \<Rightarrow>
               (case loaderData b1 rid of
                  None \<Rightarrow> Inl TypeError
                | Some row \<Rightarrow>
                    Inr (b1\<lparr>loaderData :=
                               (loaderData b1)
                                 (rid := Some (foldl (\<lambda>r (k, p). r(k := Some p)) row vals))\<rparr>))))"

fun run_statements :: "(jsstring \<times> (jsstring \<times> call) list) list \<Rightarrow> browser \<Rightarrow> error + browser" where
  "run_statements [] b = Inr b"
| "run_statements (st # sts) b =
     (case run_statement st b of Inl e \<Rightarrow> Inl e | Inr b1 \<Rightarrow> run_statements sts b1)"

text \<open>
  What the context script holds after \<^verbatim>\<open>window.__remixContext = ...\<close>: the
  helper functions, the statements, and \<^verbatim>\<open>__remixContext.a=n;\<close> when \<open>n\<close> is
  positive. Its text, and its run in a browser.
\<close>

record script =
  script_statements :: "(jsstring \<times> (jsstring \<times> call) list) list"
  script_active :: nat

definition script_text :: "('v, 'r, 'n) env \<Rightarrow> 'n option \<Rightarrow> script \<Rightarrow> jsstring" where
  "script_text env delay s =
     remixContextHelpers env delay @
     join [0x0A] (map (statement_text env) (script_statements s)) @
     (if script_active s > 0
      then str ''__remixContext.a='' @ dec (script_active s) @ str '';''
      else [])"

definition run_script :: "script \<Rightarrow> browser \<Rightarrow> error + browser" where
  "run_script s b =
     (case run_statements (script_statements s) b of
        Inl e \<Rightarrow> Inl e
      | Inr b1 \<Rightarrow> Inr (if script_active s > 0 then b1\<lparr>reg_a := Some (script_active s)\<rparr> else b1))"

text \<open>\<^verbatim>\<open>__remixContext.t[i][k]\<close>, where there is one.\<close>

definition registered :: "browser \<Rightarrow> jsstring \<Rightarrow> jsstring \<Rightarrow> nat option" where
  "registered b i k =
     (case reg_t b of
        None \<Rightarrow> None
      | Some t \<Rightarrow> (case t i of None \<Rightarrow> None | Some row \<Rightarrow> row k))"

text \<open>Every promise of the registry is one of the promises made, and pending.\<close>

definition registry_pending :: "browser \<Rightarrow> bool" where
  "registry_pending b =
     (\<forall>i k p. registered b i k = Some p \<longrightarrow> p < length (promises b) \<and> promises b ! p = Pending)"

text \<open>The global \<^verbatim>\<open>__remixContext\<close> as a render of \<^verbatim>\<open>Scripts\<close> in that browser reads it.\<close>

definition global_of :: "browser \<Rightarrow> remix_global option" where
  "global_of b = Some \<lparr>global_a = reg_a b\<rparr>"

section \<open>What the specification says of the context script\<close>

text \<open>
  The call the specification describes for one deferred key of a route:
  \<^verbatim>\<open>__remixContext.n(routeId, key)\<close> when the key is pending,
  \<^verbatim>\<open>__remixContext.p(!1, error)\<close> when its promise settled with an error,
  \<^verbatim>\<open>__remixContext.p(data)\<close> when it settled with data; \<open>None\<close> where it describes
  none.
\<close>

definition assigned_call ::
  "('v, 'r, 'n) env \<Rightarrow> jsstring \<Rightarrow> 'v deferred_data \<Rightarrow> jsstring \<Rightarrow> call option" where
  "assigned_call env rid dd k =
     (if k \<in> set (pendingKeys dd) then Some (CallN rid k)
      else
        (case data dd k of
           None \<Rightarrow> None
         | Some tp \<Rightarrow>
             (case p_error tp of
                Some r \<Rightarrow>
                  (case toSerialize env r of
                     Inl x \<Rightarrow> None
                   | Inr s \<Rightarrow> Some (CallP (str ''!1'') (Some (escapeHtml s))))
              | None \<Rightarrow>
                  (case p_data tp of
                     None \<Rightarrow> None
                   | Some d \<Rightarrow>
                       (case JSON_data env d of
                          Inl x \<Rightarrow> None
                        | Inr j \<Rightarrow> Some (CallP (escapeHtml j) None))))))"

text \<open>
  One statement per route, with one assignment per deferred key, and the number
  of the pending deferred keys.
\<close>

definition pendingCount :: "(jsstring \<times> 'v deferred_data) list \<Rightarrow> nat" where
  "pendingCount entries =
     sum_list (map (\<lambda>(rid, dd).
                      length (filter (\<lambda>k. k \<in> set (pendingKeys dd)) (deferredKeys dd))) entries)"

definition script_of :: "('v, 'r, 'n) env \<Rightarrow> (jsstring \<times> 'v deferred_data) list \<Rightarrow> script" where
  "script_of env entries =
     \<lparr>script_statements =
        map (\<lambda>(rid, dd). (rid, map (\<lambda>k. (k, the (assigned_call env rid dd k))) (deferredKeys dd)))
          entries,
      script_active = pendingCount entries\<rparr>"

text \<open>
  The pending deferred keys of all routes, as the props of the hydration script
  of each; the entries of a router context, none when it has no static context
  or no active deferreds; and the counter of the global.
\<close>

definition pendingScripts :: "(jsstring \<times> 'v deferred_data) list \<Rightarrow> 'v dhs_props list" where
  "pendingScripts entries =
     concat (map (\<lambda>(rid, dd).
                    map (\<lambda>k. \<lparr>dataKey = Some k, deferredData = Some dd, routeId = Some rid\<rparr>)
                      (filter (\<lambda>k. k \<in> set (pendingKeys dd)) (deferredKeys dd))) entries)"

definition deferreds_of :: "('v, 'r) data_router_context \<Rightarrow> (jsstring \<times> 'v deferred_data) list" where
  "deferreds_of dataRouter =
     (case staticContext dataRouter of
        None \<Rightarrow> []
      | Some sc \<Rightarrow> (case activeDeferreds sc of None \<Rightarrow> [] | Some entries \<Rightarrow> entries))"

definition global_count :: "remix_global option \<Rightarrow> nat" where
  "global_count global =
     (case global of
        None \<Rightarrow> 0
      | Some g \<Rightarrow> (case global_a g of None \<Rightarrow> 0 | Some a \<Rightarrow> a))"

text \<open>
  The URL the specification describes for an asset of the manifest: the prefix
  in front of the manifest's URL, and the URL itself when no prefix is supplied.
\<close>

definition prefixed :: "jsstring option \<Rightarrow> jsstring \<Rightarrow> jsstring" where
  "prefixed pre url = (case pre of None \<Rightarrow> url | Some x \<Rightarrow> x @ url)"

section \<open>Examples\<close>

text \<open>
  \<^verbatim>\<open>JSON.stringify\<close> puts a string that has no character to escape between double
  quotes; in the examples every string is such a string and the data values are
  strings.
\<close>

definition quote :: "jsstring \<Rightarrow> jsstring" where
  "quote s = [0x22] @ s @ [0x22]"

definition ex_env :: "bool \<Rightarrow> (jsstring, unit, nat) env" where
  "ex_env server =
     \<lparr>JSON_string = quote, JSON_data = (\<lambda>d. Inr (quote d)), Number_string = dec,
      matchRoutes = (\<lambda>routes loc. Some []),
      development = False, document_undefined = server\<rparr>"

definition ex_manifest :: assets_manifest where
  "ex_manifest =
     \<lparr>manifest_url = str ''/m.js'',
      manifest_hmr_runtime = None,
      manifest_routes =
        (\<lambda>x. if x = str ''root''
             then Some \<lparr>route_module = str ''/root.js'', route_imports = Some [str ''/lib.js'']\<rparr>
             else None),
      manifest_entry = \<lparr>entry_module = str ''/entry.js'', entry_imports = [str ''/lib.js'']\<rparr>\<rparr>"

text \<open>
  A route module whose \<^verbatim>\<open>links\<close> is
  \<^verbatim>\<open>() => [{rel: 'stylesheet', href: '/a.css'}, {page: '/next'}]\<close>: every call makes new
  objects.
\<close>

definition ex_sheet :: "jsstring \<Rightarrow> unit link_descriptor" where
  "ex_sheet h =
     \<lparr>page = None, rel = Some (str ''stylesheet''), href = Some h, link_as = None, link_rest = ()\<rparr>"

definition ex_page :: "jsstring \<Rightarrow> unit link_descriptor" where
  "ex_page pg = \<lparr>page = Some pg, rel = None, href = None, link_as = None, link_rest = ()\<rparr>"

definition ex_links :: "unit heap \<Rightarrow> nat list \<times> unit heap" where
  "ex_links h =
     ([length h, length h + 1], h @ [ex_sheet (str ''/a.css''), ex_page (str ''/next'')])"

definition ex_hmr_manifest :: assets_manifest where
  "ex_hmr_manifest = ex_manifest\<lparr>manifest_hmr_runtime := Some (str ''/hmr.js'')\<rparr>"

definition ex_remix :: "(unit, nat) remix_context" where
  "ex_remix =
     \<lparr>manifest = ex_manifest,
      routeModules = (\<lambda>x. if x = str ''root'' then Some \<lparr>links = Some ex_links\<rparr> else None),
      serverHandoffString = Some (str ''{}''),
      abortDelay = None\<rparr>"

definition ex_hmr_remix :: "(unit, nat) remix_context" where
  "ex_hmr_remix = ex_remix\<lparr>manifest := ex_hmr_manifest\<rparr>"

text \<open>
  Deferred data of the route \<^verbatim>\<open>root\<close>: key \<^verbatim>\<open>a\<close> is pending, \<^verbatim>\<open>b\<close> resolved to
  the string \<^verbatim>\<open>/x.js\<close>, \<^verbatim>\<open>c\<close> was rejected.
\<close>

definition ex_deferred :: "jsstring deferred_data" where
  "ex_deferred =
     \<lparr>pendingKeys = [str ''a''],
      deferredKeys = [str ''a'', str ''b'', str ''c''],
      data =
        (\<lambda>k. if k = str ''a'' then Some \<lparr>p_error = None, p_data = None\<rparr>
             else if k = str ''b'' then Some \<lparr>p_error = None, p_data = Some (str ''/x.js'')\<rparr>
             else if k = str ''c''
             then Some \<lparr>p_error = Some (Rejection \<lparr>error_message = Some (str ''no''),
                                               error_stack = None\<rparr>),
                        p_data = None\<rparr>
             else None)\<rparr>"

text \<open>
  Deferred data in which the key \<^verbatim>\<open>a\<close> is not pending and its promise has
  neither an error nor data.
\<close>

definition ex_lost :: "jsstring deferred_data" where
  "ex_lost =
     \<lparr>pendingKeys = [],
      deferredKeys = [str ''a''],
      data = (\<lambda>k. if k = str ''a'' then Some \<lparr>p_error = None, p_data = None\<rparr> else None)\<rparr>"

text \<open>The same with a second such key, \<^verbatim>\<open>b\<close>, after \<^verbatim>\<open>a\<close>.\<close>

definition ex_lost2 :: "jsstring deferred_data" where
  "ex_lost2 =
     \<lparr>pendingKeys = [],
      deferredKeys = [str ''a'', str ''b''],
      data = (\<lambda>k. if k = str ''a'' \<or> k = str ''b''
                   then Some \<lparr>p_error = None, p_data = None\<rparr> else None)\<rparr>"

definition ex_lost2_server :: "(jsstring, unit) data_router_context" where
  "ex_lost2_server =
     \<lparr>router_routes = (), isStatic = True,
      staticContext = Some \<lparr>activeDeferreds = Some [(str ''root'', ex_lost2)]\<rparr>\<rparr>"

text \<open>
  Deferred data of a route \<^verbatim>\<open>page\<close> in which the key \<^verbatim>\<open>b\<close> resolved to the string
  \<^verbatim>\<open>/x.js\<close> and the key \<^verbatim>\<open>a\<close>, after it, is not pending and has neither an error
  nor data; the route comes after the route \<^verbatim>\<open>root\<close>.
\<close>

definition ex_late :: "jsstring deferred_data" where
  "ex_late =
     \<lparr>pendingKeys = [],
      deferredKeys = [str ''b'', str ''a''],
      data =
        (\<lambda>k. if k = str ''b'' then Some \<lparr>p_error = None, p_data = Some (str ''/x.js'')\<rparr>
             else if k = str ''a'' then Some \<lparr>p_error = None, p_data = None\<rparr>
             else None)\<rparr>"

definition ex_late_server :: "(jsstring, unit) data_router_context" where
  "ex_late_server =
     \<lparr>router_routes = (), isStatic = True,
      staticContext =
        Some \<lparr>activeDeferreds = Some [(str ''root'', ex_deferred), (str ''page'', ex_late)]\<rparr>\<rparr>"

definition ex_lost_server :: "(jsstring, unit) data_router_context" where
  "ex_lost_server =
     \<lparr>router_routes = (), isStatic = True,
      staticContext = Some \<lparr>activeDeferreds = Some [(str ''root'', ex_lost)]\<rparr>\<rparr>"

definition ex_server :: "(jsstring, unit) data_router_context" where
  "ex_server =
     \<lparr>router_routes = (), isStatic = True,
      staticContext = Some \<lparr>activeDeferreds = Some [(str ''root'', ex_deferred)]\<rparr>\<rparr>"

definition ex_client :: "(jsstring, unit) data_router_context" where
  "ex_client = \<lparr>router_routes = (), isStatic = False, staticContext = None\<rparr>"

definition ex_state :: router_state where
  "ex_state = \<lparr>matches = [\<lparr>route_id = str ''root''\<rparr>]\<rparr>"

definition ex_props :: "jsstring option \<Rightarrow> unit script_props" where
  "ex_props pre = \<lparr>prefix = pre, crossOrigin = None, attrs = ()\<rparr>"

definition ex_a :: "jsstring dhs_props" where
  "ex_a = \<lparr>dataKey = Some (str ''a''), deferredData = Some ex_deferred, routeId = Some (str ''root'')\<rparr>"

text \<open>In the examples of \<^verbatim>\<open>Links\<close>, a descriptor is told by its href and page.\<close>

definition ex_stringify :: "unit link_descriptor \<Rightarrow> jsstring" where
  "ex_stringify d =
     (case href d of None \<Rightarrow> [] | Some x \<Rightarrow> x) @ [0x20] @ (case page d of None \<Rightarrow> [] | Some x \<Rightarrow> x)"

text \<open>
  A browser after \<^verbatim>\<open>window.__remixContext = ...\<close> ran: no registry, no counter,
  no promise yet, and \<^verbatim>\<open>state.loaderData\<close> with an object for the route \<^verbatim>\<open>root\<close>.
\<close>

definition ex_browser :: browser where
  "ex_browser =
     \<lparr>reg_t = None, reg_a = None, promises = [],
      loaderData = (\<lambda>x. if x = str ''root'' then Some (\<lambda>k. None) else None)\<rparr>"

section \<open>escapeHtml\<close>

lemma escapeHtml_Nil: "escapeHtml [] = []"
  by (simp add: escapeHtml_def)

lemma escapeHtml_append: "escapeHtml (s @ t) = escapeHtml s @ escapeHtml t"
  by (simp add: escapeHtml_def)

lemma escape_unit:
  "(if ESCAPE_REGEX c
    then (case ESCAPE_LOOKUP c of Some r \<Rightarrow> r | None \<Rightarrow> str ''undefined'')
    else [c]) =
   (if c = 0x26 then 0x5C # str ''u0026''
    else if c = 0x3E then 0x5C # str ''u003e''
    else if c = 0x3C then 0x5C # str ''u003c''
    else if c = 0x2028 then 0x5C # str ''u2028''
    else if c = 0x2029 then 0x5C # str ''u2029''
    else [c])"
  by (simp add: ESCAPE_REGEX_def ESCAPE_LOOKUP_def)

lemma escapeHtml_Cons:
  "escapeHtml (c # s) =
   (if c = 0x26 then 0x5C # str ''u0026''
    else if c = 0x3E then 0x5C # str ''u003e''
    else if c = 0x3C then 0x5C # str ''u003c''
    else if c = 0x2028 then 0x5C # str ''u2028''
    else if c = 0x2029 then 0x5C # str ''u2029''
    else [c]) @ escapeHtml s"
  unfolding escapeHtml_def list.map concat.simps escape_unit ..

lemma escapeHtml_clean: "d \<in> set (escapeHtml s) \<Longrightarrow> \<not> ESCAPE_REGEX d"
proof (induction s)
  case Nil
  then show ?case by (simp add: escapeHtml_Nil)
next
  case (Cons c s)
  from Cons.prems have "d \<in> set (escapeHtml s) \<or>
    d \<in> set (if c = 0x26 then 0x5C # str ''u0026''
    else if c = 0x3E then 0x5C # str ''u003e''
    else if c = 0x3C then 0x5C # str ''u003c''
    else if c = 0x2028 then 0x5C # str ''u2028''
    else if c = 0x2029 then 0x5C # str ''u2029''
    else [c])"
    unfolding escapeHtml_Cons by auto
  then show ?case
  proof
    assume "d \<in> set (escapeHtml s)"
    then show ?thesis by (rule Cons.IH)
  next
    assume "d \<in> set (if c = 0x26 then 0x5C # str ''u0026''
    else if c = 0x3E then 0x5C # str ''u003e''
    else if c = 0x3C then 0x5C # str ''u003c''
    else if c = 0x2028 then 0x5C # str ''u2028''
    else if c = 0x2029 then 0x5C # str ''u2029''
    else [c])"
    then show ?thesis
      by (auto simp: str_def ESCAPE_REGEX_def split: if_splits)
  qed
qed

lemma escapeHtml_id: "\<forall>d \<in> set s. \<not> ESCAPE_REGEX d \<Longrightarrow> escapeHtml s = s"
proof (induction s)
  case Nil
  show ?case by (simp add: escapeHtml_Nil)
next
  case (Cons c s)
  then have "\<not> ESCAPE_REGEX c" and "escapeHtml s = s" by simp_all
  then show ?case by (simp add: escapeHtml_Cons ESCAPE_REGEX_def)
qed

text \<open>
  Claim C9. For every string \<open>s\<close>, \<^verbatim>\<open>escapeHtml(s)\<close> contains none of the
  characters ampersand, less-than, greater-than, U+2028 and U+2029; each of them
  is replaced by its six-character escape sequence (a backslash, \<^verbatim>\<open>u\<close> and four
  hexadecimal digits) while every other character is unchanged; and so
  \<^verbatim>\<open>escapeHtml\<close> is idempotent.
\<close>

theorem escapeHtml_escapes:
  "set (escapeHtml s) \<inter> {0x26, 0x3C, 0x3E, 0x2028, 0x2029} = {} \<and>
   escapeHtml s =
     concat (map (\<lambda>c. if c = 0x26 then 0x5C # str ''u0026''
                       else if c = 0x3E then 0x5C # str ''u003e''
                       else if c = 0x3C then 0x5C # str ''u003c''
                       else if c = 0x2028 then 0x5C # str ''u2028''
                       else if c = 0x2029 then 0x5C # str ''u2029''
                       else [c]) s) \<and>
   escapeHtml (escapeHtml s) = escapeHtml s"
proof (intro conjI)
  show "set (escapeHtml s) \<inter> {0x26, 0x3C, 0x3E, 0x2028, 0x2029} = {}"
    using escapeHtml_clean [of _ s] by (auto simp: ESCAPE_REGEX_def)
  show "escapeHtml s = concat (map (\<lambda>c. if c = 0x26 then 0x5C # str ''u0026''
                       else if c = 0x3E then 0x5C # str ''u003e''
                       else if c = 0x3C then 0x5C # str ''u003c''
                       else if c = 0x2028 then 0x5C # str ''u2028''
                       else if c = 0x2029 then 0x5C # str ''u2029''
                       else [c]) s)"
    unfolding escapeHtml_def escape_unit ..
  show "escapeHtml (escapeHtml s) = escapeHtml s"
    by (rule escapeHtml_id) (simp add: escapeHtml_clean)
qed

theorem escapeHtml_escapes_witness:
  "escapeHtml (str ''a<b&'' @ [0x2028]) =
     str ''a'' @ 0x5C # str ''u003cb'' @ 0x5C # str ''u0026'' @ 0x5C # str ''u2028'' \<and>
   escapeHtml (escapeHtml (str ''a<b&'' @ [0x2028])) = escapeHtml (str ''a<b&'' @ [0x2028])"
  using escapeHtml_escapes [of "str ''a<b&'' @ [0x2028]"] by (simp add: str_def escapeHtml_def ESCAPE_REGEX_def ESCAPE_LOOKUP_def)

section \<open>invariant\<close>

text \<open>
  Claim C8. \<^verbatim>\<open>invariant\<close> throws if and only if its first argument is exactly
  \<^verbatim>\<open>false\<close>, \<^verbatim>\<open>null\<close> or \<^verbatim>\<open>undefined\<close>; for every other value, the falsy values
  \<^verbatim>\<open>0\<close>, \<^verbatim>\<open>NaN\<close> and the empty string among them, it returns; and the error it throws
  carries the message supplied.
\<close>

theorem invariant_throws:
  "((\<exists>e. invariant v m = Inl e) \<longleftrightarrow> (v = JBoolean False \<or> v = JNull \<or> v = JUndefined)) \<and>
   (invariant v (Some msg) = Inl e \<longrightarrow> e = Error msg) \<and>
   invariant (JNumber 0 :: 'o js_value) m = Inr () \<and>
   invariant (JNaN :: 'o js_value) m = Inr () \<and>
   invariant (JString [] :: 'o js_value) m = Inr ()"
  by (simp add: invariant_def)

theorem invariant_throws_witness:
  "invariant (JNull :: unit js_value) (Some (str ''no'')) = Inl (Error (str ''no'')) \<and>
   (\<exists>e. invariant (JNull :: unit js_value) (Some (str ''no'')) = Inl e) \<and>
   invariant (JBoolean True :: unit js_value) (Some (str ''no'')) = Inr ()"
  using invariant_throws [of "JNull :: unit js_value" "Some (str ''no'')" "str ''no''" "Error (str ''no'')"]
  by (simp add: invariant_def)

section \<open>The prefix of Scripts\<close>

lemma addPrefix_eq:
  "addPrefix url pre = (case pre of None \<Rightarrow> [] | Some x \<Rightarrow> x) @ url"
  by (simp add: addPrefix_def split: option.splits)

lemma routeModulesScript_empty:
  "routeModulesScript env m ms st (Some []) = routeModulesScript env m ms st None"
  by (simp add: routeModulesScript_def addPrefix_eq split: sum.splits)

lemma initialScripts_empty:
  "initialScripts env (p\<lparr>prefix := Some []\<rparr>) rc dr rs =
   initialScripts env (p\<lparr>prefix := None\<rparr>) rc dr rs"
  by (simp add: initialScripts_def routeModulesScript_empty split: sum.splits prod.splits)

text \<open>
  Claim C10. \<^verbatim>\<open>addPrefix\<close> with the empty string or with no prefix is the identity on
  URLs, so \<^verbatim>\<open>Scripts\<close> with the prefix \<^verbatim>\<open>""\<close> emits what it emits with no prefix at
  all.
\<close>

theorem addPrefix_empty_identity:
  "addPrefix url (Some []) = url \<and> addPrefix url None = url \<and>
   Scripts env (p\<lparr>prefix := Some []\<rparr>) remixContext dataRouter routerContext nav isHydrated global =
   Scripts env (p\<lparr>prefix := None\<rparr>) remixContext dataRouter routerContext nav isHydrated global"
proof (intro conjI)
  show "addPrefix url (Some []) = url" and "addPrefix url None = url"
    by (simp_all add: addPrefix_def)
  show "Scripts env (p\<lparr>prefix := Some []\<rparr>) remixContext dataRouter routerContext nav isHydrated global =
    Scripts env (p\<lparr>prefix := None\<rparr>) remixContext dataRouter routerContext nav isHydrated global"
    by (cases remixContext; cases dataRouter; cases routerContext)
      (simp_all add: Scripts_def initialScripts_empty addPrefix_eq Let_def
        split: sum.splits prod.splits)
qed

theorem addPrefix_empty_identity_witness:
  "addPrefix (str ''/m.js'') (Some []) = str ''/m.js'' \<and>
   Scripts (ex_env True) (ex_props (Some [])) (Some ex_remix) (Some ex_server) (Some ex_state)
     \<lparr>nav_location = None\<rparr> False None =
   Scripts (ex_env True) (ex_props None) (Some ex_remix) (Some ex_server) (Some ex_state)
     \<lparr>nav_location = None\<rparr> False None"
  using addPrefix_empty_identity
    [of "str ''/m.js''" "ex_env True" "ex_props None" "Some ex_remix" "Some ex_server"
      "Some ex_state" "\<lparr>nav_location = None\<rparr>" False None]
  by (simp add: ex_props_def)

text \<open>
  Claim C3. When any of the three contexts (the Remix context, the data router
  context, the data router state context) is missing, \<^verbatim>\<open>Scripts\<close> throws at once:
  the render yields the error and no markup.
\<close>

theorem Scripts_context_missing:
  assumes "remixContext = None \<or> dataRouter = None \<or> routerContext = None"
  shows "Scripts env p remixContext dataRouter routerContext nav isHydrated global =
         Inl (Error (str ''Context Must Provide''))"
  using assms
  by (cases remixContext; cases dataRouter; cases routerContext) (simp_all add: Scripts_def)

theorem Scripts_context_missing_witness:
  "Scripts (ex_env True) (ex_props None) (None :: (unit, nat) remix_context option) (Some ex_server)
     (Some ex_state) \<lparr>nav_location = None\<rparr> False None =
   Inl (Error (str ''Context Must Provide''))"
  using Scripts_context_missing
    [of "None :: (unit, nat) remix_context option" "Some ex_server" "Some ex_state"]
  by simp

section \<open>The context script and the deferred scripts\<close>

lemma promiseKeyValue_Inr:
  assumes "promiseKeyValue env rid dd k ds = Inr (s, ds')"
  shows "\<exists>c. assigned_call env rid dd k = Some c \<and>
             s = JSON_string env k @ str '':'' @ call_text env c"
    and "ds' = ds @ (if k \<in> set (pendingKeys dd)
                     then [\<lparr>dataKey = Some k, deferredData = Some dd, routeId = Some rid\<rparr>]
                     else [])"
  using assms
  by (auto simp: promiseKeyValue_def assigned_call_def call_text_def str_def
      split: if_splits option.splits sum.splits)

lemma promiseKeyValue_assigned:
  assumes "assigned_call env rid dd k = Some c"
  shows "promiseKeyValue env rid dd k ds =
         Inr (JSON_string env k @ str '':'' @ call_text env c,
              ds @ (if k \<in> set (pendingKeys dd)
                    then [\<lparr>dataKey = Some k, deferredData = Some dd, routeId = Some rid\<rparr>]
                    else []))"
  using assms
  by (auto simp: promiseKeyValue_def assigned_call_def call_text_def str_def
      split: if_splits option.splits sum.splits)

lemma promiseKeyValue_Inl_any:
  assumes "promiseKeyValue env rid dd k ds = Inl e"
  shows "promiseKeyValue env rid dd k ds' = Inl e"
  using assms
  by (auto simp: promiseKeyValue_def split: if_splits option.splits sum.splits)

lemma promiseKeyValues_assigned:
  assumes "\<forall>k \<in> set ks. assigned_call env rid dd k \<noteq> None"
  shows "promiseKeyValues env rid dd ks ds =
         Inr (map (\<lambda>k. JSON_string env k @ str '':'' @ call_text env (the (assigned_call env rid dd k))) ks,
              ds @ map (\<lambda>k. \<lparr>dataKey = Some k, deferredData = Some dd, routeId = Some rid\<rparr>)
                     (filter (\<lambda>k. k \<in> set (pendingKeys dd)) ks))"
  using assms
proof (induction ks arbitrary: ds)
  case Nil
  show ?case by simp
next
  case (Cons k ks)
  then obtain c where c: "assigned_call env rid dd k = Some c" by auto
  from Cons have rest: "\<forall>k \<in> set ks. assigned_call env rid dd k \<noteq> None" by simp
  show ?case
    by (simp add: promiseKeyValue_assigned [OF c] Cons.IH [OF rest] c)
qed

lemma promiseKeyValues_Inr:
  "promiseKeyValues env rid dd ks ds = Inr (ss, ds') \<Longrightarrow>
   \<forall>k \<in> set ks. assigned_call env rid dd k \<noteq> None"
proof (induction ks arbitrary: ds ss ds')
  case Nil
  then show ?case by simp
next
  case (Cons k ks)
  from Cons.prems obtain s d1 rest where
    one: "promiseKeyValue env rid dd k ds = Inr (s, d1)" and
    more: "promiseKeyValues env rid dd ks d1 = Inr (rest, ds')"
    by (auto split: sum.splits prod.splits)
  from Cons.IH [OF more] promiseKeyValue_Inr(1) [OF one]
  show ?case by auto
qed

lemma promiseKeyValues_first_error:
  assumes "\<forall>k' \<in> set ks. assigned_call env rid dd k' \<noteq> None"
    and "promiseKeyValue env rid dd k ds0 = Inl e"
  shows "promiseKeyValues env rid dd (ks @ k # ks') ds = Inl e"
  using assms(1)
proof (induction ks arbitrary: ds)
  case Nil
  show ?case by (simp add: promiseKeyValue_Inl_any [OF assms(2)])
next
  case (Cons a ks)
  then obtain c where c: "assigned_call env rid dd a = Some c" by auto
  from Cons have rest: "\<forall>k \<in> set ks. assigned_call env rid dd k \<noteq> None" by simp
  show ?case
    by (simp add: promiseKeyValue_assigned [OF c] Cons.IH [OF rest])
qed

lemma objectAssign_assigned:
  assumes "\<forall>k \<in> set (deferredKeys dd). assigned_call env rid dd k \<noteq> None"
  shows "objectAssign env rid dd ds =
         Inr (statement_text env
                (rid, map (\<lambda>k. (k, the (assigned_call env rid dd k))) (deferredKeys dd)),
              ds @ pendingScripts [(rid, dd)])"
  by (simp add: objectAssign_def promiseKeyValues_assigned [OF assms] statement_text_def
      pendingScripts_def comp_def)

lemma objectAssign_Inr:
  assumes "objectAssign env rid dd ds = Inr (s, ds')"
  shows "\<forall>k \<in> set (deferredKeys dd). assigned_call env rid dd k \<noteq> None"
  using assms promiseKeyValues_Inr [of env rid dd "deferredKeys dd" ds]
  by (auto simp: objectAssign_def split: sum.splits prod.splits)

lemma objectAssign_first_error:
  assumes "deferredKeys dd = ks @ k # ks'"
    and "\<forall>k' \<in> set ks. assigned_call env rid dd k' \<noteq> None"
    and "promiseKeyValue env rid dd k ds0 = Inl e"
  shows "objectAssign env rid dd ds = Inl e"
  by (simp add: objectAssign_def assms(1) promiseKeyValues_first_error [OF assms(2,3)])

lemma pendingScripts_Cons:
  "pendingScripts (x # xs) = pendingScripts [x] @ pendingScripts xs"
  by (simp add: pendingScripts_def)

lemma pendingScripts_append:
  "pendingScripts (xs @ ys) = pendingScripts xs @ pendingScripts ys"
  by (simp add: pendingScripts_def)

lemma length_pendingScripts: "length (pendingScripts entries) = pendingCount entries"
  by (induction entries) (auto simp: pendingScripts_def pendingCount_def)

lemma activeCount_pendingScripts:
  "activeCount (pendingScripts entries) =
   (if pendingCount entries > 0
    then str ''__remixContext.a='' @ dec (pendingCount entries) @ str '';''
    else [])"
  by (simp add: activeCount_def length_pendingScripts)

lemma pendingCount_Nil: "pendingCount [] = 0"
  by (simp add: pendingCount_def)

lemma script_statements_of:
  "script_statements (script_of env entries) =
   map (\<lambda>(rid, dd). (rid, map (\<lambda>k. (k, the (assigned_call env rid dd k))) (deferredKeys dd)))
     entries"
  and script_active_of: "script_active (script_of env entries) = pendingCount entries"
  by (simp_all add: script_of_def)

lemma objectAssigns_assigned:
  assumes "\<forall>(rid, dd) \<in> set entries. \<forall>k \<in> set (deferredKeys dd).
             assigned_call env rid dd k \<noteq> None"
  shows "objectAssigns env entries ds =
         Inr (map (statement_text env) (script_statements (script_of env entries)),
              ds @ pendingScripts entries)"
  using assms
proof (induction entries arbitrary: ds)
  case Nil
  show ?case by (simp add: script_statements_of pendingScripts_def)
next
  case (Cons x entries)
  obtain rid dd where x: "x = (rid, dd)" by (cases x)
  from Cons.prems x have
    one: "\<forall>k \<in> set (deferredKeys dd). assigned_call env rid dd k \<noteq> None" and
    rest: "\<forall>(rid, dd) \<in> set entries. \<forall>k \<in> set (deferredKeys dd).
             assigned_call env rid dd k \<noteq> None"
    by auto
  show ?case
    unfolding x
    by (simp add: objectAssign_assigned [OF one] Cons.IH [OF rest] script_statements_of
        pendingScripts_Cons [of "(rid, dd)" entries])
qed

lemma objectAssigns_Inr:
  "objectAssigns env entries ds = Inr (ss, ds') \<Longrightarrow>
   \<forall>(rid, dd) \<in> set entries. \<forall>k \<in> set (deferredKeys dd). assigned_call env rid dd k \<noteq> None"
proof (induction entries arbitrary: ds ss ds')
  case Nil
  then show ?case by simp
next
  case (Cons x entries)
  obtain rid dd where x: "x = (rid, dd)" by (cases x)
  from Cons.prems x obtain s d1 rest where
    one: "objectAssign env rid dd ds = Inr (s, d1)" and
    more: "objectAssigns env entries d1 = Inr (rest, ds')"
    by (auto split: sum.splits prod.splits)
  from Cons.IH [OF more] objectAssign_Inr [OF one] x
  show ?case by auto
qed

lemma objectAssigns_first_error:
  assumes "\<forall>(rid', dd') \<in> set before. \<forall>k' \<in> set (deferredKeys dd').
             assigned_call env rid' dd' k' \<noteq> None"
    and "deferredKeys dd = ks @ k # ks'"
    and "\<forall>k' \<in> set ks. assigned_call env rid dd k' \<noteq> None"
    and "promiseKeyValue env rid dd k ds0 = Inl e"
  shows "objectAssigns env (before @ (rid, dd) # after) ds = Inl e"
  using assms(1)
proof (induction before arbitrary: ds)
  case Nil
  show ?case by (simp add: objectAssign_first_error [OF assms(2,3,4)])
next
  case (Cons x before)
  obtain r d where x: "x = (r, d)" by (cases x)
  from Cons.prems x have
    one: "\<forall>k \<in> set (deferredKeys d). assigned_call env r d k \<noteq> None" and
    rest: "\<forall>(rid', dd') \<in> set before. \<forall>k' \<in> set (deferredKeys dd').
             assigned_call env rid' dd' k' \<noteq> None"
    by auto
  show ?case
    unfolding x by (simp add: objectAssign_assigned [OF one] Cons.IH [OF rest])
qed

lemma contextScript_Inr:
  assumes "contextScript env rc dr = Inr (cs, ds)"
  shows "ds = pendingScripts (deferreds_of dr)"
    and "cs = handoff rc dr @
           (case (case staticContext dr of None \<Rightarrow> None | Some sc \<Rightarrow> activeDeferreds sc) of
              None \<Rightarrow> []
            | Some entries \<Rightarrow> script_text env (abortDelay rc) (script_of env entries))"
    and "\<forall>(rid, dd) \<in> set (deferreds_of dr). \<forall>k \<in> set (deferredKeys dd).
           assigned_call env rid dd k \<noteq> None"
proof -
  show all: "\<forall>(rid, dd) \<in> set (deferreds_of dr). \<forall>k \<in> set (deferredKeys dd).
           assigned_call env rid dd k \<noteq> None"
    using assms objectAssigns_Inr [of env "deferreds_of dr" "[]"]
    by (auto simp: contextScript_def deferreds_of_def
        split: option.splits sum.splits prod.splits)
  note oa = objectAssigns_assigned [OF all, of "[]"]
  show "ds = pendingScripts (deferreds_of dr)"
    using assms oa
    by (auto simp: contextScript_def deferreds_of_def pendingScripts_def
        split: option.splits sum.splits prod.splits)
  show "cs = handoff rc dr @
           (case (case staticContext dr of None \<Rightarrow> None | Some sc \<Rightarrow> activeDeferreds sc) of
              None \<Rightarrow> []
            | Some entries \<Rightarrow> script_text env (abortDelay rc) (script_of env entries))"
    using assms oa
    by (auto simp: contextScript_def deferreds_of_def script_text_def script_active_of
        activeCount_pendingScripts
        split: option.splits sum.splits prod.splits)
qed

lemma contextScript_first_error:
  assumes "staticContext dr = Some sc"
    and "activeDeferreds sc = Some (before @ (rid, dd) # after)"
    and "\<forall>(rid', dd') \<in> set before. \<forall>k' \<in> set (deferredKeys dd').
             assigned_call env rid' dd' k' \<noteq> None"
    and "deferredKeys dd = ks @ k # ks'"
    and "\<forall>k' \<in> set ks. assigned_call env rid dd k' \<noteq> None"
    and "promiseKeyValue env rid dd k ds0 = Inl e"
  shows "contextScript env rc dr = Inl e"
  by (simp add: contextScript_def assms(1,2) objectAssigns_first_error [OF assms(3,4,5,6)])

lemma Scripts_contextScript_error:
  assumes "contextScript env rc dr = Inl e"
  shows "Scripts env p (Some rc) (Some dr) (Some rs) nav hyd g = Inl e"
  by (simp add: Scripts_def initialScripts_def assms)

lemma Scripts_Inr:
  assumes "Scripts env p (Some rc) (Some dr) (Some rs) nav hyd g = Inr out"
  shows "\<exists>cs pushed rms next rp.
           contextScript env rc dr = Inr (cs, pushed) \<and>
           routeModulesScript env (manifest rc) (matches rs) (isStatic dr) (prefix p) = Inr rms \<and>
           nextMatches env dr nav = Inr next \<and>
           routePreloads (manifest rc) (matches rs @ next) = Inr rp \<and>
           out_links out =
             map (\<lambda>u. modulepreload (addPrefix u (prefix p)) (crossOrigin p))
               (manifest_url (manifest rc) # entry_module (manifest_entry (manifest rc)) #
                dedupe (if hyd then [] else entry_imports (manifest_entry (manifest rc)) @ rp)) \<and>
           out_initialScripts out =
             (if hyd then None
              else Some (\<lparr>el_crossOrigin = crossOrigin p, el_attrs = attrs p, el_html = cs,
                           el_type = None, el_async = False\<rparr>,
                         \<lparr>el_crossOrigin = crossOrigin p, el_attrs = attrs p, el_html = rms,
                           el_type = Some (str ''module''), el_async = True\<rparr>)) \<and>
           out_deferredScripts out =
             (if hyd then []
              else pushed @ (if isStatic dr then [] else replicate (global_count g) placeholder))"
proof -
  from assms obtain initial pushed "next" rp where
    i: "initialScripts env p rc dr rs = Inr (initial, pushed)" and
    n: "nextMatches env dr nav = Inr next" and
    r: "routePreloads (manifest rc) (matches rs @ next) = Inr rp" and
    out: "out =
      \<lparr>out_links =
         [modulepreload (addPrefix (manifest_url (manifest rc)) (prefix p)) (crossOrigin p),
          modulepreload (addPrefix (entry_module (manifest_entry (manifest rc))) (prefix p))
            (crossOrigin p)] @
         map (\<lambda>path. modulepreload (addPrefix path (prefix p)) (crossOrigin p))
           (dedupe (if hyd then [] else entry_imports (manifest_entry (manifest rc)) @ rp)),
       out_initialScripts = (if hyd then None else Some initial),
       out_deferredScripts =
         (if hyd then []
          else pushed @
               (if \<not> isStatic dr
                then (case g of
                        None \<Rightarrow> []
                      | Some gl \<Rightarrow>
                          (case global_a gl of None \<Rightarrow> [] | Some a \<Rightarrow> replicate a placeholder))
                else []))\<rparr>"
    by (auto simp: Scripts_def Let_def split: sum.splits prod.splits)
  from i obtain cs rms where
    c: "contextScript env rc dr = Inr (cs, pushed)" and
    m: "routeModulesScript env (manifest rc) (matches rs) (isStatic dr) (prefix p) = Inr rms" and
    initial: "initial =
      (\<lparr>el_crossOrigin = crossOrigin p, el_attrs = attrs p, el_html = cs,
         el_type = None, el_async = False\<rparr>,
       \<lparr>el_crossOrigin = crossOrigin p, el_attrs = attrs p, el_html = rms,
         el_type = Some (str ''module''), el_async = True\<rparr>)"
    by (auto simp: initialScripts_def split: sum.splits prod.splits)
  have d: "(case g of
              None \<Rightarrow> []
            | Some gl \<Rightarrow> (case global_a gl of None \<Rightarrow> [] | Some a \<Rightarrow> replicate a placeholder)) =
           (replicate (global_count g) placeholder :: 'a dhs_props list)"
    by (simp add: global_count_def split: option.splits)
  show ?thesis
    apply (rule exI [of _ cs])
    apply (rule exI [of _ pushed])
    apply (rule exI [of _ rms])
    apply (rule exI [of _ "next"])
    apply (rule exI [of _ rp])
    using c m n r by (simp add: out initial d)
qed

section \<open>The run of the context script\<close>

lemma registered_None: "reg_t b = None \<Longrightarrow> registered b i k = None"
  by (simp add: registered_def)

lemma registry_pending_None: "reg_t b = None \<Longrightarrow> registry_pending b"
  by (simp add: registry_pending_def registered_def)

lemma registered_n:
  "registered (snd (remixContext_n i0 k0 b)) i k =
   (if i = i0 \<and> k = k0 then Some (length (promises b)) else registered b i k)"
proof (cases "reg_t b")
  case None
  then show ?thesis by (simp add: remixContext_n_def registered_def Let_def)
next
  case (Some t)
  then show ?thesis
    by (cases "t i0") (simp_all add: remixContext_n_def registered_def Let_def)
qed

lemma run_call_effect:
  assumes "run_call c b = (p, b')"
  shows "p = length (promises b)"
    and "\<exists>x. promises b' = promises b @ [x] \<and> ((\<exists>i k. c = CallN i k) \<longrightarrow> x = Pending)"
    and "reg_a b' = reg_a b" and "loaderData b' = loaderData b"
    and "registered b' i k = (if c = CallN i k then Some p else registered b i k)"
proof -
  show "p = length (promises b)"
    and "\<exists>x. promises b' = promises b @ [x] \<and> ((\<exists>i k. c = CallN i k) \<longrightarrow> x = Pending)"
    and "reg_a b' = reg_a b" and "loaderData b' = loaderData b"
    using assms
    by (auto simp: run_call_def remixContext_n_def remixContext_p_def Let_def split: call.splits)
  show "registered b' i k = (if c = CallN i k then Some p else registered b i k)"
  proof (cases c)
    case (CallN i0 k0)
    with assms have bp: "remixContext_n i0 k0 b = (p, b')" by (simp add: run_call_def)
    then have "b' = snd (remixContext_n i0 k0 b)" by simp
    moreover from bp have "p = fst (remixContext_n i0 k0 b)" by simp
    then have "p = length (promises b)" by (simp add: remixContext_n_def Let_def)
    ultimately show ?thesis using CallN by (auto simp: registered_n)
  next
    case (CallP v e)
    with assms show ?thesis
      by (auto simp: run_call_def remixContext_p_def registered_def)
  qed
qed

lemma run_call_pending:
  assumes "run_call c b = (p, b')" and "registry_pending b"
  shows "registry_pending b'"
  unfolding registry_pending_def
proof (intro allI impI)
  fix i k q
  assume q: "registered b' i k = Some q"
  from run_call_effect(2) [OF assms(1)] obtain x where
    x: "promises b' = promises b @ [x]" "(\<exists>i k. c = CallN i k) \<longrightarrow> x = Pending"
    by blast
  show "q < length (promises b') \<and> promises b' ! q = Pending"
  proof (cases "c = CallN i k")
    case True
    with q run_call_effect(1,5) [OF assms(1)] have "q = length (promises b)" by simp
    with x True show ?thesis by simp
  next
    case False
    with q run_call_effect(5) [OF assms(1), of i k] have "registered b i k = Some q" by simp
    with assms(2) have "q < length (promises b) \<and> promises b ! q = Pending"
      by (simp add: registry_pending_def)
    with x show ?thesis by (simp add: nth_append)
  qed
qed

lemma run_props_effect:
  "run_props props b = (vals, b') \<Longrightarrow> registry_pending b \<Longrightarrow>
   registry_pending b' \<and> reg_a b' = reg_a b \<and> loaderData b' = loaderData b \<and>
   (\<forall>i k. (registered b' i k \<noteq> None) =
          (registered b i k \<noteq> None \<or> CallN i k \<in> snd ` set props))"
proof (induction props arbitrary: b vals)
  case Nil
  then show ?case by simp
next
  case (Cons x props)
  obtain k0 c where x: "x = (k0, c)" by (cases x)
  from Cons.prems(1) x obtain p b1 rest where
    one: "run_call c b = (p, b1)" and
    more: "run_props props b1 = (rest, b')"
    by (auto split: prod.splits)
  note ih = Cons.IH [OF more run_call_pending [OF one Cons.prems(2)]]
  have "(registered b' i k \<noteq> None) =
          (registered b i k \<noteq> None \<or> CallN i k \<in> snd ` set (x # props))" for i k
    using ih run_call_effect(5) [OF one, of i k] x by auto
  with ih run_call_effect(3,4) [OF one] show ?case by simp
qed

lemma run_statement_effect:
  assumes "run_statement st b = Inr b'" and "registry_pending b"
  shows "registry_pending b'" and "reg_a b' = reg_a b"
    and "(registered b' i k \<noteq> None) =
          (registered b i k \<noteq> None \<or> CallN i k \<in> snd ` set (snd st))"
proof -
  obtain rid props where st: "st = (rid, props)" by (cases st)
  obtain vals b1 where rp: "run_props props b = (vals, b1)" by (cases "run_props props b")
  from assms(1) st rp obtain row where
    b': "b' = b1\<lparr>loaderData :=
                   (loaderData b1)(rid := Some (foldl (\<lambda>r (k, p). r(k := Some p)) row vals))\<rparr>"
    by (auto simp: run_statement_def split: option.splits)
  have same: "registered b' = registered b1" "promises b' = promises b1" "reg_a b' = reg_a b1"
    by (simp_all add: b' registered_def fun_eq_iff)
  note e = run_props_effect [OF rp assms(2)]
  from e same show "registry_pending b'" by (simp add: registry_pending_def)
  from e same show "reg_a b' = reg_a b" by simp
  from e same st show "(registered b' i k \<noteq> None) =
          (registered b i k \<noteq> None \<or> CallN i k \<in> snd ` set (snd st))"
    by simp
qed

lemma run_statements_effect:
  "run_statements sts b = Inr b' \<Longrightarrow> registry_pending b \<Longrightarrow>
   registry_pending b' \<and> reg_a b' = reg_a b \<and>
   (\<forall>i k. (registered b' i k \<noteq> None) =
          (registered b i k \<noteq> None \<or> (\<exists>st \<in> set sts. CallN i k \<in> snd ` set (snd st))))"
proof (induction sts arbitrary: b)
  case Nil
  then show ?case by simp
next
  case (Cons st sts)
  from Cons.prems(1) obtain b1 where
    one: "run_statement st b = Inr b1" and more: "run_statements sts b1 = Inr b'"
    by (auto split: sum.splits)
  note s = run_statement_effect [OF one Cons.prems(2)]
  note ih = Cons.IH [OF more s(1)]
  have "(registered b' i k \<noteq> None) =
          (registered b i k \<noteq> None \<or> (\<exists>st \<in> set (st # sts). CallN i k \<in> snd ` set (snd st)))"
    for i k
    using ih s(3) [of i k] by auto
  with ih s(2) show ?case by simp
qed

lemma run_script_effect:
  assumes "run_script s b = Inr b'" and "registry_pending b"
  shows "registry_pending b'"
    and "reg_a b' = (if script_active s > 0 then Some (script_active s) else reg_a b)"
    and "(registered b' i k \<noteq> None) =
          (registered b i k \<noteq> None \<or>
           (\<exists>st \<in> set (script_statements s). CallN i k \<in> snd ` set (snd st)))"
proof -
  from assms(1) obtain b1 where
    r: "run_statements (script_statements s) b = Inr b1" and
    b': "b' = (if script_active s > 0 then b1\<lparr>reg_a := Some (script_active s)\<rparr> else b1)"
    by (auto simp: run_script_def split: sum.splits)
  have same: "registered b' = registered b1" "promises b' = promises b1"
    by (simp_all add: b' registered_def fun_eq_iff)
  note e = run_statements_effect [OF r assms(2)]
  from e same show "registry_pending b'" by (simp add: registry_pending_def)
  from e b' show "reg_a b' = (if script_active s > 0 then Some (script_active s) else reg_a b)"
    by simp
  from e same show "(registered b' i k \<noteq> None) =
          (registered b i k \<noteq> None \<or>
           (\<exists>st \<in> set (script_statements s). CallN i k \<in> snd ` set (snd st)))"
    by simp
qed

lemma assigned_call_N:
  assumes "assigned_call env rid dd k' = Some c"
  shows "(c = CallN i k) = (k' \<in> set (pendingKeys dd) \<and> i = rid \<and> k = k')"
  using assms
  by (auto simp: assigned_call_def split: if_splits option.splits sum.splits)

lemma script_of_calls:
  assumes "\<forall>(rid, dd) \<in> set entries. \<forall>k \<in> set (deferredKeys dd).
             assigned_call env rid dd k \<noteq> None"
  shows "(\<exists>st \<in> set (script_statements (script_of env entries)). CallN i k \<in> snd ` set (snd st)) =
         (\<exists>dd. (i, dd) \<in> set entries \<and> k \<in> set (deferredKeys dd) \<and> k \<in> set (pendingKeys dd))"
proof
  assume "\<exists>st \<in> set (script_statements (script_of env entries)). CallN i k \<in> snd ` set (snd st)"
  then obtain rid dd k' where
    e: "(rid, dd) \<in> set entries" and k': "k' \<in> set (deferredKeys dd)" and
    c: "the (assigned_call env rid dd k') = CallN i k"
    by (auto simp: script_statements_of)
  from assms e k' obtain c' where c': "assigned_call env rid dd k' = Some c'" by fastforce
  with c assigned_call_N [OF c', of i k] have "k' \<in> set (pendingKeys dd) \<and> i = rid \<and> k = k'"
    by simp
  with e k' show "\<exists>dd. (i, dd) \<in> set entries \<and> k \<in> set (deferredKeys dd) \<and> k \<in> set (pendingKeys dd)"
    by blast
next
  assume "\<exists>dd. (i, dd) \<in> set entries \<and> k \<in> set (deferredKeys dd) \<and> k \<in> set (pendingKeys dd)"
  then obtain dd where
    e: "(i, dd) \<in> set entries" and k: "k \<in> set (deferredKeys dd)" "k \<in> set (pendingKeys dd)"
    by blast
  from k have "the (assigned_call env i dd k) = CallN i k"
    by (simp add: assigned_call_def)
  with k have "CallN i k \<in> snd ` set (map (\<lambda>k. (k, the (assigned_call env i dd k))) (deferredKeys dd))"
    by force
  with e show "\<exists>st \<in> set (script_statements (script_of env entries)). CallN i k \<in> snd ` set (snd st)"
    unfolding script_statements_of by force
qed

lemma remixContext_r_settles:
  assumes "registry_pending b" and "registered b i k = Some p"
  shows "\<exists>b'. remixContext_r i k v e b = Inr b' \<and>
              promises b' ! p = (case e of None \<Rightarrow> Resolved v | Some x \<Rightarrow> Rejected x)"
proof -
  from assms have p: "p < length (promises b)" "promises b ! p = Pending"
    by (simp_all add: registry_pending_def)
  from assms(2) p show ?thesis
    by (auto simp: remixContext_r_def registered_def split: option.splits)
qed

section \<open>The context script of the example\<close>

lemma ex_script_of:
  "script_of (ex_env sv) [(str ''root'', ex_deferred)] =
   \<lparr>script_statements =
      [(str ''root'',
        [(str ''a'', CallN (str ''root'') (str ''a'')),
         (str ''b'', CallP (str ''\"/x.js\"'') None),
         (str ''c'', CallP (str ''!1'') (Some (str ''{\"message\":\"no\"}'')))])],
    script_active = 1\<rparr>"
  by (simp add: script_of_def assigned_call_def pendingCount_def ex_env_def ex_deferred_def
      quote_def toSerialize_def escapeHtml_def ESCAPE_REGEX_def ESCAPE_LOOKUP_def str_def)

lemma ex_contextScript:
  "contextScript (ex_env sv) ex_remix ex_server =
   Inr (str ''window.__remixContext = {};'' @ remixContextHelpers (ex_env sv) None @
        str ''Object.assign(__remixContext.state.loaderData[\"root\"], {\"a\":__remixContext.n(\"root\", \"a\"),'' @
        [0x0A] @ str ''\"b\":__remixContext.p(\"/x.js\"),'' @
        [0x0A] @ str ''\"c\":__remixContext.p(!1, {\"message\":\"no\"})});'' @
        str ''__remixContext.a=1;'',
        [ex_a])"
  by (simp add: contextScript_def ex_env_def ex_remix_def ex_server_def ex_deferred_def ex_a_def
      objectAssign_def promiseKeyValue_def handoff_def activeCount_def dec.simps quote_def
      toSerialize_def escapeHtml_def ESCAPE_REGEX_def ESCAPE_LOOKUP_def str_def)

lemma ex_routeModulesScript:
  "routeModulesScript (ex_env sv) ex_manifest (matches ex_state) True pre =
   Inr (str ''import \"'' @ addPrefix (str ''/m.js'') pre @ str ''\";'' @ [0x0A] @
        str ''import * as route0 from \"'' @ addPrefix (str ''/root.js'') pre @ str ''\";'' @ [0x0A] @
        str ''window.__remixRouteModules = {\"root\":route0};'' @ [0x0A, 0x0A] @
        str ''import(\"'' @ addPrefix (str ''/entry.js'') pre @ str ''\");'')"
  by (simp add: routeModulesScript_def ex_env_def ex_manifest_def ex_state_def
      enumerate_eq_zip dec.simps quote_def str_def)

lemma ex_Scripts_server:
  "Scripts (ex_env True) (ex_props pre) (Some ex_remix) (Some ex_server) (Some ex_state)
     \<lparr>nav_location = None\<rparr> False None =
   Inr \<lparr>out_links =
          map (\<lambda>u. modulepreload (addPrefix u pre) None)
            [str ''/m.js'', str ''/entry.js'', str ''/lib.js'', str ''/root.js''],
        out_initialScripts =
          Some (\<lparr>el_crossOrigin = None, el_attrs = (),
                  el_html =
                    str ''window.__remixContext = {};'' @ remixContextHelpers (ex_env True) None @
                    str ''Object.assign(__remixContext.state.loaderData[\"root\"], {\"a\":__remixContext.n(\"root\", \"a\"),'' @
                    [0x0A] @ str ''\"b\":__remixContext.p(\"/x.js\"),'' @
                    [0x0A] @ str ''\"c\":__remixContext.p(!1, {\"message\":\"no\"})});'' @
                    str ''__remixContext.a=1;'',
                  el_type = None, el_async = False\<rparr>,
                \<lparr>el_crossOrigin = None, el_attrs = (),
                  el_html =
                    str ''import \"'' @ addPrefix (str ''/m.js'') pre @ str ''\";'' @ [0x0A] @
                    str ''import * as route0 from \"'' @ addPrefix (str ''/root.js'') pre @
                    str ''\";'' @ [0x0A] @
                    str ''window.__remixRouteModules = {\"root\":route0};'' @ [0x0A, 0x0A] @
                    str ''import(\"'' @ addPrefix (str ''/entry.js'') pre @ str ''\");'',
                  el_type = Some (str ''module''), el_async = True\<rparr>),
        out_deferredScripts = [ex_a]\<rparr>"
proof -
  have m: "manifest ex_remix = ex_manifest" and ms: "isStatic ex_server"
    by (simp_all add: ex_remix_def ex_server_def)
  have r: "routePreloads ex_manifest (matches ex_state) = Inr [str ''/lib.js'', str ''/root.js'']"
    by (simp add: routePreloads_def ex_manifest_def ex_state_def)
  have d: "dedupe [str ''/lib.js'', str ''/lib.js'', str ''/root.js''] =
           [str ''/lib.js'', str ''/root.js'']"
    by (simp add: dedupe_def str_def)
  have e: "entry_imports (manifest_entry ex_manifest) = [str ''/lib.js'']"
    "manifest_url ex_manifest = str ''/m.js''"
    "entry_module (manifest_entry ex_manifest) = str ''/entry.js''"
    by (simp_all add: ex_manifest_def)
  have n: "nextMatches (ex_env True) ex_server \<lparr>nav_location = None\<rparr> = Inr []"
    by (simp add: nextMatches_def)
  show ?thesis
    by (simp add: Scripts_def initialScripts_def ex_contextScript ex_routeModulesScript
        m ms r d e n ex_props_def)
qed

lemma ex_run_script:
  "run_script (script_of (ex_env sv) [(str ''root'', ex_deferred)]) ex_browser =
   Inr \<lparr>reg_t = Some ((\<lambda>x. None)(str ''root'' := Some ((\<lambda>x. None)(str ''a'' := Some 0)))),
        reg_a = Some 1,
        promises = [Pending, Resolved (str ''\"/x.js\"''), Rejected (str ''{\"message\":\"no\"}'')],
        loaderData =
          (loaderData ex_browser)
            (str ''root'' :=
               Some ((\<lambda>k. None)(str ''a'' := Some 0, str ''b'' := Some 1, str ''c'' := Some 2)))\<rparr>"
  unfolding ex_script_of
  by (simp add: run_script_def run_statement_def run_call_def remixContext_n_def
      remixContext_p_def ex_browser_def Let_def numeral_2_eq_2)

lemma assigned_call_cases:
  assumes "assigned_call env rid dd k \<noteq> None"
  shows "(k \<in> set (pendingKeys dd) \<and> assigned_call env rid dd k = Some (CallN rid k)) \<or>
         (k \<notin> set (pendingKeys dd) \<and>
          (\<exists>tp r s. data dd k = Some tp \<and> p_error tp = Some r \<and> toSerialize env r = Inr s \<and>
             assigned_call env rid dd k = Some (CallP (str ''!1'') (Some (escapeHtml s))))) \<or>
         (k \<notin> set (pendingKeys dd) \<and>
          (\<exists>tp d j. data dd k = Some tp \<and> p_error tp = None \<and> p_data tp = Some d \<and>
             JSON_data env d = Inr j \<and>
             assigned_call env rid dd k = Some (CallP (escapeHtml j) None)))"
proof (cases "k \<in> set (pendingKeys dd)")
  case True
  then show ?thesis by (simp add: assigned_call_def)
next
  case False
  with assms obtain tp where tp: "data dd k = Some tp"
    by (cases "data dd k") (simp_all add: assigned_call_def)
  show ?thesis
  proof (cases "p_error tp")
    case (Some r)
    with assms False tp obtain s where "toSerialize env r = Inr s"
      by (cases "toSerialize env r") (simp_all add: assigned_call_def)
    with Some False tp show ?thesis by (simp add: assigned_call_def)
  next
    case None
    with assms False tp obtain d where d: "p_data tp = Some d"
      by (cases "p_data tp") (simp_all add: assigned_call_def)
    with assms False tp None obtain j where "JSON_data env d = Inr j"
      by (cases "JSON_data env d") (simp_all add: assigned_call_def)
    with d None False tp show ?thesis by (simp add: assigned_call_def)
  qed
qed

text \<open>
  Claim C5. For every route in \<^verbatim>\<open>activeDeferreds\<close> and every one of its deferred keys,
  the context script that is emitted assigns that key, in the route's
  \<^verbatim>\<open>Object.assign\<close> statement on \<^verbatim>\<open>__remixContext.state.loaderData[routeId]\<close>, to
  exactly one of: \<^verbatim>\<open>__remixContext.n(routeId, key)\<close> when the key is pending,
  \<^verbatim>\<open>__remixContext.p(!1, error)\<close> when its promise settled with an error,
  \<^verbatim>\<open>__remixContext.p(data)\<close> when it settled with data. The script defines the
  functions by the lines below, and when a browser whose \<^verbatim>\<open>__remixContext\<close> has no
  registry yet runs the statements, the registry \<^verbatim>\<open>__remixContext.t\<close> gets an entry,
  under the route id and then the key, for the pending keys and for no other
  key; the entry is a pending promise that \<^verbatim>\<open>__remixContext.r\<close> resolves or
  rejects.
\<close>

theorem context_script_assignments:
  assumes "Scripts env p (Some rc) (Some dr) (Some rs) nav False g = Inr out"
    and "staticContext dr = Some sc" and "activeDeferreds sc = Some entries"
  shows "(\<exists>s1 s2. out_initialScripts out = Some (s1, s2) \<and>
            el_html s1 = handoff rc dr @ script_text env (abortDelay rc) (script_of env entries)) \<and>
         remixContextHelpers env (abortDelay rc) =
           join [0x0A]
           [str ''__remixContext.p = function(v,e,p,x) {'',
            str ''  if (typeof e !== 'undefined') {'',
            str ''    x=new Error(e.message);'',
            if development env then str ''x.stack=e.stack;'' else [],
            str ''    p=Promise.reject(x);'',
            str ''  } else {'',
            str ''    p=Promise.resolve(v);'',
            str ''  }'',
            str ''  return p;'',
            str ''};'',
            str ''__remixContext.n = function(i,k) {'',
            str ''  __remixContext.t = __remixContext.t || {};'',
            str ''  __remixContext.t[i] = __remixContext.t[i] || {};'',
            str ''  let p = new Promise((r, e) => {__remixContext.t[i][k] = {r:(v)=>{r(v);},e:(v)=>{e(v);}};});'',
            (case abortDelay rc of
               Some ms \<Rightarrow>
                 str ''setTimeout(() => {if(typeof p._error !== \"undefined\" || typeof p._data !== \"undefined\"){return;} __remixContext.t[i][k].e(new Error(\"Server timeout.\"))}, '' @
                 Number_string env ms @ str '');''
             | None \<Rightarrow> []),
            str ''  return p;'',
            str ''};'',
            str ''__remixContext.r = function(i,k,v,e,p,x) {'',
            str ''  p = __remixContext.t[i][k];'',
            str ''  if (typeof e !== 'undefined') {'',
            str ''    x=new Error(e.message);'',
            if development env then str ''x.stack=e.stack;'' else [],
            str ''    p.e(x);'',
            str ''  } else {'',
            str ''    p.r(v);'',
            str ''  }'',
            str ''};''] \<and>
         (\<forall>(rid, dd) \<in> set entries. \<forall>k \<in> set (deferredKeys dd).
            (k \<in> set (pendingKeys dd) \<and> assigned_call env rid dd k = Some (CallN rid k)) \<or>
            (k \<notin> set (pendingKeys dd) \<and>
             (\<exists>tp r s. data dd k = Some tp \<and> p_error tp = Some r \<and> toSerialize env r = Inr s \<and>
                assigned_call env rid dd k = Some (CallP (str ''!1'') (Some (escapeHtml s))))) \<or>
            (k \<notin> set (pendingKeys dd) \<and>
             (\<exists>tp d j. data dd k = Some tp \<and> p_error tp = None \<and> p_data tp = Some d \<and>
                JSON_data env d = Inr j \<and>
                assigned_call env rid dd k = Some (CallP (escapeHtml j) None)))) \<and>
         (\<forall>b b'. reg_t b = None \<and> run_script (script_of env entries) b = Inr b' \<longrightarrow>
            (\<forall>i k. (registered b' i k \<noteq> None) =
                   (\<exists>dd. (i, dd) \<in> set entries \<and> k \<in> set (deferredKeys dd) \<and>
                         k \<in> set (pendingKeys dd))) \<and>
            (\<forall>i k q. registered b' i k = Some q \<longrightarrow>
               q < length (promises b') \<and> promises b' ! q = Pending \<and>
               (\<forall>v. \<exists>b''. remixContext_r i k v None b' = Inr b'' \<and>
                          promises b'' ! q = Resolved v) \<and>
               (\<forall>v e. \<exists>b''. remixContext_r i k v (Some e) b' = Inr b'' \<and>
                            promises b'' ! q = Rejected e)))"
proof -
  from Scripts_Inr [OF assms(1)] obtain cs pushed rms where
    c: "contextScript env rc dr = Inr (cs, pushed)" and
    i: "out_initialScripts out =
          Some (\<lparr>el_crossOrigin = crossOrigin p, el_attrs = attrs p, el_html = cs,
                  el_type = None, el_async = False\<rparr>,
                \<lparr>el_crossOrigin = crossOrigin p, el_attrs = attrs p, el_html = rms,
                  el_type = Some (str ''module''), el_async = True\<rparr>)"
    by auto
  have e: "deferreds_of dr = entries"
    using assms(2,3) by (simp add: deferreds_of_def)
  from contextScript_Inr(2) [OF c] assms(2,3)
  have cs: "cs = handoff rc dr @ script_text env (abortDelay rc) (script_of env entries)"
    by simp
  have all: "\<forall>(rid, dd) \<in> set entries. \<forall>k \<in> set (deferredKeys dd).
           assigned_call env rid dd k \<noteq> None"
    using contextScript_Inr(3) [OF c] e by simp
  have html: "\<exists>s1 s2. out_initialScripts out = Some (s1, s2) \<and>
            el_html s1 = handoff rc dr @ script_text env (abortDelay rc) (script_of env entries)"
    using i cs by simp
  have helpers: "remixContextHelpers env (abortDelay rc) =
           join [0x0A]
           [str ''__remixContext.p = function(v,e,p,x) {'',
            str ''  if (typeof e !== 'undefined') {'',
            str ''    x=new Error(e.message);'',
            if development env then str ''x.stack=e.stack;'' else [],
            str ''    p=Promise.reject(x);'',
            str ''  } else {'',
            str ''    p=Promise.resolve(v);'',
            str ''  }'',
            str ''  return p;'',
            str ''};'',
            str ''__remixContext.n = function(i,k) {'',
            str ''  __remixContext.t = __remixContext.t || {};'',
            str ''  __remixContext.t[i] = __remixContext.t[i] || {};'',
            str ''  let p = new Promise((r, e) => {__remixContext.t[i][k] = {r:(v)=>{r(v);},e:(v)=>{e(v);}};});'',
            (case abortDelay rc of
               Some ms \<Rightarrow>
                 str ''setTimeout(() => {if(typeof p._error !== \"undefined\" || typeof p._data !== \"undefined\"){return;} __remixContext.t[i][k].e(new Error(\"Server timeout.\"))}, '' @
                 Number_string env ms @ str '');''
             | None \<Rightarrow> []),
            str ''  return p;'',
            str ''};'',
            str ''__remixContext.r = function(i,k,v,e,p,x) {'',
            str ''  p = __remixContext.t[i][k];'',
            str ''  if (typeof e !== 'undefined') {'',
            str ''    x=new Error(e.message);'',
            if development env then str ''x.stack=e.stack;'' else [],
            str ''    p.e(x);'',
            str ''  } else {'',
            str ''    p.r(v);'',
            str ''  }'',
            str ''};'']"
    by (simp add: remixContextHelpers_def)
  have one: "\<forall>(rid, dd) \<in> set entries. \<forall>k \<in> set (deferredKeys dd).
            (k \<in> set (pendingKeys dd) \<and> assigned_call env rid dd k = Some (CallN rid k)) \<or>
            (k \<notin> set (pendingKeys dd) \<and>
             (\<exists>tp r s. data dd k = Some tp \<and> p_error tp = Some r \<and> toSerialize env r = Inr s \<and>
                assigned_call env rid dd k = Some (CallP (str ''!1'') (Some (escapeHtml s))))) \<or>
            (k \<notin> set (pendingKeys dd) \<and>
             (\<exists>tp d j. data dd k = Some tp \<and> p_error tp = None \<and> p_data tp = Some d \<and>
                JSON_data env d = Inr j \<and>
                assigned_call env rid dd k = Some (CallP (escapeHtml j) None)))"
  proof (intro ballI)
    fix x k
    assume x: "x \<in> set entries"
    show "case x of (rid, dd) \<Rightarrow> \<forall>k \<in> set (deferredKeys dd).
            (k \<in> set (pendingKeys dd) \<and> assigned_call env rid dd k = Some (CallN rid k)) \<or>
            (k \<notin> set (pendingKeys dd) \<and>
             (\<exists>tp r s. data dd k = Some tp \<and> p_error tp = Some r \<and> toSerialize env r = Inr s \<and>
                assigned_call env rid dd k = Some (CallP (str ''!1'') (Some (escapeHtml s))))) \<or>
            (k \<notin> set (pendingKeys dd) \<and>
             (\<exists>tp d j. data dd k = Some tp \<and> p_error tp = None \<and> p_data tp = Some d \<and>
                JSON_data env d = Inr j \<and>
                assigned_call env rid dd k = Some (CallP (escapeHtml j) None)))"
    proof (cases x)
      case (Pair rid dd)
      have "\<forall>k \<in> set (deferredKeys dd). assigned_call env rid dd k \<noteq> None"
        using all x Pair by blast
      then show ?thesis
        unfolding Pair prod.case using assigned_call_cases [of env rid dd] by blast
    qed
  qed
  have run: "\<forall>b b'. reg_t b = None \<and> run_script (script_of env entries) b = Inr b' \<longrightarrow>
            (\<forall>i k. (registered b' i k \<noteq> None) =
                   (\<exists>dd. (i, dd) \<in> set entries \<and> k \<in> set (deferredKeys dd) \<and>
                         k \<in> set (pendingKeys dd))) \<and>
            (\<forall>i k q. registered b' i k = Some q \<longrightarrow>
               q < length (promises b') \<and> promises b' ! q = Pending \<and>
               (\<forall>v. \<exists>b''. remixContext_r i k v None b' = Inr b'' \<and>
                          promises b'' ! q = Resolved v) \<and>
               (\<forall>v e. \<exists>b''. remixContext_r i k v (Some e) b' = Inr b'' \<and>
                            promises b'' ! q = Rejected e))"
  proof (intro allI impI, elim conjE)
    fix b b'
    assume t: "reg_t b = None" and r: "run_script (script_of env entries) b = Inr b'"
    note eff = run_script_effect [OF r registry_pending_None [OF t]]
    have dom: "\<forall>i k. (registered b' i k \<noteq> None) =
                   (\<exists>dd. (i, dd) \<in> set entries \<and> k \<in> set (deferredKeys dd) \<and>
                         k \<in> set (pendingKeys dd))"
      using eff(3) script_of_calls [OF all] registered_None [OF t] by simp
    have settle: "\<forall>i k q. registered b' i k = Some q \<longrightarrow>
               q < length (promises b') \<and> promises b' ! q = Pending \<and>
               (\<forall>v. \<exists>b''. remixContext_r i k v None b' = Inr b'' \<and>
                          promises b'' ! q = Resolved v) \<and>
               (\<forall>v e. \<exists>b''. remixContext_r i k v (Some e) b' = Inr b'' \<and>
                            promises b'' ! q = Rejected e)"
    proof (intro allI impI)
      fix i k q
      assume q: "registered b' i k = Some q"
      from eff(1) q have "q < length (promises b') \<and> promises b' ! q = Pending"
        by (simp add: registry_pending_def)
      moreover have "\<forall>v. \<exists>b''. remixContext_r i k v None b' = Inr b'' \<and>
                          promises b'' ! q = Resolved v"
        using remixContext_r_settles [OF eff(1) q, of _ None] by simp
      moreover have "\<forall>v e. \<exists>b''. remixContext_r i k v (Some e) b' = Inr b'' \<and>
                            promises b'' ! q = Rejected e"
        using remixContext_r_settles [OF eff(1) q, of _ "Some _"] by simp
      ultimately show "q < length (promises b') \<and> promises b' ! q = Pending \<and>
               (\<forall>v. \<exists>b''. remixContext_r i k v None b' = Inr b'' \<and>
                          promises b'' ! q = Resolved v) \<and>
               (\<forall>v e. \<exists>b''. remixContext_r i k v (Some e) b' = Inr b'' \<and>
                            promises b'' ! q = Rejected e)"
        by blast
    qed
    from dom settle show "(\<forall>i k. (registered b' i k \<noteq> None) =
                   (\<exists>dd. (i, dd) \<in> set entries \<and> k \<in> set (deferredKeys dd) \<and>
                         k \<in> set (pendingKeys dd))) \<and>
            (\<forall>i k q. registered b' i k = Some q \<longrightarrow>
               q < length (promises b') \<and> promises b' ! q = Pending \<and>
               (\<forall>v. \<exists>b''. remixContext_r i k v None b' = Inr b'' \<and>
                          promises b'' ! q = Resolved v) \<and>
               (\<forall>v e. \<exists>b''. remixContext_r i k v (Some e) b' = Inr b'' \<and>
                            promises b'' ! q = Rejected e))"
      by blast
  qed
  from html helpers one run show ?thesis by blast
qed

theorem context_script_assignments_witness:
  "(\<exists>s1 s2.
      out_initialScripts
        (projr (Scripts (ex_env True) (ex_props None) (Some ex_remix) (Some ex_server)
                  (Some ex_state) \<lparr>nav_location = None\<rparr> False None)) = Some (s1, s2) \<and>
      el_html s1 =
        handoff ex_remix ex_server @
        script_text (ex_env True) None (script_of (ex_env True) [(str ''root'', ex_deferred)])) \<and>
   assigned_call (ex_env True) (str ''root'') ex_deferred (str ''a'') =
     Some (CallN (str ''root'') (str ''a'')) \<and>
   assigned_call (ex_env True) (str ''root'') ex_deferred (str ''b'') =
     Some (CallP (str ''\"/x.js\"'') None) \<and>
   assigned_call (ex_env True) (str ''root'') ex_deferred (str ''c'') =
     Some (CallP (str ''!1'') (Some (str ''{\"message\":\"no\"}''))) \<and>
   (\<exists>b'. run_script (script_of (ex_env True) [(str ''root'', ex_deferred)]) ex_browser = Inr b' \<and>
      registered b' (str ''root'') (str ''a'') = Some 0 \<and>
      registered b' (str ''root'') (str ''b'') = None \<and>
      registered b' (str ''root'') (str ''c'') = None \<and>
      promises b' ! 0 = Pending \<and>
      (\<exists>b''. remixContext_r (str ''root'') (str ''a'') (str ''1'') None b' = Inr b'' \<and>
         promises b'' ! 0 = Resolved (str ''1'')))"
proof -
  have s: "staticContext ex_server = Some \<lparr>activeDeferreds = Some [(str ''root'', ex_deferred)]\<rparr>"
    by (simp add: ex_server_def)
  have s': "activeDeferreds \<lparr>activeDeferreds = Some [(str ''root'', ex_deferred)]\<rparr> =
            Some [(str ''root'', ex_deferred)]"
    by simp
  have e: "Scripts (ex_env True) (ex_props None) (Some ex_remix) (Some ex_server)
                  (Some ex_state) \<lparr>nav_location = None\<rparr> False None =
           Inr (projr (Scripts (ex_env True) (ex_props None) (Some ex_remix) (Some ex_server)
                  (Some ex_state) \<lparr>nav_location = None\<rparr> False None))"
    by (simp add: ex_Scripts_server)
  note t = context_script_assignments [OF e s s']
  have d: "abortDelay ex_remix = None"
    by (simp add: ex_remix_def)
  have calls: "assigned_call (ex_env True) (str ''root'') ex_deferred (str ''a'') =
     Some (CallN (str ''root'') (str ''a''))"
    "assigned_call (ex_env True) (str ''root'') ex_deferred (str ''b'') =
     Some (CallP (str ''\"/x.js\"'') None)"
    "assigned_call (ex_env True) (str ''root'') ex_deferred (str ''c'') =
     Some (CallP (str ''!1'') (Some (str ''{\"message\":\"no\"}'')))"
    by (simp_all add: assigned_call_def ex_env_def ex_deferred_def quote_def toSerialize_def
        escapeHtml_def ESCAPE_REGEX_def ESCAPE_LOOKUP_def str_def)
  from conjunct1 [OF t] have html: "\<exists>s1 s2.
      out_initialScripts
        (projr (Scripts (ex_env True) (ex_props None) (Some ex_remix) (Some ex_server)
                  (Some ex_state) \<lparr>nav_location = None\<rparr> False None)) = Some (s1, s2) \<and>
      el_html s1 =
        handoff ex_remix ex_server @
        script_text (ex_env True) None (script_of (ex_env True) [(str ''root'', ex_deferred)])"
    unfolding d .
  define b' where "b' = projr (run_script (script_of (ex_env True) [(str ''root'', ex_deferred)]) ex_browser)"
  have r: "run_script (script_of (ex_env True) [(str ''root'', ex_deferred)]) ex_browser = Inr b'"
    unfolding b'_def ex_run_script by simp
  have n: "reg_t ex_browser = None"
    by (simp add: ex_browser_def)
  from conjunct2 [OF conjunct2 [OF conjunct2 [OF t]]] n r have dom: "\<forall>i k. (registered b' i k \<noteq> None) =
      (\<exists>dd. (i, dd) \<in> set [(str ''root'', ex_deferred)] \<and> k \<in> set (deferredKeys dd) \<and>
            k \<in> set (pendingKeys dd))"
    and settle: "\<forall>i k q. registered b' i k = Some q \<longrightarrow>
               q < length (promises b') \<and> promises b' ! q = Pending \<and>
               (\<forall>v. \<exists>b''. remixContext_r i k v None b' = Inr b'' \<and>
                          promises b'' ! q = Resolved v)"
    by blast+
  have keys: "str ''b'' \<notin> set (pendingKeys ex_deferred)" "str ''c'' \<notin> set (pendingKeys ex_deferred)"
    by (simp_all add: ex_deferred_def str_def)
  from dom keys have none: "registered b' (str ''root'') (str ''b'') = None"
    "registered b' (str ''root'') (str ''c'') = None"
    by (metis (no_types, lifting) set_ConsD prod.inject empty_iff empty_set)+
  have a: "registered b' (str ''root'') (str ''a'') = Some 0"
    unfolding b'_def ex_run_script by (simp add: registered_def str_def)
  from settle a have "promises b' ! 0 = Pending \<and>
      (\<exists>b''. remixContext_r (str ''root'') (str ''a'') (str ''1'') None b' = Inr b'' \<and>
         promises b'' ! 0 = Resolved (str ''1''))"
    by blast
  with html calls r none a show ?thesis
    by blast
qed

lemma ex_Scripts_client:
  "Scripts (ex_env sv) (ex_props pre) (Some ex_remix) (Some ex_client) (Some ex_state)
     \<lparr>nav_location = None\<rparr> hyd g =
   Inr \<lparr>out_links =
          map (\<lambda>u. modulepreload (addPrefix u pre) None)
            (str ''/m.js'' # str ''/entry.js'' #
             (if hyd then [] else [str ''/lib.js'', str ''/root.js''])),
        out_initialScripts =
          (if hyd then None
           else Some (\<lparr>el_crossOrigin = None, el_attrs = (), el_html = str '' '',
                        el_type = None, el_async = False\<rparr>,
                      \<lparr>el_crossOrigin = None, el_attrs = (), el_html = str '' '',
                        el_type = Some (str ''module''), el_async = True\<rparr>)),
        out_deferredScripts = (if hyd then [] else replicate (global_count g) placeholder)\<rparr>"
proof -
  have m: "manifest ex_remix = ex_manifest" and ms: "\<not> isStatic ex_client"
    and sc: "staticContext ex_client = None"
    by (simp_all add: ex_remix_def ex_client_def)
  have r: "routePreloads ex_manifest (matches ex_state) = Inr [str ''/lib.js'', str ''/root.js'']"
    by (simp add: routePreloads_def ex_manifest_def ex_state_def)
  have d: "dedupe [str ''/lib.js'', str ''/lib.js'', str ''/root.js''] =
           [str ''/lib.js'', str ''/root.js'']" "dedupe ([] :: jsstring list) = []"
    by (simp_all add: dedupe_def str_def)
  have e: "entry_imports (manifest_entry ex_manifest) = [str ''/lib.js'']"
    "manifest_url ex_manifest = str ''/m.js''"
    "entry_module (manifest_entry ex_manifest) = str ''/entry.js''"
    by (simp_all add: ex_manifest_def)
  have n: "nextMatches (ex_env sv) ex_client \<lparr>nav_location = None\<rparr> = Inr []"
    by (simp add: nextMatches_def)
  have c: "contextScript (ex_env sv) ex_remix ex_client = Inr (str '' '', [])"
    by (simp add: contextScript_def handoff_def sc)
  have g: "(case g of
              None \<Rightarrow> []
            | Some gl \<Rightarrow> (case global_a gl of None \<Rightarrow> [] | Some a \<Rightarrow> replicate a placeholder)) =
           (replicate (global_count g) placeholder :: jsstring dhs_props list)"
    by (simp add: global_count_def split: option.splits)
  show ?thesis
    by (simp add: Scripts_def initialScripts_def routeModulesScript_def c g
        m ms r d e n ex_props_def)
qed

section \<open>The counter of pending keys and the placeholders\<close>

lemma global_count_global_of:
  assumes "run_script s b = Inr b'" and "reg_t b = None" and "reg_a b = None"
  shows "global_count (global_of b') = script_active s"
  using run_script_effect(2) [OF assms(1) registry_pending_None [OF assms(2)]] assms(3)
  by (simp add: global_count_def global_of_def)

lemma Scripts_first_render:
  assumes s: "Scripts env p (Some rc) (Some dr) (Some rs) nav False g = Inr out"
  shows "(\<exists>s1 s2.
               out_initialScripts out = Some (s1, s2) \<and>
               el_html s1 =
                 handoff rc dr @
                 (case (case staticContext dr of None \<Rightarrow> None | Some sc \<Rightarrow> activeDeferreds sc) of
                    None \<Rightarrow> []
                  | Some entries \<Rightarrow>
                      remixContextHelpers env (abortDelay rc) @
                      join [0x0A] (map (statement_text env) (script_statements (script_of env entries))) @
                      (if pendingCount entries > 0
                       then str ''__remixContext.a='' @ dec (pendingCount entries) @ str '';''
                       else []))) \<and>
            out_deferredScripts out =
              pendingScripts (deferreds_of dr) @
              (if isStatic dr then [] else replicate (global_count g) placeholder) \<and>
            length (pendingScripts (deferreds_of dr)) = pendingCount (deferreds_of dr)"
proof -
  from Scripts_Inr [OF s] obtain cs pushed rms where
    c: "contextScript env rc dr = Inr (cs, pushed)" and
    i: "out_initialScripts out =
          Some (\<lparr>el_crossOrigin = crossOrigin p, el_attrs = attrs p, el_html = cs,
                  el_type = None, el_async = False\<rparr>,
                \<lparr>el_crossOrigin = crossOrigin p, el_attrs = attrs p, el_html = rms,
                  el_type = Some (str ''module''), el_async = True\<rparr>)" and
    d: "out_deferredScripts out =
          pushed @ (if isStatic dr then [] else replicate (global_count g) placeholder)"
    by auto
  note q = contextScript_Inr(1) [OF c]
  have cs: "cs = handoff rc dr @
             (case (case staticContext dr of None \<Rightarrow> None | Some sc \<Rightarrow> activeDeferreds sc) of
                None \<Rightarrow> []
              | Some entries \<Rightarrow>
                  remixContextHelpers env (abortDelay rc) @
                  join [0x0A] (map (statement_text env) (script_statements (script_of env entries))) @
                  (if pendingCount entries > 0
                   then str ''__remixContext.a='' @ dec (pendingCount entries) @ str '';''
                   else []))"
    using contextScript_Inr(2) [OF c]
    by (simp add: script_text_def script_active_of split: option.splits)
  show ?thesis
    using i d by (simp add: cs q length_pendingScripts)
qed

text \<open>
  Claim C6, as amended. In a render that finds \<^verbatim>\<open>isHydrated\<close> false, the context
  script sets \<^verbatim>\<open>__remixContext.a\<close> if and only if at least one deferred key is
  pending, and then to the number of pending deferred keys over all routes in
  \<^verbatim>\<open>activeDeferreds\<close>; the \<^verbatim>\<open>DeferredHydrationScript\<close> elements rendered are those
  of the pending keys, as many as that number, and then, in a non-static render,
  exactly \<^verbatim>\<open>__remixContext.a\<close> placeholders. A render that finds \<^verbatim>\<open>isHydrated\<close>
  true renders no \<^verbatim>\<open>DeferredHydrationScript\<close> element and no initial script. So
  the client tree matches the server tree in the first render of the client:
  when the browser has run the context script of a static render on a fresh
  \<^verbatim>\<open>__remixContext\<close>, a non-static render without static context that finds
  \<^verbatim>\<open>isHydrated\<close> false renders as many placeholders as the static render rendered
  \<^verbatim>\<open>DeferredHydrationScript\<close> elements.
\<close>

theorem active_count_matches:
  "(Scripts env p (Some rc) (Some dr) (Some rs) nav False g = Inr out \<longrightarrow>
          (\<exists>s1 s2.
             out_initialScripts out = Some (s1, s2) \<and>
             el_html s1 =
               handoff rc dr @
               (case (case staticContext dr of None \<Rightarrow> None | Some sc \<Rightarrow> activeDeferreds sc) of
                  None \<Rightarrow> []
                | Some entries \<Rightarrow>
                    remixContextHelpers env (abortDelay rc) @
                    join [0x0A] (map (statement_text env) (script_statements (script_of env entries))) @
                    (if pendingCount entries > 0
                     then str ''__remixContext.a='' @ dec (pendingCount entries) @ str '';''
                     else []))) \<and>
          out_deferredScripts out =
            pendingScripts (deferreds_of dr) @
            (if isStatic dr then [] else replicate (global_count g) placeholder) \<and>
          length (pendingScripts (deferreds_of dr)) = pendingCount (deferreds_of dr)) \<and>
   (Scripts env p (Some rc) (Some dr) (Some rs) nav True g = Inr out' \<longrightarrow>
          out_deferredScripts out' = [] \<and> out_initialScripts out' = None) \<and>
   (Scripts env p (Some rc) (Some dr) (Some rs) nav False g = Inr out \<and> isStatic dr \<and>
    reg_t b = None \<and> reg_a b = None \<and>
    run_script (script_of env (deferreds_of dr)) b = Inr b' \<and>
    Scripts env2 p2 (Some rc2) (Some dr2) (Some rs2) nav2 False (global_of b') = Inr out2 \<and>
    \<not> isStatic dr2 \<and> staticContext dr2 = None \<longrightarrow>
          out_deferredScripts out2 = replicate (length (out_deferredScripts out)) placeholder)"
proof -
  have hydrated: "out_deferredScripts out' = [] \<and> out_initialScripts out' = None"
    if s: "Scripts env p (Some rc) (Some dr) (Some rs) nav True g = Inr out'"
    using Scripts_Inr [OF s] by auto
  have client: "out_deferredScripts out2 = replicate (length (out_deferredScripts out)) placeholder"
    if s: "Scripts env p (Some rc) (Some dr) (Some rs) nav False g = Inr out"
      and st: "isStatic dr" and t: "reg_t b = None" and a: "reg_a b = None"
      and r: "run_script (script_of env (deferreds_of dr)) b = Inr b'"
      and s2: "Scripts env2 p2 (Some rc2) (Some dr2) (Some rs2) nav2 False (global_of b') = Inr out2"
      and st2: "\<not> isStatic dr2" and sc2: "staticContext dr2 = None"
  proof -
    from Scripts_first_render [OF s] st have l: "length (out_deferredScripts out) = pendingCount (deferreds_of dr)"
      by simp
    have e: "deferreds_of dr2 = []"
      by (simp add: deferreds_of_def sc2)
    from Scripts_first_render [OF s2] st2 have "out_deferredScripts out2 =
        replicate (global_count (global_of b')) placeholder"
      by (simp add: e pendingScripts_def)
    with global_count_global_of [OF r t a] l show ?thesis
      by (simp add: script_active_of)
  qed
  from Scripts_first_render [of env p rc dr rs nav g out] hydrated client show ?thesis
    by blast
qed

theorem active_count_matches_witness:
  "(\<exists>s1 s2.
      out_initialScripts
        (projr (Scripts (ex_env True) (ex_props None) (Some ex_remix) (Some ex_server)
                  (Some ex_state) \<lparr>nav_location = None\<rparr> False None)) = Some (s1, s2) \<and>
      el_html s1 =
        str ''window.__remixContext = {};'' @ remixContextHelpers (ex_env True) None @
        join [0x0A]
          (map (statement_text (ex_env True))
             (script_statements (script_of (ex_env True) [(str ''root'', ex_deferred)]))) @
        str ''__remixContext.a=1;'') \<and>
   out_deferredScripts
     (projr (Scripts (ex_env True) (ex_props None) (Some ex_remix) (Some ex_server)
               (Some ex_state) \<lparr>nav_location = None\<rparr> False None)) = [ex_a] \<and>
   pendingCount [(str ''root'', ex_deferred)] = 1 \<and>
   out_deferredScripts
     (projr (Scripts (ex_env False) (ex_props None) (Some ex_remix) (Some ex_client)
               (Some ex_state) \<lparr>nav_location = None\<rparr> False (Some \<lparr>global_a = Some 2\<rparr>))) =
     [placeholder, placeholder] \<and>
   out_deferredScripts
     (projr (Scripts (ex_env False) (ex_props None) (Some ex_remix) (Some ex_client)
               (Some ex_state) \<lparr>nav_location = None\<rparr> True (Some \<lparr>global_a = Some 2\<rparr>))) = [] \<and>
   out_deferredScripts
     (projr (Scripts (ex_env False) (ex_props None) (Some ex_remix) (Some ex_client)
               (Some ex_state) \<lparr>nav_location = None\<rparr> False
               (global_of (projr (run_script (script_of (ex_env True) [(str ''root'', ex_deferred)])
                                    ex_browser))))) =
     [placeholder]"
proof -
  define server where "server = projr (Scripts (ex_env True) (ex_props None) (Some ex_remix)
     (Some ex_server) (Some ex_state) \<lparr>nav_location = None\<rparr> False None)"
  define b' where "b' = projr (run_script (script_of (ex_env True) [(str ''root'', ex_deferred)])
     ex_browser)"
  define first where "first = projr (Scripts (ex_env False) (ex_props None) (Some ex_remix)
     (Some ex_client) (Some ex_state) \<lparr>nav_location = None\<rparr> False (global_of b'))"
  define two where "two = projr (Scripts (ex_env False) (ex_props None) (Some ex_remix)
     (Some ex_client) (Some ex_state) \<lparr>nav_location = None\<rparr> False (Some \<lparr>global_a = Some 2\<rparr>))"
  define hyd where "hyd = projr (Scripts (ex_env False) (ex_props None) (Some ex_remix)
     (Some ex_client) (Some ex_state) \<lparr>nav_location = None\<rparr> True (Some \<lparr>global_a = Some 2\<rparr>))"
  have r: "Scripts (ex_env True) (ex_props None) (Some ex_remix)
     (Some ex_server) (Some ex_state) \<lparr>nav_location = None\<rparr> False None = Inr server"
    "Scripts (ex_env False) (ex_props None) (Some ex_remix)
     (Some ex_client) (Some ex_state) \<lparr>nav_location = None\<rparr> False (global_of b') = Inr first"
    "Scripts (ex_env False) (ex_props None) (Some ex_remix)
     (Some ex_client) (Some ex_state) \<lparr>nav_location = None\<rparr> False (Some \<lparr>global_a = Some 2\<rparr>) =
     Inr two"
    "Scripts (ex_env False) (ex_props None) (Some ex_remix)
     (Some ex_client) (Some ex_state) \<lparr>nav_location = None\<rparr> True (Some \<lparr>global_a = Some 2\<rparr>) =
     Inr hyd"
    "run_script (script_of (ex_env True) [(str ''root'', ex_deferred)]) ex_browser = Inr b'"
    unfolding server_def first_def two_def hyd_def b'_def
    by (simp_all add: ex_Scripts_server ex_Scripts_client ex_run_script)
  have n: "pendingCount [(str ''root'', ex_deferred)] = 1"
    by (simp add: pendingCount_def ex_deferred_def str_def)
  have e: "deferreds_of ex_server = [(str ''root'', ex_deferred)]" "deferreds_of ex_client = []"
    by (simp_all add: deferreds_of_def ex_server_def ex_client_def)
  have s: "staticContext ex_server = Some \<lparr>activeDeferreds = Some [(str ''root'', ex_deferred)]\<rparr>"
    "abortDelay ex_remix = None"
    "handoff ex_remix ex_server = str ''window.__remixContext = {};''"
    "pendingScripts [(str ''root'', ex_deferred)] = [ex_a]"
    "pendingScripts ([] :: (jsstring \<times> jsstring deferred_data) list) = []"
    "isStatic ex_server" "\<not> isStatic ex_client" "staticContext ex_client = None"
    "global_count (Some \<lparr>global_a = Some 2\<rparr>) = 2"
    "reg_t ex_browser = None" "reg_a ex_browser = None"
    by (simp_all add: ex_server_def ex_client_def ex_remix_def handoff_def
        pendingScripts_def ex_deferred_def ex_a_def global_count_def ex_browser_def str_def)
  have rep: "replicate 2 placeholder = [placeholder :: jsstring dhs_props, placeholder]"
    by (simp add: numeral_2_eq_2)
  note t = active_count_matches [where env = "ex_env True" and p = "ex_props None"
      and rc = ex_remix and dr = ex_server and rs = ex_state and nav = "\<lparr>nav_location = None\<rparr>"
      and g = None and out = server and b = ex_browser and b' = b' and ?env2.0 = "ex_env False"
      and ?p2.0 = "ex_props None" and ?rc2.0 = ex_remix and ?dr2.0 = ex_client
      and ?rs2.0 = ex_state and ?nav2.0 = "\<lparr>nav_location = None\<rparr>" and ?out2.0 = first]
  note u = active_count_matches [where env = "ex_env False" and p = "ex_props None"
      and rc = ex_remix and dr = ex_client and rs = ex_state and nav = "\<lparr>nav_location = None\<rparr>"
      and g = "Some \<lparr>global_a = Some 2\<rparr>" and out = two and out' = hyd]
  from conjunct1 [OF t] r(1) have server0: "(\<exists>s1 s2.
      out_initialScripts server = Some (s1, s2) \<and>
      el_html s1 =
        str ''window.__remixContext = {};'' @ remixContextHelpers (ex_env True) None @
        join [0x0A]
          (map (statement_text (ex_env True))
             (script_statements (script_of (ex_env True) [(str ''root'', ex_deferred)]))) @
        str ''__remixContext.a='' @ dec 1 @ str '';'') \<and>
      out_deferredScripts server = [ex_a]"
    by (simp add: e s n)
  then have server: "(\<exists>s1 s2.
      out_initialScripts server = Some (s1, s2) \<and>
      el_html s1 =
        str ''window.__remixContext = {};'' @ remixContextHelpers (ex_env True) None @
        join [0x0A]
          (map (statement_text (ex_env True))
             (script_statements (script_of (ex_env True) [(str ''root'', ex_deferred)]))) @
        str ''__remixContext.a=1;'') \<and>
      out_deferredScripts server = [ex_a]"
    by (simp add: dec.simps str_def)
  from conjunct2 [OF conjunct2 [OF t]] r(1,2,5) s(6,7,8,10,11) server
  have client: "out_deferredScripts first = [placeholder]"
    by (simp add: e)
  from conjunct1 [OF u] r(3) have two: "out_deferredScripts two = [placeholder, placeholder]"
    by (simp add: e s rep)
  from conjunct1 [OF conjunct2 [OF u]] r(4) have hyd: "out_deferredScripts hyd = []"
    by simp
  from server client two hyd n show ?thesis
    unfolding server_def first_def two_def hyd_def b'_def by simp
qed

text \<open>
  The claim as it was stated fails in a non-static render that finds
  \<^verbatim>\<open>isHydrated\<close> true: with \<^verbatim>\<open>__remixContext.a\<close> equal to 2, no
  \<^verbatim>\<open>DeferredHydrationScript\<close> is rendered.
\<close>

theorem hydrated_render_has_no_placeholder:
  "global_count (Some \<lparr>global_a = Some 2\<rparr>) = 2 \<and>
   Scripts (ex_env False) (ex_props None) (Some ex_remix) (Some ex_client) (Some ex_state)
     \<lparr>nav_location = None\<rparr> True (Some \<lparr>global_a = Some 2\<rparr>) =
   Inr \<lparr>out_links = [modulepreload (str ''/m.js'') None, modulepreload (str ''/entry.js'') None],
        out_initialScripts = None,
        out_deferredScripts = []\<rparr>"
  by (simp add: ex_Scripts_client global_count_def addPrefix_def)

section \<open>The asset URLs of Scripts\<close>

lemma addPrefix_prefixed: "addPrefix url pre = prefixed pre url"
  by (simp add: addPrefix_def prefixed_def split: option.splits)

lemma ex_hmr_Scripts_server:
  "Scripts (ex_env True) (ex_props (Some (str ''https://cdn.example''))) (Some ex_hmr_remix)
     (Some ex_server) (Some ex_state) \<lparr>nav_location = None\<rparr> False None =
   Inr \<lparr>out_links =
          map (\<lambda>u. modulepreload (str ''https://cdn.example'' @ u) None)
            [str ''/m.js'', str ''/entry.js'', str ''/lib.js'', str ''/root.js''],
        out_initialScripts =
          Some (\<lparr>el_crossOrigin = None, el_attrs = (),
                  el_html =
                    str ''window.__remixContext = {};'' @ remixContextHelpers (ex_env True) None @
                    str ''Object.assign(__remixContext.state.loaderData[\"root\"], {\"a\":__remixContext.n(\"root\", \"a\"),'' @
                    [0x0A] @ str ''\"b\":__remixContext.p(\"/x.js\"),'' @
                    [0x0A] @ str ''\"c\":__remixContext.p(!1, {\"message\":\"no\"})});'' @
                    str ''__remixContext.a=1;'',
                  el_type = None, el_async = False\<rparr>,
                \<lparr>el_crossOrigin = None, el_attrs = (),
                  el_html =
                    str ''import \"/hmr.js\";import \"https://cdn.example/m.js\";'' @ [0x0A] @
                    str ''import * as route0 from \"https://cdn.example/root.js\";'' @ [0x0A] @
                    str ''window.__remixRouteModules = {\"root\":route0};'' @ [0x0A, 0x0A] @
                    str ''import(\"https://cdn.example/entry.js\");'',
                  el_type = Some (str ''module''), el_async = True\<rparr>),
        out_deferredScripts = [ex_a]\<rparr>"
proof -
  have m: "manifest ex_hmr_remix = ex_hmr_manifest" and ms: "isStatic ex_server"
    by (simp_all add: ex_hmr_remix_def ex_server_def)
  have r: "routePreloads ex_hmr_manifest (matches ex_state) =
           Inr [str ''/lib.js'', str ''/root.js'']"
    by (simp add: routePreloads_def ex_hmr_manifest_def ex_manifest_def ex_state_def)
  have d: "dedupe [str ''/lib.js'', str ''/lib.js'', str ''/root.js''] =
           [str ''/lib.js'', str ''/root.js'']"
    by (simp add: dedupe_def str_def)
  have e: "entry_imports (manifest_entry ex_hmr_manifest) = [str ''/lib.js'']"
    "manifest_url ex_hmr_manifest = str ''/m.js''"
    "entry_module (manifest_entry ex_hmr_manifest) = str ''/entry.js''"
    "manifest_hmr_runtime ex_hmr_manifest = Some (str ''/hmr.js'')"
    by (simp_all add: ex_hmr_manifest_def ex_manifest_def)
  have n: "nextMatches (ex_env True) ex_server \<lparr>nav_location = None\<rparr> = Inr []"
    by (simp add: nextMatches_def)
  have sh: "serverHandoffString ex_hmr_remix = serverHandoffString ex_remix"
    by (simp add: ex_hmr_remix_def)
  have h: "handoff ex_hmr_remix ex_server = handoff ex_remix ex_server"
    "abortDelay ex_hmr_remix = abortDelay ex_remix"
    unfolding handoff_def sh by (simp_all add: ex_hmr_remix_def)
  have c: "contextScript (ex_env True) ex_hmr_remix ex_server =
           contextScript (ex_env True) ex_remix ex_server"
    unfolding contextScript_def h ..
  have s: "routeModulesScript (ex_env True) ex_hmr_manifest (matches ex_state) True
             (Some (str ''https://cdn.example'')) =
           Inr (str ''import \"/hmr.js\";import \"https://cdn.example/m.js\";'' @ [0x0A] @
              str ''import * as route0 from \"https://cdn.example/root.js\";'' @ [0x0A] @
              str ''window.__remixRouteModules = {\"root\":route0};'' @ [0x0A, 0x0A] @
              str ''import(\"https://cdn.example/entry.js\");'')"
    by (simp add: routeModulesScript_def ex_env_def ex_hmr_manifest_def ex_manifest_def
        ex_state_def addPrefix_def enumerate_eq_zip dec.simps quote_def str_def)
  show ?thesis
    by (simp add: Scripts_def initialScripts_def c ex_contextScript s m ms r d e n ex_props_def
        addPrefix_def)
qed

text \<open>
  Claim C1, as amended. Every asset URL of the manifest that \<^verbatim>\<open>Scripts\<close> passes
  to \<^verbatim>\<open>addPrefix\<close> (the href of every \<^verbatim>\<open>modulepreload\<close> link: the manifest URL,
  the entry module and each preload path; and, in the module script it
  generates, the manifest URL, the module URL of each matched route and the
  entry module) is emitted as the prefix in front of the manifest's URL, with
  nothing else changed, and as the URL itself when no prefix is supplied. The
  URL of \<^verbatim>\<open>manifest.hmr.runtime\<close>, which the module script imports first when the
  manifest has one, is emitted as the manifest has it, whatever the prefix.
\<close>

theorem Scripts_asset_urls:
  assumes "Scripts env p (Some rc) (Some dr) (Some rs) nav hyd g = Inr out"
  shows "(\<exists>next rp.
            nextMatches env dr nav = Inr next \<and>
            routePreloads (manifest rc) (matches rs @ next) = Inr rp \<and>
            out_links out =
              map (\<lambda>u. modulepreload (prefixed (prefix p) u) (crossOrigin p))
                (manifest_url (manifest rc) # entry_module (manifest_entry (manifest rc)) #
                 dedupe (if hyd then []
                         else entry_imports (manifest_entry (manifest rc)) @ rp))) \<and>
         (isStatic dr \<and> \<not> hyd \<longrightarrow>
            (\<exists>routes s1 s2.
               lookup_routes (manifest rc) (matches rs) = Inr routes \<and>
               out_initialScripts out = Some (s1, s2) \<and>
               el_html s2 =
                 (case manifest_hmr_runtime (manifest rc) of
                    None \<Rightarrow> []
                  | Some runtime \<Rightarrow>
                      if runtime \<noteq> []
                      then str ''import '' @ JSON_string env runtime @ str '';''
                      else []) @
                 str ''import '' @
                 JSON_string env (prefixed (prefix p) (manifest_url (manifest rc))) @
                 str '';'' @ [0x0A] @
                 join [0x0A]
                   (map (\<lambda>(index, route).
                           str ''import * as route'' @ dec index @ str '' from '' @
                           JSON_string env (prefixed (prefix p) (route_module route)) @
                           str '';'')
                      (enumerate 0 routes)) @
                 [0x0A] @
                 str ''window.__remixRouteModules = {'' @
                 join (str '','')
                   (map (\<lambda>(index, x). JSON_string env (route_id x) @ str '':route'' @ dec index)
                      (enumerate 0 (matches rs))) @
                 str ''};'' @ [0x0A, 0x0A] @
                 str ''import('' @
                 JSON_string env
                   (prefixed (prefix p) (entry_module (manifest_entry (manifest rc)))) @
                 str '');''))"
proof -
  from Scripts_Inr [OF assms] obtain cs pushed rms "next" rp where
    m: "routeModulesScript env (manifest rc) (matches rs) (isStatic dr) (prefix p) = Inr rms" and
    n: "nextMatches env dr nav = Inr next" and
    r: "routePreloads (manifest rc) (matches rs @ next) = Inr rp" and
    l: "out_links out =
             map (\<lambda>u. modulepreload (addPrefix u (prefix p)) (crossOrigin p))
               (manifest_url (manifest rc) # entry_module (manifest_entry (manifest rc)) #
                dedupe (if hyd then [] else entry_imports (manifest_entry (manifest rc)) @ rp))" and
    i: "out_initialScripts out =
             (if hyd then None
              else Some (\<lparr>el_crossOrigin = crossOrigin p, el_attrs = attrs p, el_html = cs,
                           el_type = None, el_async = False\<rparr>,
                         \<lparr>el_crossOrigin = crossOrigin p, el_attrs = attrs p, el_html = rms,
                           el_type = Some (str ''module''), el_async = True\<rparr>))"
    by blast
  have links: "\<exists>next rp.
            nextMatches env dr nav = Inr next \<and>
            routePreloads (manifest rc) (matches rs @ next) = Inr rp \<and>
            out_links out =
              map (\<lambda>u. modulepreload (prefixed (prefix p) u) (crossOrigin p))
                (manifest_url (manifest rc) # entry_module (manifest_entry (manifest rc)) #
                 dedupe (if hyd then []
                         else entry_imports (manifest_entry (manifest rc)) @ rp))"
    using n r l unfolding addPrefix_prefixed by blast
  have script: "\<exists>routes s1 s2.
               lookup_routes (manifest rc) (matches rs) = Inr routes \<and>
               out_initialScripts out = Some (s1, s2) \<and>
               el_html s2 =
                 (case manifest_hmr_runtime (manifest rc) of
                    None \<Rightarrow> []
                  | Some runtime \<Rightarrow>
                      if runtime \<noteq> []
                      then str ''import '' @ JSON_string env runtime @ str '';''
                      else []) @
                 str ''import '' @
                 JSON_string env (prefixed (prefix p) (manifest_url (manifest rc))) @
                 str '';'' @ [0x0A] @
                 join [0x0A]
                   (map (\<lambda>(index, route).
                           str ''import * as route'' @ dec index @ str '' from '' @
                           JSON_string env (prefixed (prefix p) (route_module route)) @
                           str '';'')
                      (enumerate 0 routes)) @
                 [0x0A] @
                 str ''window.__remixRouteModules = {'' @
                 join (str '','')
                   (map (\<lambda>(index, x). JSON_string env (route_id x) @ str '':route'' @ dec index)
                      (enumerate 0 (matches rs))) @
                 str ''};'' @ [0x0A, 0x0A] @
                 str ''import('' @
                 JSON_string env
                   (prefixed (prefix p) (entry_module (manifest_entry (manifest rc)))) @
                 str '');''"
    if st: "isStatic dr" and nh: "\<not> hyd"
  proof -
    from m st obtain routes where
      lr: "lookup_routes (manifest rc) (matches rs) = Inr routes" and
      rms: "rms =
                 (case manifest_hmr_runtime (manifest rc) of
                    None \<Rightarrow> []
                  | Some runtime \<Rightarrow>
                      if runtime \<noteq> []
                      then str ''import '' @ JSON_string env runtime @ str '';''
                      else []) @
                 str ''import '' @
                 JSON_string env (prefixed (prefix p) (manifest_url (manifest rc))) @
                 str '';'' @ [0x0A] @
                 join [0x0A]
                   (map (\<lambda>(index, route).
                           str ''import * as route'' @ dec index @ str '' from '' @
                           JSON_string env (prefixed (prefix p) (route_module route)) @
                           str '';'')
                      (enumerate 0 routes)) @
                 [0x0A] @
                 str ''window.__remixRouteModules = {'' @
                 join (str '','')
                   (map (\<lambda>(index, x). JSON_string env (route_id x) @ str '':route'' @ dec index)
                      (enumerate 0 (matches rs))) @
                 str ''};'' @ [0x0A, 0x0A] @
                 str ''import('' @
                 JSON_string env
                   (prefixed (prefix p) (entry_module (manifest_entry (manifest rc)))) @
                 str '');''"
      by (auto simp: routeModulesScript_def addPrefix_prefixed split: sum.splits)
    from i nh lr rms show ?thesis by simp
  qed
  from links script show ?thesis by blast
qed

theorem Scripts_asset_urls_witness:
  "map link_href
     (out_links
        (projr (Scripts (ex_env True) (ex_props (Some (str ''https://cdn.example'')))
                  (Some ex_remix) (Some ex_server) (Some ex_state) \<lparr>nav_location = None\<rparr>
                  False None))) =
   [str ''https://cdn.example/m.js'', str ''https://cdn.example/entry.js'',
    str ''https://cdn.example/lib.js'', str ''https://cdn.example/root.js''] \<and>
   (\<exists>s1 s2.
      out_initialScripts
        (projr (Scripts (ex_env True) (ex_props (Some (str ''https://cdn.example'')))
                  (Some ex_remix) (Some ex_server) (Some ex_state) \<lparr>nav_location = None\<rparr>
                  False None)) = Some (s1, s2) \<and>
      el_html s2 =
        str ''import \"https://cdn.example/m.js\";'' @ [0x0A] @
        str ''import * as route0 from \"https://cdn.example/root.js\";'' @ [0x0A] @
        str ''window.__remixRouteModules = {\"root\":route0};'' @ [0x0A, 0x0A] @
        str ''import(\"https://cdn.example/entry.js\");'') \<and>
   map link_href
     (out_links
        (projr (Scripts (ex_env True) (ex_props None) (Some ex_remix) (Some ex_server)
                  (Some ex_state) \<lparr>nav_location = None\<rparr> False None))) =
   [str ''/m.js'', str ''/entry.js'', str ''/lib.js'', str ''/root.js''] \<and>
   (\<exists>s1 s2.
      out_initialScripts
        (projr (Scripts (ex_env True) (ex_props (Some (str ''https://cdn.example'')))
                  (Some ex_hmr_remix) (Some ex_server) (Some ex_state) \<lparr>nav_location = None\<rparr>
                  False None)) = Some (s1, s2) \<and>
      el_html s2 =
        str ''import \"/hmr.js\";'' @
        str ''import \"https://cdn.example/m.js\";'' @ [0x0A] @
        str ''import * as route0 from \"https://cdn.example/root.js\";'' @ [0x0A] @
        str ''window.__remixRouteModules = {\"root\":route0};'' @ [0x0A, 0x0A] @
        str ''import(\"https://cdn.example/entry.js\");'')"
proof -
  have e: "manifest ex_remix = ex_manifest" "isStatic ex_server"
    "prefix (ex_props pre) = pre" "crossOrigin (ex_props pre) = None"
    "JSON_string (ex_env True) = quote"
    "manifest_url ex_manifest = str ''/m.js''"
    "entry_module (manifest_entry ex_manifest) = str ''/entry.js''"
    "entry_imports (manifest_entry ex_manifest) = [str ''/lib.js'']"
    "manifest_hmr_runtime ex_manifest = None"
    "nextMatches (ex_env True) ex_server \<lparr>nav_location = None\<rparr> = Inr []"
    "routePreloads ex_manifest (matches ex_state) = Inr [str ''/lib.js'', str ''/root.js'']"
    "lookup_routes ex_manifest (matches ex_state) =
       Inr [\<lparr>route_module = str ''/root.js'', route_imports = Some [str ''/lib.js'']\<rparr>]"
    "matches ex_state = [\<lparr>route_id = str ''root''\<rparr>]"
    "dedupe [str ''/lib.js'', str ''/lib.js'', str ''/root.js''] =
       [str ''/lib.js'', str ''/root.js'']"
    for pre
    by (simp_all add: ex_remix_def ex_server_def ex_props_def ex_env_def ex_manifest_def
        ex_state_def nextMatches_def routePreloads_def dedupe_def str_def)
  note cdn = Scripts_asset_urls [OF ex_Scripts_server [of "Some (str ''https://cdn.example'')"]]
  note none = Scripts_asset_urls [OF ex_Scripts_server [of None]]
  have 1: "map link_href
     (out_links
        (projr (Scripts (ex_env True) (ex_props (Some (str ''https://cdn.example'')))
                  (Some ex_remix) (Some ex_server) (Some ex_state) \<lparr>nav_location = None\<rparr>
                  False None))) =
   [str ''https://cdn.example/m.js'', str ''https://cdn.example/entry.js'',
    str ''https://cdn.example/lib.js'', str ''https://cdn.example/root.js'']"
    using cdn unfolding ex_Scripts_server e
    by (simp add: prefixed_def modulepreload_def addPrefix_def str_def)
  have 2: "\<exists>s1 s2.
      out_initialScripts
        (projr (Scripts (ex_env True) (ex_props (Some (str ''https://cdn.example'')))
                  (Some ex_remix) (Some ex_server) (Some ex_state) \<lparr>nav_location = None\<rparr>
                  False None)) = Some (s1, s2) \<and>
      el_html s2 =
        str ''import \"https://cdn.example/m.js\";'' @ [0x0A] @
        str ''import * as route0 from \"https://cdn.example/root.js\";'' @ [0x0A] @
        str ''window.__remixRouteModules = {\"root\":route0};'' @ [0x0A, 0x0A] @
        str ''import(\"https://cdn.example/entry.js\");''"
    using cdn unfolding ex_Scripts_server e
    by (simp add: prefixed_def addPrefix_def enumerate_eq_zip dec.simps quote_def str_def)
  have 3: "map link_href
     (out_links
        (projr (Scripts (ex_env True) (ex_props None) (Some ex_remix) (Some ex_server)
                  (Some ex_state) \<lparr>nav_location = None\<rparr> False None))) =
   [str ''/m.js'', str ''/entry.js'', str ''/lib.js'', str ''/root.js'']"
    using none unfolding ex_Scripts_server e
    by (simp add: prefixed_def modulepreload_def addPrefix_def)
  have h: "manifest ex_hmr_remix = ex_hmr_manifest"
    "manifest_url ex_hmr_manifest = str ''/m.js''"
    "entry_module (manifest_entry ex_hmr_manifest) = str ''/entry.js''"
    "manifest_hmr_runtime ex_hmr_manifest = Some (str ''/hmr.js'')"
    "str ''/hmr.js'' \<noteq> []"
    "lookup_routes ex_hmr_manifest (matches ex_state) =
       Inr [\<lparr>route_module = str ''/root.js'', route_imports = Some [str ''/lib.js'']\<rparr>]"
    by (simp_all add: ex_hmr_remix_def ex_hmr_manifest_def ex_manifest_def ex_state_def str_def)
  note hmr = conjunct2 [OF Scripts_asset_urls [OF ex_hmr_Scripts_server]]
  have 4: "(\<exists>s1 s2.
        out_initialScripts
          (projr (Scripts (ex_env True) (ex_props (Some (str ''https://cdn.example'')))
                    (Some ex_hmr_remix) (Some ex_server) (Some ex_state) \<lparr>nav_location = None\<rparr>
                    False None)) = Some (s1, s2) \<and>
        el_html s2 =
          str ''import \"/hmr.js\";'' @
          str ''import \"https://cdn.example/m.js\";'' @ [0x0A] @
          str ''import * as route0 from \"https://cdn.example/root.js\";'' @ [0x0A] @
          str ''window.__remixRouteModules = {\"root\":route0};'' @ [0x0A, 0x0A] @
          str ''import(\"https://cdn.example/entry.js\");'')"
    using hmr unfolding ex_hmr_Scripts_server h e
    by (simp add: prefixed_def enumerate_eq_zip dec.simps quote_def str_def)
  from 1 2 3 4 show ?thesis by blast
qed

text \<open>
  The claim as it was stated fails for a manifest with an \<^verbatim>\<open>hmr\<close> runtime: with
  the prefix \<^verbatim>\<open>https://cdn.example\<close>, the module script imports \<^verbatim>\<open>/hmr.js\<close>, a
  URL of the manifest, without the prefix.
\<close>

theorem hmr_runtime_not_prefixed:
  "manifest_hmr_runtime (manifest ex_hmr_remix) = Some (str ''/hmr.js'') \<and>
   (\<exists>out. Scripts (ex_env True) (ex_props (Some (str ''https://cdn.example'')))
            (Some ex_hmr_remix) (Some ex_server) (Some ex_state) \<lparr>nav_location = None\<rparr>
            False None = Inr out \<and>
      map_option (\<lambda>(s1, s2). el_html s2) (out_initialScripts out) =
        Some (str ''import \"/hmr.js\";import \"https://cdn.example/m.js\";'' @ [0x0A] @
              str ''import * as route0 from \"https://cdn.example/root.js\";'' @ [0x0A] @
              str ''window.__remixRouteModules = {\"root\":route0};'' @ [0x0A, 0x0A] @
              str ''import(\"https://cdn.example/entry.js\");''))"
proof -
  have "manifest_hmr_runtime (manifest ex_hmr_remix) = Some (str ''/hmr.js'')"
    by (simp add: ex_hmr_remix_def ex_hmr_manifest_def)
  then show ?thesis
    by (simp add: ex_hmr_Scripts_server)
qed

section \<open>The deferred hydration scripts and the prefix\<close>

lemma routeModulesScript_error_prefix:
  "map_sum id (\<lambda>x. ()) (routeModulesScript env m ms st q) =
   map_sum id (\<lambda>x. ()) (routeModulesScript env m ms st q')"
  by (simp add: routeModulesScript_def split: sum.splits)

lemma initialScripts_pushed_prefix:
  "map_sum id (\<lambda>((s1, s2), ds). (s1, ds)) (initialScripts env (p\<lparr>prefix := q\<rparr>) rc dr rs) =
   map_sum id (\<lambda>((s1, s2), ds). (s1, ds)) (initialScripts env (p\<lparr>prefix := q'\<rparr>) rc dr rs)"
  using routeModulesScript_error_prefix [of env "manifest rc" "matches rs" "isStatic dr" q q']
  by (auto simp: initialScripts_def split: sum.splits prod.splits)

text \<open>
  Claim C7, as amended. The deferred hydration scripts that \<^verbatim>\<open>Scripts\<close> emits are
  the same for every prefix, and so is the context script, which carries the
  deferred data that had settled at the render: the prefix is applied to
  nothing in them. A \<^verbatim>\<open>DeferredHydrationScript\<close> element is given the route id, the
  data key and the deferred data only, and what it renders is a function of
  these. The inline script that its \<^verbatim>\<open>Await\<close> renders for a datum is
  \<^verbatim>\<open>__remixContext.r(routeId, key, data);\<close>, the three written by
  \<^verbatim>\<open>JSON.stringify\<close> and the datum then passed through \<^verbatim>\<open>escapeHtml\<close>; for a
  rejection it is \<^verbatim>\<open>__remixContext.r(routeId, key, !1, error);\<close>, the error
  serialized and passed through \<^verbatim>\<open>escapeHtml\<close>.
\<close>

theorem deferred_scripts_same_for_every_prefix:
  "map_sum id
     (\<lambda>out. (map (\<lambda>props. (props, DeferredHydrationScript env props)) (out_deferredScripts out),
             map_option (\<lambda>(s1, s2). s1) (out_initialScripts out)))
     (Scripts env (p\<lparr>prefix := q\<rparr>) remixContext dataRouter routerContext nav isHydrated global) =
   map_sum id
     (\<lambda>out. (map (\<lambda>props. (props, DeferredHydrationScript env props)) (out_deferredScripts out),
             map_option (\<lambda>(s1, s2). s1) (out_initialScripts out)))
     (Scripts env (p\<lparr>prefix := q'\<rparr>) remixContext dataRouter routerContext nav isHydrated global) \<and>
   DeferredHydrationScript_children env rid k d =
     map_sum id
       (\<lambda>s. \<lparr>inline_html =
                str ''__remixContext.r('' @ JSON_string env rid @ str '', '' @
                JSON_string env k @ str '', '' @ escapeHtml s @ str '');'',
              inline_async = True\<rparr>)
       (JSON_data env d) \<and>
   ErrorDeferredHydrationScript env k' rid' r =
     map_sum id
       (\<lambda>s. \<lparr>inline_html =
                str ''__remixContext.r('' @ JSON_string env rid' @ str '', '' @
                JSON_string env k' @ str '', !1, '' @ escapeHtml s @ str '');'',
              inline_async = False\<rparr>)
       (toSerialize env r)"
proof (intro conjI)
  show "map_sum id
     (\<lambda>out. (map (\<lambda>props. (props, DeferredHydrationScript env props)) (out_deferredScripts out),
             map_option (\<lambda>(s1, s2). s1) (out_initialScripts out)))
     (Scripts env (p\<lparr>prefix := q\<rparr>) remixContext dataRouter routerContext nav isHydrated global) =
   map_sum id
     (\<lambda>out. (map (\<lambda>props. (props, DeferredHydrationScript env props)) (out_deferredScripts out),
             map_option (\<lambda>(s1, s2). s1) (out_initialScripts out)))
     (Scripts env (p\<lparr>prefix := q'\<rparr>) remixContext dataRouter routerContext nav isHydrated global)"
  proof (cases remixContext; cases dataRouter; cases routerContext)
    fix rc dr rs
    assume c: "remixContext = Some rc" "dataRouter = Some dr" "routerContext = Some rs"
    show ?thesis
      using initialScripts_pushed_prefix [of env q p rc dr rs q']
      unfolding c Scripts_def
      by (auto simp: Let_def split: sum.splits prod.splits)
  qed (simp_all add: Scripts_def)
  show "DeferredHydrationScript_children env rid k d =
     map_sum id
       (\<lambda>s. \<lparr>inline_html =
                str ''__remixContext.r('' @ JSON_string env rid @ str '', '' @
                JSON_string env k @ str '', '' @ escapeHtml s @ str '');'',
              inline_async = True\<rparr>)
       (JSON_data env d)"
    by (simp add: DeferredHydrationScript_children_def split: sum.splits)
  show "ErrorDeferredHydrationScript env k' rid' r =
     map_sum id
       (\<lambda>s. \<lparr>inline_html =
                str ''__remixContext.r('' @ JSON_string env rid' @ str '', '' @
                JSON_string env k' @ str '', !1, '' @ escapeHtml s @ str '');'',
              inline_async = False\<rparr>)
       (toSerialize env r)"
    by (simp add: ErrorDeferredHydrationScript_def split: sum.splits)
qed

theorem deferred_scripts_same_for_every_prefix_witness:
  "map_sum id
     (\<lambda>out. (map (\<lambda>props. (props, DeferredHydrationScript (ex_env True) props))
                (out_deferredScripts out),
             map_option (\<lambda>(s1, s2). el_html s1) (out_initialScripts out)))
     (Scripts (ex_env True) (ex_props (Some (str ''https://cdn.example''))) (Some ex_remix)
        (Some ex_server) (Some ex_state) \<lparr>nav_location = None\<rparr> False None) =
   Inr ([(ex_a,
          Inr \<lparr>fallback = None,
               children = Await (Some \<lparr>p_error = None, p_data = None\<rparr>) (str ''root'') (str ''a'')\<rparr>)],
        Some (str ''window.__remixContext = {};'' @ remixContextHelpers (ex_env True) None @
              str ''Object.assign(__remixContext.state.loaderData[\"root\"], {\"a\":__remixContext.n(\"root\", \"a\"),'' @
              [0x0A] @ str ''\"b\":__remixContext.p(\"/x.js\"),'' @
              [0x0A] @ str ''\"c\":__remixContext.p(!1, {\"message\":\"no\"})});'' @
              str ''__remixContext.a=1;'')) \<and>
   DeferredHydrationScript_children (ex_env True) (str ''root'') (str ''a'') (str ''a<b'') =
     Inr \<lparr>inline_html =
            str ''__remixContext.r(\"root\", \"a\", \"a'' @ 0x5C # str ''u003cb\");'',
          inline_async = True\<rparr> \<and>
   ErrorDeferredHydrationScript (ex_env True) (str ''c'') (str ''root'')
     (Rejection \<lparr>error_message = Some (str ''no''), error_stack = None\<rparr>) =
     Inr \<lparr>inline_html = str ''__remixContext.r(\"root\", \"c\", !1, {\"message\":\"no\"});'',
          inline_async = False\<rparr>"
proof -
  have d: "DeferredHydrationScript (ex_env True) ex_a =
     Inr \<lparr>fallback = None,
          children = Await (Some \<lparr>p_error = None, p_data = None\<rparr>) (str ''root'') (str ''a'')\<rparr>"
    by (simp add: DeferredHydrationScript_def on_server_def invariant_def ex_a_def ex_env_def
        ex_deferred_def str_def)
  have j: "JSON_data (ex_env True) (str ''a<b'') = Inr (str ''\"a<b\"'')"
    "JSON_string (ex_env True) (str ''root'') = str ''\"root\"''"
    "JSON_string (ex_env True) (str ''a'') = str ''\"a\"''"
    "JSON_string (ex_env True) (str ''c'') = str ''\"c\"''"
    "toSerialize (ex_env True) (Rejection \<lparr>error_message = Some (str ''no''), error_stack = None\<rparr>) =
       Inr (str ''{\"message\":\"no\"}'')"
    "escapeHtml (str ''\"a<b\"'') = str ''\"a'' @ 0x5C # str ''u003cb\"''"
    "escapeHtml (str ''{\"message\":\"no\"}'') = str ''{\"message\":\"no\"}''"
    by (simp_all add: ex_env_def quote_def toSerialize_def escapeHtml_def ESCAPE_REGEX_def
        ESCAPE_LOOKUP_def str_def)
  have "map_sum id
     (\<lambda>out. (map (\<lambda>props. (props, DeferredHydrationScript (ex_env True) props))
                (out_deferredScripts out),
             map_option (\<lambda>(s1, s2). s1) (out_initialScripts out)))
     (Scripts (ex_env True) (ex_props None) (Some ex_remix)
        (Some ex_server) (Some ex_state) \<lparr>nav_location = None\<rparr> False None) =
   Inr ([(ex_a,
          Inr \<lparr>fallback = None,
               children = Await (Some \<lparr>p_error = None, p_data = None\<rparr>) (str ''root'') (str ''a'')\<rparr>)],
        Some \<lparr>el_crossOrigin = None, el_attrs = (),
               el_html =
                 str ''window.__remixContext = {};'' @ remixContextHelpers (ex_env True) None @
                 str ''Object.assign(__remixContext.state.loaderData[\"root\"], {\"a\":__remixContext.n(\"root\", \"a\"),'' @
                 [0x0A] @ str ''\"b\":__remixContext.p(\"/x.js\"),'' @
                 [0x0A] @ str ''\"c\":__remixContext.p(!1, {\"message\":\"no\"})});'' @
                 str ''__remixContext.a=1;'',
               el_type = None, el_async = False\<rparr>)"
    by (simp add: ex_Scripts_server d)
  with deferred_scripts_same_for_every_prefix
    [of "ex_env True" "Some (str ''https://cdn.example'')" "ex_props None" "Some ex_remix"
      "Some ex_server" "Some ex_state" "\<lparr>nav_location = None\<rparr>" False None None
      "str ''root''" "str ''a''" "str ''a<b''" "str ''c''" "str ''root''"
      "Rejection \<lparr>error_message = Some (str ''no''), error_stack = None\<rparr>"]
  have all: "map_sum id
     (\<lambda>out. (map (\<lambda>props. (props, DeferredHydrationScript (ex_env True) props))
                (out_deferredScripts out),
             map_option (\<lambda>(s1, s2). s1) (out_initialScripts out)))
     (Scripts (ex_env True) (ex_props (Some (str ''https://cdn.example''))) (Some ex_remix)
        (Some ex_server) (Some ex_state) \<lparr>nav_location = None\<rparr> False None) =
   Inr ([(ex_a,
          Inr \<lparr>fallback = None,
               children = Await (Some \<lparr>p_error = None, p_data = None\<rparr>) (str ''root'') (str ''a'')\<rparr>)],
        Some \<lparr>el_crossOrigin = None, el_attrs = (),
               el_html =
                 str ''window.__remixContext = {};'' @ remixContextHelpers (ex_env True) None @
                 str ''Object.assign(__remixContext.state.loaderData[\"root\"], {\"a\":__remixContext.n(\"root\", \"a\"),'' @
                 [0x0A] @ str ''\"b\":__remixContext.p(\"/x.js\"),'' @
                 [0x0A] @ str ''\"c\":__remixContext.p(!1, {\"message\":\"no\"})});'' @
                 str ''__remixContext.a=1;'',
               el_type = None, el_async = False\<rparr>)"
    and ch: "DeferredHydrationScript_children (ex_env True) (str ''root'') (str ''a'') (str ''a<b'') =
     map_sum id
       (\<lambda>s. \<lparr>inline_html =
                str ''__remixContext.r('' @ JSON_string (ex_env True) (str ''root'') @ str '', '' @
                JSON_string (ex_env True) (str ''a'') @ str '', '' @ escapeHtml s @ str '');'',
              inline_async = True\<rparr>)
       (JSON_data (ex_env True) (str ''a<b''))"
    and er: "ErrorDeferredHydrationScript (ex_env True) (str ''c'') (str ''root'')
       (Rejection \<lparr>error_message = Some (str ''no''), error_stack = None\<rparr>) =
     map_sum id
       (\<lambda>s. \<lparr>inline_html =
                str ''__remixContext.r('' @ JSON_string (ex_env True) (str ''root'') @ str '', '' @
                JSON_string (ex_env True) (str ''c'') @ str '', !1, '' @ escapeHtml s @ str '');'',
              inline_async = False\<rparr>)
       (toSerialize (ex_env True)
          (Rejection \<lparr>error_message = Some (str ''no''), error_stack = None\<rparr>))"
    by (simp_all add: ex_props_def)
  from all have 1: "map_sum id
     (\<lambda>out. (map (\<lambda>props. (props, DeferredHydrationScript (ex_env True) props))
                (out_deferredScripts out),
             map_option (\<lambda>(s1, s2). el_html s1) (out_initialScripts out)))
     (Scripts (ex_env True) (ex_props (Some (str ''https://cdn.example''))) (Some ex_remix)
        (Some ex_server) (Some ex_state) \<lparr>nav_location = None\<rparr> False None) =
   Inr ([(ex_a,
          Inr \<lparr>fallback = None,
               children = Await (Some \<lparr>p_error = None, p_data = None\<rparr>) (str ''root'') (str ''a'')\<rparr>)],
        Some (str ''window.__remixContext = {};'' @ remixContextHelpers (ex_env True) None @
              str ''Object.assign(__remixContext.state.loaderData[\"root\"], {\"a\":__remixContext.n(\"root\", \"a\"),'' @
              [0x0A] @ str ''\"b\":__remixContext.p(\"/x.js\"),'' @
              [0x0A] @ str ''\"c\":__remixContext.p(!1, {\"message\":\"no\"})});'' @
              str ''__remixContext.a=1;''))"
    by (cases "Scripts (ex_env True) (ex_props (Some (str ''https://cdn.example''))) (Some ex_remix)
        (Some ex_server) (Some ex_state) \<lparr>nav_location = None\<rparr> False None")
      (auto split: prod.splits)
  have 2: "DeferredHydrationScript_children (ex_env True) (str ''root'') (str ''a'') (str ''a<b'') =
     Inr \<lparr>inline_html =
            str ''__remixContext.r(\"root\", \"a\", \"a'' @ 0x5C # str ''u003cb\");'',
          inline_async = True\<rparr>"
    apply (simp add: ch j)
    apply (simp add: str_def)
    done
  have 3: "ErrorDeferredHydrationScript (ex_env True) (str ''c'') (str ''root'')
     (Rejection \<lparr>error_message = Some (str ''no''), error_stack = None\<rparr>) =
     Inr \<lparr>inline_html = str ''__remixContext.r(\"root\", \"c\", !1, {\"message\":\"no\"});'',
          inline_async = False\<rparr>"
    apply (simp add: er j)
    apply (simp add: str_def)
    done
  from 1 2 3 show ?thesis by blast
qed

text \<open>
  The claim as it was stated fails where a deferred datum is a URL, the one
  place where a deferred hydration script can carry one (the scripts are inline
  and have no \<^verbatim>\<open>src\<close>). With the prefix \<^verbatim>\<open>https://cdn.example\<close>: the key \<^verbatim>\<open>b\<close> of the
  route \<^verbatim>\<open>root\<close> has settled with the string \<^verbatim>\<open>/x.js\<close>, and the context script
  assigns it as \<^verbatim>\<open>__remixContext.p("/x.js")\<close>, without the prefix; the key \<^verbatim>\<open>a\<close> is
  pending, its \<^verbatim>\<open>DeferredHydrationScript\<close> element renders an \<^verbatim>\<open>Await\<close> of the
  promise of the key, and the script that the \<^verbatim>\<open>children\<close> callback of that
  \<^verbatim>\<open>Await\<close> renders for the datum \<^verbatim>\<open>/x.js\<close> is \<^verbatim>\<open>__remixContext.r("root", "a", "/x.js");\<close>,
  without the prefix.
\<close>

theorem deferred_script_url_not_prefixed:
  "data ex_deferred (str ''b'') = Some \<lparr>p_error = None, p_data = Some (str ''/x.js'')\<rparr> \<and>
   (\<exists>out s1 s2.
      Scripts (ex_env True) (ex_props (Some (str ''https://cdn.example''))) (Some ex_remix)
        (Some ex_server) (Some ex_state) \<lparr>nav_location = None\<rparr> False None = Inr out \<and>
      out_initialScripts out = Some (s1, s2) \<and>
      el_html s1 =
        str ''window.__remixContext = {};'' @ remixContextHelpers (ex_env True) None @
        str ''Object.assign(__remixContext.state.loaderData[\"root\"], {\"a\":__remixContext.n(\"root\", \"a\"),'' @
        [0x0A] @ str ''\"b\":__remixContext.p(\"/x.js\"),'' @
        [0x0A] @ str ''\"c\":__remixContext.p(!1, {\"message\":\"no\"})});'' @
        str ''__remixContext.a=1;'' \<and>
      out_deferredScripts out = [ex_a]) \<and>
   DeferredHydrationScript (ex_env True) ex_a =
     Inr \<lparr>fallback = None,
          children = Await (data ex_deferred (str ''a'')) (str ''root'') (str ''a'')\<rparr> \<and>
   DeferredHydrationScript_children (ex_env True) (str ''root'') (str ''a'') (str ''/x.js'') =
     Inr \<lparr>inline_html = str ''__remixContext.r(\"root\", \"a\", \"/x.js\");'',
          inline_async = True\<rparr>"
proof (intro conjI)
  show "data ex_deferred (str ''b'') = Some \<lparr>p_error = None, p_data = Some (str ''/x.js'')\<rparr>"
    by (simp add: ex_deferred_def str_def)
  show "\<exists>out s1 s2.
      Scripts (ex_env True) (ex_props (Some (str ''https://cdn.example''))) (Some ex_remix)
        (Some ex_server) (Some ex_state) \<lparr>nav_location = None\<rparr> False None = Inr out \<and>
      out_initialScripts out = Some (s1, s2) \<and>
      el_html s1 =
        str ''window.__remixContext = {};'' @ remixContextHelpers (ex_env True) None @
        str ''Object.assign(__remixContext.state.loaderData[\"root\"], {\"a\":__remixContext.n(\"root\", \"a\"),'' @
        [0x0A] @ str ''\"b\":__remixContext.p(\"/x.js\"),'' @
        [0x0A] @ str ''\"c\":__remixContext.p(!1, {\"message\":\"no\"})});'' @
        str ''__remixContext.a=1;'' \<and>
      out_deferredScripts out = [ex_a]"
    by (simp add: ex_Scripts_server)
  show "DeferredHydrationScript (ex_env True) ex_a =
     Inr \<lparr>fallback = None,
          children = Await (data ex_deferred (str ''a'')) (str ''root'') (str ''a'')\<rparr>"
    by (simp add: DeferredHydrationScript_def on_server_def invariant_def ex_a_def ex_env_def
        ex_deferred_def str_def)
  show "DeferredHydrationScript_children (ex_env True) (str ''root'') (str ''a'') (str ''/x.js'') =
     Inr \<lparr>inline_html = str ''__remixContext.r(\"root\", \"a\", \"/x.js\");'',
          inline_async = True\<rparr>"
    by (simp add: DeferredHydrationScript_children_def ex_env_def quote_def escapeHtml_def
        ESCAPE_REGEX_def ESCAPE_LOOKUP_def str_def)
qed

section \<open>Errors of deferred data\<close>

lemma promiseKeyValue_returns:
  "(\<exists>r. promiseKeyValue env rid dd k ds = Inr r) = (assigned_call env rid dd k \<noteq> None)"
proof
  assume "\<exists>r. promiseKeyValue env rid dd k ds = Inr r"
  then obtain s ds' where "promiseKeyValue env rid dd k ds = Inr (s, ds')"
    by auto
  from promiseKeyValue_Inr(1) [OF this] show "assigned_call env rid dd k \<noteq> None"
    by auto
next
  assume "assigned_call env rid dd k \<noteq> None"
  then obtain c where "assigned_call env rid dd k = Some c"
    by auto
  from promiseKeyValue_assigned [OF this, of ds] show "\<exists>r. promiseKeyValue env rid dd k ds = Inr r"
    by simp
qed

lemma promiseKeyValue_unresolved:
  assumes "k \<notin> set (pendingKeys dd)" "data dd k = Some tp" "p_error tp = None" "p_data tp = None"
  shows "promiseKeyValue env rid dd k ds = Inl (Error (not_resolved_message k))"
  using assms by (simp add: promiseKeyValue_def)

lemma Scripts_throws_on_unresolved:
  assumes "k \<notin> set (pendingKeys dd)" "data dd k = Some tp" "p_error tp = None" "p_data tp = None"
    and "staticContext dr = Some sc" "activeDeferreds sc = Some entries"
    and "(rid, dd) \<in> set entries" "k \<in> set (deferredKeys dd)"
  shows "\<exists>e. Scripts env p (Some rc) (Some dr) (Some rs) nav hyd g = Inl e"
proof (cases "Scripts env p (Some rc) (Some dr) (Some rs) nav hyd g")
  case (Inl e)
  then show ?thesis by blast
next
  case (Inr out)
  from Scripts_Inr [OF Inr] obtain cs pushed where
    c: "contextScript env rc dr = Inr (cs, pushed)"
    by blast
  have "deferreds_of dr = entries"
    using assms(5,6) by (simp add: deferreds_of_def)
  with contextScript_Inr(3) [OF c] assms(7,8) have "assigned_call env rid dd k \<noteq> None"
    by fastforce
  with promiseKeyValue_returns [of env rid dd k "[]"]
    promiseKeyValue_unresolved [OF assms(1-4), of env rid "[]"]
  show ?thesis by simp
qed

lemma Scripts_first_unresolved:
  assumes "k \<notin> set (pendingKeys dd)" "data dd k = Some tp" "p_error tp = None" "p_data tp = None"
    and "staticContext dr = Some sc"
    and "activeDeferreds sc = Some (before @ (rid, dd) # after)"
    and "deferredKeys dd = ks @ k # ks'"
    and "\<forall>(rid0, dd0) \<in> set before. \<forall>k0 \<in> set (deferredKeys dd0).
           \<exists>r. promiseKeyValue env rid0 dd0 k0 [] = Inr r"
    and "\<forall>k0 \<in> set ks. \<exists>r. promiseKeyValue env rid dd k0 [] = Inr r"
  shows "Scripts env p (Some rc) (Some dr) (Some rs) nav hyd g =
         Inl (Error (not_resolved_message k))"
proof -
  have b: "\<forall>(rid', dd') \<in> set before. \<forall>k' \<in> set (deferredKeys dd').
             assigned_call env rid' dd' k' \<noteq> None"
    using assms(8) unfolding promiseKeyValue_returns .
  have ks: "\<forall>k' \<in> set ks. assigned_call env rid dd k' \<noteq> None"
    using assms(9) unfolding promiseKeyValue_returns .
  from contextScript_first_error
    [OF assms(5,6) b assms(7) ks promiseKeyValue_unresolved [OF assms(1-4), of env rid "[]"]]
  have "contextScript env rc dr = Inl (Error (not_resolved_message k))" .
  from Scripts_contextScript_error [OF this] show ?thesis .
qed

text \<open>
  Claim C4, as amended. Malformed or unresolved deferred data makes script
  generation throw with a descriptive message: (i) during the generation of the
  initial scripts, the callback for a deferred key that is not in \<^verbatim>\<open>pendingKeys\<close>
  and whose tracked promise has neither an \<^verbatim>\<open>_error\<close> nor a defined \<^verbatim>\<open>_data\<close> throws
  an error naming that key; \<^verbatim>\<open>Scripts\<close> throws whenever \<^verbatim>\<open>activeDeferreds\<close> has such
  a key, and the error it throws is the one naming the key when the callback
  returns for every key before it (the keys of the routes before its route in
  \<^verbatim>\<open>activeDeferreds\<close>, and the keys before it in the \<^verbatim>\<open>deferredKeys\<close> of its route);
  (ii) on the server, \<^verbatim>\<open>DeferredHydrationScript\<close>, given deferred data, a
  non-empty route id and a non-empty key that is not in the \<^verbatim>\<open>pendingKeys\<close> of the
  deferred data, throws an error whose message names the route id and the key.
\<close>

theorem deferred_data_errors:
  "(k \<notin> set (pendingKeys dd) \<and> data dd k = Some tp \<and> p_error tp = None \<and> p_data tp = None \<longrightarrow>
      promiseKeyValue env rid dd k ds =
        Inl (Error (str ''The deferred data for '' @ k @
                    str '' was not resolved, did you forget to return data from a deferred promise?'')) \<and>
      (staticContext dr = Some sc \<and> activeDeferreds sc = Some entries \<and>
       (rid, dd) \<in> set entries \<and> k \<in> set (deferredKeys dd) \<longrightarrow>
         (\<exists>e. Scripts env p (Some rc) (Some dr) (Some rs) nav hyd g = Inl e)) \<and>
      (staticContext dr = Some sc \<and> activeDeferreds sc = Some (before @ (rid, dd) # after) \<and>
       deferredKeys dd = ks @ k # ks' \<and>
       (\<forall>(rid0, dd0) \<in> set before. \<forall>k0 \<in> set (deferredKeys dd0).
          \<exists>r. promiseKeyValue env rid0 dd0 k0 [] = Inr r) \<and>
       (\<forall>k0 \<in> set ks. \<exists>r. promiseKeyValue env rid dd k0 [] = Inr r) \<longrightarrow>
         Scripts env p (Some rc) (Some dr) (Some rs) nav hyd g =
           Inl (Error (str ''The deferred data for '' @ k @
                       str '' was not resolved, did you forget to return data from a deferred promise?'')))) \<and>
   (document_undefined env \<and> k' \<noteq> [] \<and> rid' \<noteq> [] \<and> k' \<notin> set (pendingKeys dd') \<longrightarrow>
      DeferredHydrationScript env
        \<lparr>dataKey = Some k', deferredData = Some dd', routeId = Some rid'\<rparr> =
      Inl (Error (str ''Deferred data for route '' @ rid' @ str '' with key '' @ k' @
                  str '' was not pending but tried to render a script for it.'')))"
proof (intro conjI impI)
  assume a: "k \<notin> set (pendingKeys dd) \<and> data dd k = Some tp \<and> p_error tp = None \<and> p_data tp = None"
  then show "promiseKeyValue env rid dd k ds =
        Inl (Error (str ''The deferred data for '' @ k @
                    str '' was not resolved, did you forget to return data from a deferred promise?''))"
    by (simp add: promiseKeyValue_def not_resolved_message_def)
  {
    assume "staticContext dr = Some sc \<and> activeDeferreds sc = Some entries \<and>
       (rid, dd) \<in> set entries \<and> k \<in> set (deferredKeys dd)"
    with a show "\<exists>e. Scripts env p (Some rc) (Some dr) (Some rs) nav hyd g = Inl e"
      using Scripts_throws_on_unresolved [of k dd tp dr sc entries rid env p rc rs nav hyd g]
      by blast
  }
  {
    assume f: "staticContext dr = Some sc \<and> activeDeferreds sc = Some (before @ (rid, dd) # after) \<and>
       deferredKeys dd = ks @ k # ks' \<and>
       (\<forall>(rid0, dd0) \<in> set before. \<forall>k0 \<in> set (deferredKeys dd0).
          \<exists>r. promiseKeyValue env rid0 dd0 k0 [] = Inr r) \<and>
       (\<forall>k0 \<in> set ks. \<exists>r. promiseKeyValue env rid dd k0 [] = Inr r)"
    have "Scripts env p (Some rc) (Some dr) (Some rs) nav hyd g =
           Inl (Error (not_resolved_message k))"
      by (rule Scripts_first_unresolved [of k dd tp dr sc before rid after ks ks' env])
        (use a f in blast)+
    then show "Scripts env p (Some rc) (Some dr) (Some rs) nav hyd g =
           Inl (Error (str ''The deferred data for '' @ k @
                       str '' was not resolved, did you forget to return data from a deferred promise?''))"
      by (simp add: not_resolved_message_def)
  }
next
  assume "document_undefined env \<and> k' \<noteq> [] \<and> rid' \<noteq> [] \<and> k' \<notin> set (pendingKeys dd')"
  then show "DeferredHydrationScript env
        \<lparr>dataKey = Some k', deferredData = Some dd', routeId = Some rid'\<rparr> =
      Inl (Error (str ''Deferred data for route '' @ rid' @ str '' with key '' @ k' @
                  str '' was not pending but tried to render a script for it.''))"
    by (simp add: DeferredHydrationScript_def on_server_def invariant_def not_pending_message_def)
qed

theorem deferred_data_errors_witness:
  "promiseKeyValue (ex_env True) (str ''page'') ex_late (str ''a'') [] =
     Inl (Error (str ''The deferred data for a was not resolved, did you forget to return data from a deferred promise?'')) \<and>
   promiseKeyValue (ex_env True) (str ''page'') ex_late (str ''b'') [] =
     Inr (str ''\"b\":__remixContext.p(\"/x.js\")'', []) \<and>
   Scripts (ex_env True) (ex_props None) (Some ex_remix) (Some ex_late_server)
     (Some ex_state) \<lparr>nav_location = None\<rparr> False None =
     Inl (Error (str ''The deferred data for a was not resolved, did you forget to return data from a deferred promise?'')) \<and>
   DeferredHydrationScript (ex_env True)
     \<lparr>dataKey = Some (str ''a''), deferredData = Some ex_late, routeId = Some (str ''page'')\<rparr> =
   Inl (Error (str ''Deferred data for route page with key a was not pending but tried to render a script for it.''))"
proof -
  have h: "str ''a'' \<notin> set (pendingKeys ex_late)"
    "data ex_late (str ''a'') = Some \<lparr>p_error = None, p_data = None\<rparr>"
    "staticContext ex_late_server =
       Some \<lparr>activeDeferreds = Some ([(str ''root'', ex_deferred)] @ (str ''page'', ex_late) # [])\<rparr>"
    "deferredKeys ex_late = [str ''b''] @ str ''a'' # []"
    "str ''a'' \<in> set (deferredKeys ex_late)"
    "document_undefined (ex_env True)" "str ''a'' \<noteq> []" "str ''page'' \<noteq> []"
    by (simp_all add: ex_late_def ex_late_server_def ex_env_def str_def)
  have b: "promiseKeyValue (ex_env True) (str ''page'') ex_late (str ''b'') [] =
     Inr (str ''\"b\":__remixContext.p(\"/x.js\")'', [])"
    by (simp add: promiseKeyValue_def ex_late_def ex_env_def quote_def escapeHtml_def
        ESCAPE_REGEX_def ESCAPE_LOOKUP_def str_def)
  have r: "promiseKeyValue (ex_env True) (str ''root'') ex_deferred (str ''a'') [] =
       Inr (str ''\"a\":__remixContext.n(\"root\", \"a\")'', [ex_a])"
    "promiseKeyValue (ex_env True) (str ''root'') ex_deferred (str ''b'') [] =
       Inr (str ''\"b\":__remixContext.p(\"/x.js\")'', [])"
    "promiseKeyValue (ex_env True) (str ''root'') ex_deferred (str ''c'') [] =
       Inr (str ''\"c\":__remixContext.p(!1, {\"message\":\"no\"})'', [])"
    by (simp_all add: promiseKeyValue_def ex_deferred_def ex_a_def ex_env_def quote_def
        toSerialize_def escapeHtml_def ESCAPE_REGEX_def ESCAPE_LOOKUP_def str_def)
  have keys: "deferredKeys ex_deferred = [str ''a'', str ''b'', str ''c'']"
    by (simp add: ex_deferred_def)
  have before: "\<forall>(rid0, dd0) \<in> set [(str ''root'', ex_deferred)]. \<forall>k0 \<in> set (deferredKeys dd0).
          \<exists>r. promiseKeyValue (ex_env True) rid0 dd0 k0 [] = Inr r"
    by (simp add: keys r)
  have ks: "\<forall>k0 \<in> set [str ''b'']. \<exists>r. promiseKeyValue (ex_env True) (str ''page'') ex_late k0 [] = Inr r"
    by (simp add: b)
  have sc: "activeDeferreds
       \<lparr>activeDeferreds = Some ([(str ''root'', ex_deferred)] @ (str ''page'', ex_late) # [])\<rparr> =
     Some ([(str ''root'', ex_deferred)] @ (str ''page'', ex_late) # [])"
    by simp
  note t = deferred_data_errors
    [where k = "str ''a''" and dd = ex_late and tp = "\<lparr>p_error = None, p_data = None\<rparr>"
      and env = "ex_env True" and rid = "str ''page''" and ds = "[]" and dr = ex_late_server
      and sc = "\<lparr>activeDeferreds = Some ([(str ''root'', ex_deferred)] @ (str ''page'', ex_late) # [])\<rparr>"
      and entries = "[(str ''root'', ex_deferred)] @ (str ''page'', ex_late) # []"
      and before = "[(str ''root'', ex_deferred)]" and after = "[]" and ks = "[str ''b'']"
      and ks' = "[]" and p = "ex_props None" and rc = ex_remix and rs = ex_state
      and nav = "\<lparr>nav_location = None\<rparr>" and hyd = False and g = None
      and k' = "str ''a''" and rid' = "str ''page''" and dd' = ex_late]
  from conjunct1 [OF t] h(1,2) have i: "promiseKeyValue (ex_env True) (str ''page'') ex_late (str ''a'') [] =
        Inl (Error (str ''The deferred data for '' @ str ''a'' @
                    str '' was not resolved, did you forget to return data from a deferred promise?'')) \<and>
      (\<exists>e. Scripts (ex_env True) (ex_props None) (Some ex_remix) (Some ex_late_server)
             (Some ex_state) \<lparr>nav_location = None\<rparr> False None = Inl e) \<and>
      Scripts (ex_env True) (ex_props None) (Some ex_remix) (Some ex_late_server)
         (Some ex_state) \<lparr>nav_location = None\<rparr> False None =
           Inl (Error (str ''The deferred data for '' @ str ''a'' @
                       str '' was not resolved, did you forget to return data from a deferred promise?''))"
    using h(3,4,5) sc before ks by simp
  from conjunct2 [OF t] h(1,6,7,8) have ii: "DeferredHydrationScript (ex_env True)
     \<lparr>dataKey = Some (str ''a''), deferredData = Some ex_late, routeId = Some (str ''page'')\<rparr> =
      Inl (Error (str ''Deferred data for route '' @ str ''page'' @ str '' with key '' @ str ''a'' @
                  str '' was not pending but tried to render a script for it.''))"
    by simp
  from i ii b show ?thesis
    by (simp add: str_def)
qed

text \<open>
  The claim as it was stated fails twice. (i) With two deferred keys \<^verbatim>\<open>a\<close> and
  \<^verbatim>\<open>b\<close>, in this order, that are not pending and whose promises have neither an
  error nor data, the error that \<^verbatim>\<open>Scripts\<close> throws names \<^verbatim>\<open>a\<close>: none is thrown that
  names \<^verbatim>\<open>b\<close>. (ii) On the server, for the empty key, which is not in the
  \<^verbatim>\<open>pendingKeys\<close> of the deferred data, \<^verbatim>\<open>DeferredHydrationScript\<close> does not throw
  and renders the blank script.
\<close>

theorem later_key_not_named_empty_key_not_checked:
  "str ''b'' \<in> set (deferredKeys ex_lost2) \<and> str ''b'' \<notin> set (pendingKeys ex_lost2) \<and>
   data ex_lost2 (str ''b'') = Some \<lparr>p_error = None, p_data = None\<rparr> \<and>
   Scripts (ex_env True) (ex_props None) (Some ex_remix) (Some ex_lost2_server)
     (Some ex_state) \<lparr>nav_location = None\<rparr> False None =
     Inl (Error (str ''The deferred data for a was not resolved, did you forget to return data from a deferred promise?'')) \<and>
   Scripts (ex_env True) (ex_props None) (Some ex_remix) (Some ex_lost2_server)
     (Some ex_state) \<lparr>nav_location = None\<rparr> False None \<noteq>
     Inl (Error (str ''The deferred data for b was not resolved, did you forget to return data from a deferred promise?'')) \<and>
   document_undefined (ex_env True) \<and> [] \<notin> set (pendingKeys ex_lost) \<and>
   DeferredHydrationScript (ex_env True)
     \<lparr>dataKey = Some [], deferredData = Some ex_lost, routeId = Some (str ''root'')\<rparr> =
   Inr \<lparr>fallback = Some blank_script, children = Blank blank_script\<rparr>"
proof -
  have k: "str ''b'' \<in> set (deferredKeys ex_lost2) \<and> str ''b'' \<notin> set (pendingKeys ex_lost2) \<and>
   data ex_lost2 (str ''b'') = Some \<lparr>p_error = None, p_data = None\<rparr>"
    by (simp add: ex_lost2_def str_def)
  have c: "contextScript (ex_env True) ex_remix ex_lost2_server =
     Inl (Error (str ''The deferred data for a was not resolved, did you forget to return data from a deferred promise?''))"
    by (simp add: contextScript_def ex_lost2_server_def ex_lost2_def objectAssign_def
        promiseKeyValue_def not_resolved_message_def str_def)
  have s: "Scripts (ex_env True) (ex_props None) (Some ex_remix) (Some ex_lost2_server)
     (Some ex_state) \<lparr>nav_location = None\<rparr> False None =
     Inl (Error (str ''The deferred data for a was not resolved, did you forget to return data from a deferred promise?''))"
    by (rule Scripts_contextScript_error [OF c])
  have n: "Scripts (ex_env True) (ex_props None) (Some ex_remix) (Some ex_lost2_server)
     (Some ex_state) \<lparr>nav_location = None\<rparr> False None \<noteq>
     Inl (Error (str ''The deferred data for b was not resolved, did you forget to return data from a deferred promise?''))"
    unfolding s by (simp add: str_def)
  have e: "document_undefined (ex_env True) \<and> [] \<notin> set (pendingKeys ex_lost) \<and>
   DeferredHydrationScript (ex_env True)
     \<lparr>dataKey = Some [], deferredData = Some ex_lost, routeId = Some (str ''root'')\<rparr> =
   Inr \<lparr>fallback = Some blank_script, children = Blank blank_script\<rparr>"
    by (simp add: DeferredHydrationScript_def on_server_def ex_env_def ex_lost_def)
  from k s n e show ?thesis by blast
qed

section \<open>Links and its prefix\<close>

lemma ex_getLinksForMatches:
  "getLinksForMatches ex_stringify (Some (matches ex_state)) (Some (routeModules ex_remix))
     (Some (manifest ex_remix)) (Some (str ''//cdn'')) [] =
   Inr ([2, 3],
        [ex_sheet (str ''//cdn/a.css''), ex_page (str ''/next''),
         ex_sheet (str ''/a.css''), ex_page (str ''/next'')])"
  by (simp add: getLinksForMatches_def ex_state_def ex_remix_def call_links_def ex_links_def
      prefix_stylesheet_def isPageLinkDescriptor_def ex_sheet_def ex_page_def
      getCurrentPageModulePreloadHrefs_def dedupeHrefs_def ex_manifest_def ex_stringify_def
      Let_def str_def numeral_2_eq_2 numeral_3_eq_3)

text \<open>
  Claim C2 says that \<^verbatim>\<open>Links\<close> emits every stylesheet descriptor of a matched
  route module with the prefix in front of its href, and every page descriptor
  with the prefix in front of its page, exactly once, however often \<^verbatim>\<open>Links\<close>
  renders. The code does so at the first render only: at the next render, with
  \<^verbatim>\<open>matches\<close>, \<^verbatim>\<open>routeModules\<close>, \<^verbatim>\<open>manifest\<close> and \<^verbatim>\<open>prefix\<close> unchanged,
  \<^verbatim>\<open>useMemo\<close> returns the same descriptor objects and the \<^verbatim>\<open>forEach\<close> of \<^verbatim>\<open>Links\<close>
  puts the prefix in front of the href and of the page a second time.
\<close>

theorem Links_rerender_prefixes_twice:
  "Links ex_stringify (Some (str ''//cdn'')) (Some ex_remix) (Some ex_state) None [] =
     Inr ([LinkTag (ex_sheet (str ''//cdn/a.css'')),
           PrefetchPageLinks (ex_page (str ''//cdn/next''))],
          [2, 3],
          [ex_sheet (str ''//cdn/a.css''), ex_page (str ''/next''),
           ex_sheet (str ''//cdn/a.css''), ex_page (str ''//cdn/next'')]) \<and>
   Links ex_stringify (Some (str ''//cdn'')) (Some ex_remix) (Some ex_state) (Some [2, 3])
     [ex_sheet (str ''//cdn/a.css''), ex_page (str ''/next''),
      ex_sheet (str ''//cdn/a.css''), ex_page (str ''//cdn/next'')] =
     Inr ([LinkTag (ex_sheet (str ''//cdn//cdn/a.css'')),
           PrefetchPageLinks (ex_page (str ''//cdn//cdn/next''))],
          [2, 3],
          [ex_sheet (str ''//cdn/a.css''), ex_page (str ''/next''),
           ex_sheet (str ''//cdn//cdn/a.css''), ex_page (str ''//cdn//cdn/next'')])"
proof
  show "Links ex_stringify (Some (str ''//cdn'')) (Some ex_remix) (Some ex_state) None [] =
     Inr ([LinkTag (ex_sheet (str ''//cdn/a.css'')),
           PrefetchPageLinks (ex_page (str ''//cdn/next''))],
          [2, 3],
          [ex_sheet (str ''//cdn/a.css''), ex_page (str ''/next''),
           ex_sheet (str ''//cdn/a.css''), ex_page (str ''//cdn/next'')])"
    unfolding Links_def option.case option.map ex_getLinksForMatches
    by (simp add: parseLink_def isPageLinkDescriptor_def
        ex_sheet_def ex_page_def addPrefix_def Let_def str_def numeral_2_eq_2 numeral_3_eq_3)
  show "Links ex_stringify (Some (str ''//cdn'')) (Some ex_remix) (Some ex_state) (Some [2, 3])
     [ex_sheet (str ''//cdn/a.css''), ex_page (str ''/next''),
      ex_sheet (str ''//cdn/a.css''), ex_page (str ''//cdn/next'')] =
     Inr ([LinkTag (ex_sheet (str ''//cdn//cdn/a.css'')),
           PrefetchPageLinks (ex_page (str ''//cdn//cdn/next''))],
          [2, 3],
          [ex_sheet (str ''//cdn/a.css''), ex_page (str ''/next''),
           ex_sheet (str ''//cdn//cdn/a.css''), ex_page (str ''//cdn//cdn/next'')])"
    by (simp add: Links_def parseLink_def isPageLinkDescriptor_def
        ex_sheet_def ex_page_def addPrefix_def Let_def str_def numeral_2_eq_2 numeral_3_eq_3)
qed

end

